theory Spec2Isabelle
  imports Main "HOL-Library.Char_ord"
begin

section \<open>The opap client: a shallow embedding\<close>

text \<open>
  The Go package \<^verbatim>\<open>opap\<close> is a thin client: it formats a relative path, resolves it
  against a base URL, sends one GET through an injected HTTP client, classifies the status
  and decodes the JSON body into an envelope. Its own code is the last part of this
  development's definitions. Everything that code calls in Go's standard library
  (\<^verbatim>\<open>fmt\<close>, \<^verbatim>\<open>strings\<close>, \<^verbatim>\<open>net/url\<close>, \<^verbatim>\<open>net/http\<close>, \<^verbatim>\<open>io/ioutil\<close>,
  \<^verbatim>\<open>encoding/json\<close>) is modelled first, function by function and under the library's
  names, after the library of the Go release the repository's build pins (1.9).
  Go strings are byte strings: \<^typ>\<open>string\<close>, a list of 8-bit characters.
\<close>

subsection \<open>Bytes\<close>

definition byte :: "nat \<Rightarrow> char" where
  "byte n = Char (odd n) (odd (n div 2)) (odd (n div 4)) (odd (n div 8))
                 (odd (n div 16)) (odd (n div 32)) (odd (n div 64)) (odd (n div 128))"

definition isdigit :: "char \<Rightarrow> bool" where
  "isdigit c = (CHR ''0'' \<le> c \<and> c \<le> CHR ''9'')"

definition isupper :: "char \<Rightarrow> bool" where
  "isupper c = (CHR ''A'' \<le> c \<and> c \<le> CHR ''Z'')"

definition islower :: "char \<Rightarrow> bool" where
  "islower c = (CHR ''a'' \<le> c \<and> c \<le> CHR ''z'')"

definition isalpha :: "char \<Rightarrow> bool" where
  "isalpha c = (islower c \<or> isupper c)"

definition isalnum :: "char \<Rightarrow> bool" where
  "isalnum c = (isupper c \<or> islower c \<or> isdigit c)"

text \<open>The characters that cannot be written inside an Isabelle string literal.\<close>

abbreviation quote :: char where "quote \<equiv> CHR 0x27"
abbreviation dquote :: char where "dquote \<equiv> CHR 0x22"
abbreviation backslash :: char where "backslash \<equiv> CHR 0x5C"

subsection \<open>Package strings\<close>

definition HasPrefix :: "string \<Rightarrow> string \<Rightarrow> bool" where
  "HasPrefix s p = (take (length p) s = p)"

definition HasSuffix :: "string \<Rightarrow> string \<Rightarrow> bool" where
  "HasSuffix s p = (length p \<le> length s \<and> drop (length s - length p) s = p)"

text \<open>\<^verbatim>\<open>strings.Index\<close>: the index of the first instance of \<open>sep\<close>, \<open>None\<close> for Go's -1.\<close>

fun Index :: "string \<Rightarrow> string \<Rightarrow> nat option" where
  "Index [] sep = (if sep = [] then Some 0 else None)"
| "Index (c # s) sep =
     (if HasPrefix (c # s) sep then Some 0 else map_option Suc (Index s sep))"

text \<open>\<^verbatim>\<open>strings.LastIndex\<close>, for the one-byte separators the callers pass.\<close>

definition LastIndex :: "string \<Rightarrow> string \<Rightarrow> nat option" where
  "LastIndex s sep =
     (case Index (rev s) (rev sep) of
        None \<Rightarrow> None
      | Some i \<Rightarrow> Some (length s - i - length sep))"

definition Count :: "string \<Rightarrow> char \<Rightarrow> nat" where
  "Count s c = length (filter (\<lambda>x. x = c) s)"

definition ToLower :: "string \<Rightarrow> string" where
  "ToLower s = map (\<lambda>c. if isupper c then byte (of_char c + 32) else c) s"

definition TrimLeft :: "string \<Rightarrow> char \<Rightarrow> string" where
  "TrimLeft s c = dropWhile (\<lambda>x. x = c) s"

definition TrimSuffix :: "string \<Rightarrow> string \<Rightarrow> string" where
  "TrimSuffix s suffix = (if HasSuffix s suffix then take (length s - length suffix) s else s)"

text \<open>\<^verbatim>\<open>strings.Split(s, "/")\<close> and \<^verbatim>\<open>strings.Join(a, "/")\<close> for a one-byte separator.\<close>

fun Split :: "string \<Rightarrow> char \<Rightarrow> string list" where
  "Split [] sep = [[]]"
| "Split (c # s) sep =
     (if c = sep then [] # Split s sep
      else (case Split s sep of x # xs \<Rightarrow> (c # x) # xs | [] \<Rightarrow> [[c]]))"

fun Join :: "string list \<Rightarrow> char \<Rightarrow> string" where
  "Join [] sep = []"
| "Join [x] sep = x"
| "Join (x # y # ys) sep = x @ sep # Join (y # ys) sep"

subsection \<open>Package fmt: the verb \<^verbatim>\<open>%d\<close>\<close>

text \<open>
  \<^verbatim>\<open>fmt.Sprintf("%d", n)\<close> writes the decimal digits of the magnitude, most significant
  first, after a minus sign when \<open>n\<close> is negative. Go's \<^verbatim>\<open>int\<close> is modelled by \<^typ>\<open>int\<close>:
  nothing in the package computes with the numbers, it only prints and stores them.
  The verb \<^verbatim>\<open>%s\<close> copies a string (or a value of a string type such as \<^verbatim>\<open>Game\<close>)
  unchanged, so a format such as \<^verbatim>\<open>"%s/%s/last.json"\<close> is a concatenation.
\<close>

fun fmtDigits :: "nat \<Rightarrow> string" where
  "fmtDigits u =
     (if u < 10 then [''0123456789'' ! u]
      else fmtDigits (u div 10) @ [''0123456789'' ! (u mod 10)])"

declare fmtDigits.simps [simp del]

definition fmt_d :: "int \<Rightarrow> string" where
  "fmt_d n = (if n < 0 then CHR ''-'' # fmtDigits (nat (- n)) else fmtDigits (nat n))"

subsection \<open>Package net/url\<close>

datatype url_error =
    MissingProtocolScheme
  | FirstPathSegmentColon
  | EmptyURL
  | InvalidURIForRequest
  | EscapeError string
  | InvalidHostError string
  | MissingBracket
  | InvalidPort string
  | InvalidUserinfo

record Userinfo =
  username :: string
  password :: string
  passwordSet :: bool

record URL =
  Scheme :: string
  Opaque :: string
  User :: "Userinfo option"
  Host :: string
  Path :: string
  RawPath :: string
  ForceQuery :: bool
  RawQuery :: string
  Fragment :: string

definition new_URL :: URL where
  "new_URL = \<lparr>Scheme = [], Opaque = [], User = None, Host = [], Path = [], RawPath = [],
     ForceQuery = False, RawQuery = [], Fragment = []\<rparr>"

datatype encoding =
    encodePath
  | encodePathSegment
  | encodeHost
  | encodeZone
  | encodeUserPassword
  | encodeQueryComponent
  | encodeFragment

definition ishex :: "char \<Rightarrow> bool" where
  "ishex c = (isdigit c \<or> (CHR ''a'' \<le> c \<and> c \<le> CHR ''f'') \<or> (CHR ''A'' \<le> c \<and> c \<le> CHR ''F''))"

definition unhex :: "char \<Rightarrow> nat" where
  "unhex c =
     (if isdigit c then of_char c - 48
      else if CHR ''a'' \<le> c \<and> c \<le> CHR ''f'' then of_char c - 97 + 10
      else if CHR ''A'' \<le> c \<and> c \<le> CHR ''F'' then of_char c - 65 + 10
      else 0)"

definition shouldEscape :: "char \<Rightarrow> encoding \<Rightarrow> bool" where
  "shouldEscape c mode =
     (if isalnum c then False
      else if (mode = encodeHost \<or> mode = encodeZone) \<and>
              c \<in> set (''!$&()*+,;=:[]<>'' @ [quote, dquote]) then False
      else if c \<in> set ''-_.~'' then False
      else if c \<in> set ''$&+,/:;=?@'' then
        (case mode of
           encodePath \<Rightarrow> c = CHR ''?''
         | encodePathSegment \<Rightarrow> c \<in> set ''/;,?''
         | encodeUserPassword \<Rightarrow> c \<in> set ''@/?:''
         | encodeQueryComponent \<Rightarrow> True
         | encodeFragment \<Rightarrow> False
         | _ \<Rightarrow> True)
      else True)"

text \<open>
  \<^verbatim>\<open>unescape\<close> makes two passes: the first checks every \<^verbatim>\<open>%\<close> escape (and, for a host,
  every byte), the second rewrites.
\<close>

fun unescape_check :: "encoding \<Rightarrow> string \<Rightarrow> url_error option" where
  "unescape_check mode [] = None"
| "unescape_check mode (c # s) =
     (if c = CHR ''%'' then
        (case s of
           a # b # rest \<Rightarrow>
             if \<not> ishex a \<or> \<not> ishex b then Some (EscapeError [c, a, b])
             else if mode = encodeHost \<and> unhex a < 8 \<and> [c, a, b] \<noteq> ''%25''
               then Some (EscapeError [c, a, b])
             else if mode = encodeZone \<and> [c, a, b] \<noteq> ''%25'' \<and>
                     byte (unhex a * 16 + unhex b) \<noteq> CHR '' '' \<and>
                     shouldEscape (byte (unhex a * 16 + unhex b)) encodeHost
               then Some (EscapeError [c, a, b])
             else unescape_check mode rest
         | _ \<Rightarrow> Some (EscapeError (c # s)))
      else if c = CHR ''+'' then unescape_check mode s
      else if (mode = encodeHost \<or> mode = encodeZone) \<and> of_char c < (128::nat) \<and>
              shouldEscape c encodeHost
        then Some (InvalidHostError [c])
      else unescape_check mode s)"

fun unescape_bytes :: "encoding \<Rightarrow> string \<Rightarrow> string" where
  "unescape_bytes mode [] = []"
| "unescape_bytes mode (c # s) =
     (if c = CHR ''%'' then
        (case s of
           a # b # rest \<Rightarrow> byte (unhex a * 16 + unhex b) # unescape_bytes mode rest
         | _ \<Rightarrow> c # unescape_bytes mode s)
      else if c = CHR ''+'' \<and> mode = encodeQueryComponent then CHR '' '' # unescape_bytes mode s
      else c # unescape_bytes mode s)"

definition unescape :: "string \<Rightarrow> encoding \<Rightarrow> url_error + string" where
  "unescape s mode =
     (case unescape_check mode s of
        Some e \<Rightarrow> Inl e
      | None \<Rightarrow> Inr (unescape_bytes mode s))"

definition escape_byte :: "encoding \<Rightarrow> char \<Rightarrow> string" where
  "escape_byte mode c =
     (if c = CHR '' '' \<and> mode = encodeQueryComponent then ''+''
      else if shouldEscape c mode
        then [CHR ''%'', ''0123456789ABCDEF'' ! (of_char c div 16),
              ''0123456789ABCDEF'' ! (of_char c mod 16)]
      else [c])"

definition escape :: "string \<Rightarrow> encoding \<Rightarrow> string" where
  "escape s mode = concat (map (escape_byte mode) s)"

text \<open>\<^verbatim>\<open>getscheme\<close>: the loop over the bytes of \<open>rawurl\<close>, \<open>i\<close> the index reached.\<close>

fun getscheme_loop :: "nat \<Rightarrow> string \<Rightarrow> string \<Rightarrow> url_error + (string \<times> string)" where
  "getscheme_loop i rawurl [] = Inr ([], rawurl)"
| "getscheme_loop i rawurl (c # cs) =
     (if isalpha c then getscheme_loop (Suc i) rawurl cs
      else if isdigit c \<or> c = CHR ''+'' \<or> c = CHR ''-'' \<or> c = CHR ''.'' then
        (if i = 0 then Inr ([], rawurl) else getscheme_loop (Suc i) rawurl cs)
      else if c = CHR '':'' then
        (if i = 0 then Inl MissingProtocolScheme else Inr (take i rawurl, cs))
      else Inr ([], rawurl))"

definition getscheme :: "string \<Rightarrow> url_error + (string \<times> string)" where
  "getscheme rawurl = getscheme_loop 0 rawurl rawurl"

text \<open>
  \<^verbatim>\<open>split(s, c, cutc)\<close>: \<open>s\<close> cut at the first \<open>c\<close>, which stays at the head of the second
  part unless \<open>cutc\<close>.
\<close>

definition split :: "string \<Rightarrow> char \<Rightarrow> bool \<Rightarrow> string \<times> string" where
  "split s c cutc =
     (case Index s [c] of
        None \<Rightarrow> (s, [])
      | Some i \<Rightarrow> if cutc then (take i s, drop (i + 1) s) else (take i s, drop i s))"

definition validOptionalPort :: "string \<Rightarrow> bool" where
  "validOptionalPort port =
     (case port of
        [] \<Rightarrow> True
      | c # ds \<Rightarrow> c = CHR '':'' \<and> list_all isdigit ds)"

definition validUserinfo :: "string \<Rightarrow> bool" where
  "validUserinfo s =
     list_all (\<lambda>r. isalnum r \<or> r \<in> set (''-._:~!$&()*+,;=%@'' @ [quote])) s"

definition parseHost :: "string \<Rightarrow> url_error + string" where
  "parseHost host =
     (if HasPrefix host ''[''
      then
        (case LastIndex host '']'' of
           None \<Rightarrow> Inl MissingBracket
         | Some i \<Rightarrow>
             if \<not> validOptionalPort (drop (i + 1) host)
               then Inl (InvalidPort (drop (i + 1) host))
             else
               (case Index (take i host) ''%25'' of
                  Some zone \<Rightarrow>
                    (case unescape (take zone host) encodeHost of
                       Inl e \<Rightarrow> Inl e
                     | Inr host1 \<Rightarrow>
                         (case unescape (drop zone (take i host)) encodeZone of
                            Inl e \<Rightarrow> Inl e
                          | Inr host2 \<Rightarrow>
                              (case unescape (drop i host) encodeHost of
                                 Inl e \<Rightarrow> Inl e
                               | Inr host3 \<Rightarrow> Inr (host1 @ host2 @ host3))))
                | None \<Rightarrow> unescape host encodeHost))
      else unescape host encodeHost)"

definition parseAuthority :: "string \<Rightarrow> url_error + (Userinfo option \<times> string)" where
  "parseAuthority authority =
     (case LastIndex authority ''@'' of
        None \<Rightarrow>
          (case parseHost authority of
             Inl e \<Rightarrow> Inl e
           | Inr host \<Rightarrow> Inr (None, host))
      | Some i \<Rightarrow>
          (case parseHost (drop (i + 1) authority) of
             Inl e \<Rightarrow> Inl e
           | Inr host \<Rightarrow>
               let userinfo = take i authority in
               if \<not> validUserinfo userinfo then Inl InvalidUserinfo
               else if CHR '':'' \<notin> set userinfo then
                 (case unescape userinfo encodeUserPassword of
                    Inl e \<Rightarrow> Inl e
                  | Inr u \<Rightarrow>
                      Inr (Some \<lparr>username = u, password = [], passwordSet = False\<rparr>, host))
               else
                 (case unescape (fst (split userinfo CHR '':'' True)) encodeUserPassword of
                    Inl e \<Rightarrow> Inl e
                  | Inr u \<Rightarrow>
                      (case unescape (snd (split userinfo CHR '':'' True)) encodeUserPassword of
                         Inl e \<Rightarrow> Inl e
                       | Inr p \<Rightarrow>
                           Inr (Some \<lparr>username = u, password = p, passwordSet = True\<rparr>,
                                host)))))"

definition setPath :: "URL \<Rightarrow> string \<Rightarrow> url_error + URL" where
  "setPath u p =
     (case unescape p encodePath of
        Inl e \<Rightarrow> Inl e
      | Inr path \<Rightarrow>
          Inr (u\<lparr>Path := path, RawPath := (if p = escape path encodePath then [] else p)\<rparr>))"

definition parse :: "string \<Rightarrow> bool \<Rightarrow> url_error + URL" where
  "parse rawurl viaRequest =
     (if rawurl = [] \<and> viaRequest then Inl EmptyURL
      else if rawurl = ''*'' then Inr (new_URL\<lparr>Path := ''*''\<rparr>)
      else
        (case getscheme rawurl of
           Inl e \<Rightarrow> Inl e
         | Inr (scheme, rest0) \<Rightarrow>
             let url0 = new_URL\<lparr>Scheme := ToLower scheme\<rparr>;
                 force = (HasSuffix rest0 ''?'' \<and> Count rest0 CHR ''?'' = 1);
                 rest = (if force then butlast rest0 else fst (split rest0 CHR ''?'' True));
                 url = (if force then url0\<lparr>ForceQuery := True\<rparr>
                        else url0\<lparr>RawQuery := snd (split rest0 CHR ''?'' True)\<rparr>)
             in
             if \<not> HasPrefix rest ''/'' \<and> Scheme url \<noteq> [] then Inr (url\<lparr>Opaque := rest\<rparr>)
             else if \<not> HasPrefix rest ''/'' \<and> viaRequest then Inl InvalidURIForRequest
             else if \<not> HasPrefix rest ''/'' \<and>
                     (case Index rest '':'' of
                        None \<Rightarrow> False
                      | Some colon \<Rightarrow>
                          (case Index rest ''/'' of
                             None \<Rightarrow> True
                           | Some slash \<Rightarrow> colon < slash))
               then Inl FirstPathSegmentColon
             else if (Scheme url \<noteq> [] \<or> (\<not> viaRequest \<and> \<not> HasPrefix rest ''///'')) \<and>
                     HasPrefix rest ''//''
               then
                 (case parseAuthority (fst (split (drop 2 rest) CHR ''/'' False)) of
                    Inl e \<Rightarrow> Inl e
                  | Inr (user, host) \<Rightarrow>
                      setPath (url\<lparr>User := user, Host := host\<rparr>)
                        (snd (split (drop 2 rest) CHR ''/'' False)))
             else setPath url rest))"

datatype error =
    url_Error string string url_error
  | InvalidMethod string
  | TransportError string
  | errorString string

text \<open>
  \<^verbatim>\<open>url.Parse\<close> wraps what \<^verbatim>\<open>parse\<close> reports in a \<^verbatim>\<open>*url.Error{Op, URL, Err}\<close>;
  \<^verbatim>\<open>errorString\<close> is what \<^verbatim>\<open>fmt.Errorf\<close> and \<^verbatim>\<open>errors.New\<close> make, its text the
  argument; \<^verbatim>\<open>TransportError\<close> stands for whatever the injected HTTP client reports.
\<close>

definition url_Parse :: "string \<Rightarrow> error + URL" where
  "url_Parse rawurl =
     (case parse (fst (split rawurl CHR ''#'' True)) False of
        Inl e \<Rightarrow> Inl (url_Error ''parse'' (fst (split rawurl CHR ''#'' True)) e)
      | Inr url \<Rightarrow>
          if snd (split rawurl CHR ''#'' True) = [] then Inr url
          else
            (case unescape (snd (split rawurl CHR ''#'' True)) encodeFragment of
               Inl e \<Rightarrow> Inl (url_Error ''parse'' rawurl e)
             | Inr frag \<Rightarrow> Inr (url\<lparr>Fragment := frag\<rparr>)))"

definition validEncodedPath :: "string \<Rightarrow> bool" where
  "validEncodedPath s =
     list_all (\<lambda>c. c \<in> set (''!$&()*+,;=:@[]%'' @ [quote]) \<or> \<not> shouldEscape c encodePath) s"

definition EscapedPath :: "URL \<Rightarrow> string" where
  "EscapedPath u =
     (if RawPath u \<noteq> [] \<and> validEncodedPath (RawPath u) \<and>
         unescape (RawPath u) encodePath = Inr (Path u)
      then RawPath u
      else if Path u = ''*'' then ''*''
      else escape (Path u) encodePath)"

definition Userinfo_String :: "Userinfo \<Rightarrow> string" where
  "Userinfo_String ui =
     escape (username ui) encodeUserPassword @
     (if passwordSet ui then CHR '':'' # escape (password ui) encodeUserPassword else [])"

text \<open>
  \<^verbatim>\<open>(*URL).String\<close> writes into a buffer; here each piece it writes is a term of an
  append, in the order written.
\<close>

definition URL_String :: "URL \<Rightarrow> string" where
  "URL_String u =
     (let buf1 = (if Scheme u \<noteq> [] then Scheme u @ '':'' else []);
          buf2 =
            (if Opaque u \<noteq> [] then buf1 @ Opaque u
             else
               let buf3 =
                     (if Scheme u \<noteq> [] \<or> Host u \<noteq> [] \<or> User u \<noteq> None then
                        buf1 @
                        (if Host u \<noteq> [] \<or> Path u \<noteq> [] \<or> User u \<noteq> None then ''//'' else []) @
                        (case User u of None \<Rightarrow> [] | Some ui \<Rightarrow> Userinfo_String ui @ ''@'') @
                        (if Host u \<noteq> [] then escape (Host u) encodeHost else [])
                      else buf1);
                   path = EscapedPath u;
                   buf4 = (if path \<noteq> [] \<and> hd path \<noteq> CHR ''/'' \<and> Host u \<noteq> [] then buf3 @ ''/''
                           else buf3);
                   buf5 =
                     (if buf4 = [] \<and>
                         (case Index path '':'' of
                            None \<Rightarrow> False
                          | Some i \<Rightarrow> Index (take i path) ''/'' = None)
                      then ''./'' else buf4)
               in buf5 @ path)
      in buf2 @
         (if ForceQuery u \<or> RawQuery u \<noteq> [] then CHR ''?'' # RawQuery u else []) @
         (if Fragment u \<noteq> [] then CHR ''#'' # escape (Fragment u) encodeFragment else []))"

text \<open>\<^verbatim>\<open>resolvePath\<close>: RFC 3986 sections 5.2.2 to 5.2.4, on the segments between slashes.\<close>

fun removeDots :: "string list \<Rightarrow> string list \<Rightarrow> string list" where
  "removeDots dst [] = dst"
| "removeDots dst (elem # src) =
     (if elem = ''.'' then removeDots dst src
      else if elem = ''..'' then removeDots (butlast dst) src
      else removeDots (dst @ [elem]) src)"

definition resolvePath :: "string \<Rightarrow> string \<Rightarrow> string" where
  "resolvePath base ref =
     (let full =
            (if ref = [] then base
             else if hd ref \<noteq> CHR ''/'' then
               (case LastIndex base ''/'' of
                  None \<Rightarrow> ref
                | Some i \<Rightarrow> take (i + 1) base @ ref)
             else ref)
      in
      if full = [] then []
      else
        let src = Split full CHR ''/'';
            dst = removeDots [] src;
            dst' = (if last src = ''.'' \<or> last src = ''..'' then dst @ [[]] else dst)
        in CHR ''/'' # TrimLeft (Join dst' CHR ''/'') CHR ''/'')"

text \<open>
  \<^verbatim>\<open>ResolveReference\<close> ignores the error of \<^verbatim>\<open>setPath\<close> ("we know we provided a
  validly-escaped path"): on an error the copy of \<open>ref\<close> keeps its own path.
\<close>

definition setPath_ignore :: "URL \<Rightarrow> string \<Rightarrow> URL" where
  "setPath_ignore u p = (case setPath u p of Inl e \<Rightarrow> u | Inr u' \<Rightarrow> u')"

definition ResolveReference :: "URL \<Rightarrow> URL \<Rightarrow> URL" where
  "ResolveReference u ref =
     (let url = (if Scheme ref = [] then ref\<lparr>Scheme := Scheme u\<rparr> else ref) in
      if Scheme ref \<noteq> [] \<or> Host ref \<noteq> [] \<or> User ref \<noteq> None
        then setPath_ignore url (resolvePath (EscapedPath ref) [])
      else if Opaque ref \<noteq> [] then url\<lparr>User := None, Host := [], Path := []\<rparr>
      else
        let url1 =
              (if Path ref = [] \<and> RawQuery ref = [] then
                 (if Fragment ref = [] then url\<lparr>RawQuery := RawQuery u, Fragment := Fragment u\<rparr>
                  else url\<lparr>RawQuery := RawQuery u\<rparr>)
               else url)
        in setPath_ignore (url1\<lparr>Host := Host u, User := User u\<rparr>)
             (resolvePath (EscapedPath u) (EscapedPath ref)))"

subsection \<open>Package net/http: requests\<close>

text \<open>
  A request carries its method, its URL and its body (the bytes of the reader passed in,
  \<open>None\<close> for a nil reader); the header and protocol fields that \<^verbatim>\<open>http.NewRequest\<close>
  fills with constants are left out.
\<close>

record Request =
  Method :: string
  URL :: URL
  ReqBody :: "string option"

definition isTokenRune :: "char \<Rightarrow> bool" where
  "isTokenRune c = (isalnum c \<or> c \<in> set (''!#$%&*+-.^_`|~'' @ [quote]))"

definition validMethod :: "string \<Rightarrow> bool" where
  "validMethod method = (method \<noteq> [] \<and> list_all isTokenRune method)"

definition hasPort :: "string \<Rightarrow> bool" where
  "hasPort s =
     (case LastIndex s '':'' of
        None \<Rightarrow> False
      | Some i \<Rightarrow> (case LastIndex s '']'' of None \<Rightarrow> True | Some j \<Rightarrow> j < i))"

definition removeEmptyPort :: "string \<Rightarrow> string" where
  "removeEmptyPort host = (if hasPort host then TrimSuffix host '':'' else host)"

definition http_NewRequest :: "string \<Rightarrow> string \<Rightarrow> string option \<Rightarrow> error + Request" where
  "http_NewRequest method url body =
     (let method' = (if method = [] then ''GET'' else method) in
      if \<not> validMethod method' then Inl (InvalidMethod method')
      else
        (case url_Parse url of
           Inl e \<Rightarrow> Inl e
         | Inr u \<Rightarrow>
             Inr \<lparr>Method = method', URL = u\<lparr>Host := removeEmptyPort (Host u)\<rparr>,
                  ReqBody = body\<rparr>))"

subsection \<open>Package net/http: responses and the injected client\<close>

text \<open>
  A response body is a stream. It is modelled by what its \<^verbatim>\<open>Read\<close> calls deliver, one
  \<open>chunk\<close> per call, and by how the stream ends: at end of file (\<open>rderr = None\<close>) or with a
  read error (its text). \<^verbatim>\<open>ioutil.ReadAll\<close> drains the stream and reports the read error,
  if any.
\<close>

record body =
  chunks :: "string list"
  rderr :: "string option"
  closed :: bool

record Response =
  StatusCode :: int
  Body :: body
  Request :: Request

definition ReadAll :: "body \<Rightarrow> body \<times> string \<times> string option" where
  "ReadAll b = (b\<lparr>chunks := []\<rparr>, concat (chunks b), rderr b)"

definition Close :: "Response \<Rightarrow> Response" where
  "Close resp = resp\<lparr>Body := (Body resp)\<lparr>closed := True\<rparr>\<rparr>"

text \<open>
  \<^verbatim>\<open>(*http.Client).Do\<close> either fails (and may still hand back a response, which
  \<^verbatim>\<open>Client.Do\<close> drops) or returns a response with a nil error; by the library's contract
  the response is then not nil and names the request it answers.
\<close>

datatype roundtrip = Failed error "Response option" | Received Response

subsection \<open>Package encoding/json: the scanner\<close>

datatype json_error =
    SyntaxError string
  | UnmarshalTypeError string string
  | InvalidUnmarshalError string
  | io_EOF
  | io_ErrUnexpectedEOF
  | ReadError string
  | errPhase

text \<open>
  \<^verbatim>\<open>Error()\<close> of the errors \<^verbatim>\<open>Decode\<close> returns. A type error is worded in the library's
  basic form (value and Go type), without the struct and field names the library adds
  when the mismatch is inside a struct; when a document has several mismatches the first
  is the one reported. No statement below depends on the wording.
\<close>

fun json_Error :: "json_error \<Rightarrow> string" where
  "json_Error (SyntaxError msg) = msg"
| "json_Error (UnmarshalTypeError v t) =
     ''json: cannot unmarshal '' @ v @ '' into Go value of type '' @ t"
| "json_Error (InvalidUnmarshalError t) = ''json: Unmarshal('' @ t @ '')''"
| "json_Error io_EOF = ''EOF''"
| "json_Error io_ErrUnexpectedEOF = ''unexpected EOF''"
| "json_Error (ReadError msg) = msg"
| "json_Error errPhase = ''JSON decoder out of sync - data changing underfoot?''"

datatype scan_op =
    scanContinue
  | scanBeginLiteral
  | scanBeginObject
  | scanObjectKey
  | scanObjectValue
  | scanEndObject
  | scanBeginArray
  | scanArrayValue
  | scanEndArray
  | scanSkipSpace
  | scanEnd
  | scanError

datatype parse_state = parseObjectKey | parseObjectValue | parseArrayValue

text \<open>
  The scanner's \<^verbatim>\<open>step\<close> field holds one of its state functions; \<open>step_fn\<close> names
  them (\<open>EndValue\<close> for \<^verbatim>\<open>stateEndValue\<close>, and so on). \<open>parseState\<close> is the stack of
  open objects and arrays, its top at the head of the list; \<open>scanErr\<close> is the field
  \<^verbatim>\<open>err\<close>, the text of the syntax error.
\<close>

datatype step_fn =
    BeginValueOrEmpty | BeginValue | BeginStringOrEmpty | BeginString | EndValue | EndTop
  | InString | InStringEsc | InStringEscU | InStringEscU1 | InStringEscU12 | InStringEscU123
  | Neg | St1 | St0 | Dot | Dot0 | StE | ESign | E0
  | StT | Tr | Tru | StF | Fa | Fal | Fals | StN | Nu | Nul
  | StError

record scanner =
  step :: step_fn
  parseState :: "parse_state list"
  scanErr :: "string option"

definition new_scanner :: scanner where
  "new_scanner = \<lparr>step = BeginValue, parseState = [], scanErr = None\<rparr>"

definition isSpace :: "char \<Rightarrow> bool" where
  "isSpace c = (c = CHR '' '' \<or> c = CHR 0x09 \<or> c = CHR 0x0D \<or> c = CHR 0x0A)"

definition lowerhex :: "nat \<Rightarrow> char" where
  "lowerhex n = ''0123456789abcdef'' ! (n mod 16)"

text \<open>
  \<^verbatim>\<open>quoteChar\<close> formats a byte for a syntax error: \<^verbatim>\<open>strconv.Quote\<close> of the one-rune
  string, between single quotes.
\<close>

definition quoteChar :: "char \<Rightarrow> string" where
  "quoteChar c =
     (let r = (of_char c :: nat) in
      if c = quote then [quote, backslash, quote, quote]
      else if c = dquote then [quote, dquote, quote]
      else [quote] @
        (if c = backslash then [backslash, backslash]
         else if 32 \<le> r \<and> r \<le> 126 then [c]
         else if 161 \<le> r \<and> r \<noteq> 173 then [byte (192 + r div 64), byte (128 + r mod 64)]
         else if r = 7 then [backslash, CHR ''a'']
         else if r = 8 then [backslash, CHR ''b'']
         else if r = 12 then [backslash, CHR ''f'']
         else if r = 10 then [backslash, CHR ''n'']
         else if r = 13 then [backslash, CHR ''r'']
         else if r = 9 then [backslash, CHR ''t'']
         else if r = 11 then [backslash, CHR ''v'']
         else if r < 32 then [backslash, CHR ''x'', lowerhex (r div 16), lowerhex r]
         else [backslash, CHR ''u'', CHR ''0'', CHR ''0'', lowerhex (r div 16), lowerhex r])
        @ [quote])"

definition scan_error :: "scanner \<Rightarrow> char \<Rightarrow> string \<Rightarrow> scan_op \<times> scanner" where
  "scan_error s c context =
     (scanError,
      s\<lparr>step := StError, scanErr := Some (''invalid character '' @ quoteChar c @ '' '' @ context)\<rparr>)"

definition stateEndTop :: "scanner \<Rightarrow> char \<Rightarrow> scan_op \<times> scanner" where
  "stateEndTop s c =
     (if c \<noteq> CHR '' '' \<and> c \<noteq> CHR 0x09 \<and> c \<noteq> CHR 0x0D \<and> c \<noteq> CHR 0x0A
      then (scanEnd, snd (scan_error s c ''after top-level value''))
      else (scanEnd, s))"

definition popParseState :: "scanner \<Rightarrow> scanner" where
  "popParseState s =
     (let ps = tl (parseState s) in
      s\<lparr>parseState := ps, step := (if ps = [] then EndTop else EndValue)\<rparr>)"

definition stateEndValue :: "scanner \<Rightarrow> char \<Rightarrow> scan_op \<times> scanner" where
  "stateEndValue s c =
     (case parseState s of
        [] \<Rightarrow> stateEndTop (s\<lparr>step := EndTop\<rparr>) c
      | ps # rest \<Rightarrow>
          if isSpace c then (scanSkipSpace, s\<lparr>step := EndValue\<rparr>)
          else
            (case ps of
               parseObjectKey \<Rightarrow>
                 if c = CHR '':''
                   then (scanObjectKey, s\<lparr>parseState := parseObjectValue # rest, step := BeginValue\<rparr>)
                 else scan_error s c ''after object key''
             | parseObjectValue \<Rightarrow>
                 if c = CHR '',''
                   then (scanObjectValue, s\<lparr>parseState := parseObjectKey # rest, step := BeginString\<rparr>)
                 else if c = CHR ''}'' then (scanEndObject, popParseState s)
                 else scan_error s c ''after object key:value pair''
             | parseArrayValue \<Rightarrow>
                 if c = CHR '','' then (scanArrayValue, s\<lparr>step := BeginValue\<rparr>)
                 else if c = CHR '']'' then (scanEndArray, popParseState s)
                 else scan_error s c ''after array element''))"

definition stateBeginValue :: "scanner \<Rightarrow> char \<Rightarrow> scan_op \<times> scanner" where
  "stateBeginValue s c =
     (if isSpace c then (scanSkipSpace, s)
      else if c = CHR ''{''
        then (scanBeginObject, s\<lparr>step := BeginStringOrEmpty, parseState := parseObjectKey # parseState s\<rparr>)
      else if c = CHR ''[''
        then (scanBeginArray, s\<lparr>step := BeginValueOrEmpty, parseState := parseArrayValue # parseState s\<rparr>)
      else if c = dquote then (scanBeginLiteral, s\<lparr>step := InString\<rparr>)
      else if c = CHR ''-'' then (scanBeginLiteral, s\<lparr>step := Neg\<rparr>)
      else if c = CHR ''0'' then (scanBeginLiteral, s\<lparr>step := St0\<rparr>)
      else if c = CHR ''t'' then (scanBeginLiteral, s\<lparr>step := StT\<rparr>)
      else if c = CHR ''f'' then (scanBeginLiteral, s\<lparr>step := StF\<rparr>)
      else if c = CHR ''n'' then (scanBeginLiteral, s\<lparr>step := StN\<rparr>)
      else if CHR ''1'' \<le> c \<and> c \<le> CHR ''9'' then (scanBeginLiteral, s\<lparr>step := St1\<rparr>)
      else scan_error s c ''looking for beginning of value'')"

definition stateBeginValueOrEmpty :: "scanner \<Rightarrow> char \<Rightarrow> scan_op \<times> scanner" where
  "stateBeginValueOrEmpty s c =
     (if isSpace c then (scanSkipSpace, s)
      else if c = CHR '']'' then stateEndValue s c
      else stateBeginValue s c)"

definition stateBeginString :: "scanner \<Rightarrow> char \<Rightarrow> scan_op \<times> scanner" where
  "stateBeginString s c =
     (if isSpace c then (scanSkipSpace, s)
      else if c = dquote then (scanBeginLiteral, s\<lparr>step := InString\<rparr>)
      else scan_error s c ''looking for beginning of object key string'')"

definition stateBeginStringOrEmpty :: "scanner \<Rightarrow> char \<Rightarrow> scan_op \<times> scanner" where
  "stateBeginStringOrEmpty s c =
     (if isSpace c then (scanSkipSpace, s)
      else if c = CHR ''}''
        then stateEndValue (s\<lparr>parseState := parseObjectValue # tl (parseState s)\<rparr>) c
      else stateBeginString s c)"

definition stateInString :: "scanner \<Rightarrow> char \<Rightarrow> scan_op \<times> scanner" where
  "stateInString s c =
     (if c = dquote then (scanContinue, s\<lparr>step := EndValue\<rparr>)
      else if c = backslash then (scanContinue, s\<lparr>step := InStringEsc\<rparr>)
      else if (of_char c :: nat) < 32 then scan_error s c ''in string literal''
      else (scanContinue, s))"

definition stateInStringEsc :: "scanner \<Rightarrow> char \<Rightarrow> scan_op \<times> scanner" where
  "stateInStringEsc s c =
     (if c \<in> set (''bfnrt/'' @ [backslash, dquote]) then (scanContinue, s\<lparr>step := InString\<rparr>)
      else if c = CHR ''u'' then (scanContinue, s\<lparr>step := InStringEscU\<rparr>)
      else scan_error s c ''in string escape code'')"

definition stateInStringEscU_any :: "step_fn \<Rightarrow> scanner \<Rightarrow> char \<Rightarrow> scan_op \<times> scanner" where
  "stateInStringEscU_any next s c =
     (if ishex c then (scanContinue, s\<lparr>step := next\<rparr>)
      else scan_error s c (''in '' @ [backslash] @ ''u hexadecimal character escape''))"

definition state0 :: "scanner \<Rightarrow> char \<Rightarrow> scan_op \<times> scanner" where
  "state0 s c =
     (if c = CHR ''.'' then (scanContinue, s\<lparr>step := Dot\<rparr>)
      else if c = CHR ''e'' \<or> c = CHR ''E'' then (scanContinue, s\<lparr>step := StE\<rparr>)
      else stateEndValue s c)"

definition state1 :: "scanner \<Rightarrow> char \<Rightarrow> scan_op \<times> scanner" where
  "state1 s c = (if isdigit c then (scanContinue, s\<lparr>step := St1\<rparr>) else state0 s c)"

definition stateNeg :: "scanner \<Rightarrow> char \<Rightarrow> scan_op \<times> scanner" where
  "stateNeg s c =
     (if c = CHR ''0'' then (scanContinue, s\<lparr>step := St0\<rparr>)
      else if CHR ''1'' \<le> c \<and> c \<le> CHR ''9'' then (scanContinue, s\<lparr>step := St1\<rparr>)
      else scan_error s c ''in numeric literal'')"

definition stateDot :: "scanner \<Rightarrow> char \<Rightarrow> scan_op \<times> scanner" where
  "stateDot s c =
     (if isdigit c then (scanContinue, s\<lparr>step := Dot0\<rparr>)
      else scan_error s c ''after decimal point in numeric literal'')"

definition stateDot0 :: "scanner \<Rightarrow> char \<Rightarrow> scan_op \<times> scanner" where
  "stateDot0 s c =
     (if isdigit c then (scanContinue, s)
      else if c = CHR ''e'' \<or> c = CHR ''E'' then (scanContinue, s\<lparr>step := StE\<rparr>)
      else stateEndValue s c)"

definition stateESign :: "scanner \<Rightarrow> char \<Rightarrow> scan_op \<times> scanner" where
  "stateESign s c =
     (if isdigit c then (scanContinue, s\<lparr>step := E0\<rparr>)
      else scan_error s c ''in exponent of numeric literal'')"

definition stateE :: "scanner \<Rightarrow> char \<Rightarrow> scan_op \<times> scanner" where
  "stateE s c =
     (if c = CHR ''+'' \<or> c = CHR ''-'' then (scanContinue, s\<lparr>step := ESign\<rparr>)
      else stateESign s c)"

definition stateE0 :: "scanner \<Rightarrow> char \<Rightarrow> scan_op \<times> scanner" where
  "stateE0 s c = (if isdigit c then (scanContinue, s) else stateEndValue s c)"

text \<open>
  The ten states inside \<^verbatim>\<open>true\<close>, \<^verbatim>\<open>false\<close> and \<^verbatim>\<open>null\<close> differ in the byte they
  expect, the state that follows and the name of the literal in the error.
\<close>

definition stateLiteral :: "char \<Rightarrow> step_fn \<Rightarrow> string \<Rightarrow> scanner \<Rightarrow> char \<Rightarrow> scan_op \<times> scanner" where
  "stateLiteral expect next name s c =
     (if c = expect then (scanContinue, s\<lparr>step := next\<rparr>)
      else scan_error s c (''in literal '' @ name @ '' (expecting '' @ [quote, expect, quote] @ '')''))"

fun scan_step :: "scanner \<Rightarrow> char \<Rightarrow> scan_op \<times> scanner" where
  "scan_step s c =
     (case step s of
        BeginValueOrEmpty \<Rightarrow> stateBeginValueOrEmpty s c
      | BeginValue \<Rightarrow> stateBeginValue s c
      | BeginStringOrEmpty \<Rightarrow> stateBeginStringOrEmpty s c
      | BeginString \<Rightarrow> stateBeginString s c
      | EndValue \<Rightarrow> stateEndValue s c
      | EndTop \<Rightarrow> stateEndTop s c
      | InString \<Rightarrow> stateInString s c
      | InStringEsc \<Rightarrow> stateInStringEsc s c
      | InStringEscU \<Rightarrow> stateInStringEscU_any InStringEscU1 s c
      | InStringEscU1 \<Rightarrow> stateInStringEscU_any InStringEscU12 s c
      | InStringEscU12 \<Rightarrow> stateInStringEscU_any InStringEscU123 s c
      | InStringEscU123 \<Rightarrow> stateInStringEscU_any InString s c
      | Neg \<Rightarrow> stateNeg s c
      | St1 \<Rightarrow> state1 s c
      | St0 \<Rightarrow> state0 s c
      | Dot \<Rightarrow> stateDot s c
      | Dot0 \<Rightarrow> stateDot0 s c
      | StE \<Rightarrow> stateE s c
      | ESign \<Rightarrow> stateESign s c
      | E0 \<Rightarrow> stateE0 s c
      | StT \<Rightarrow> stateLiteral CHR ''r'' Tr ''true'' s c
      | Tr \<Rightarrow> stateLiteral CHR ''u'' Tru ''true'' s c
      | Tru \<Rightarrow> stateLiteral CHR ''e'' EndValue ''true'' s c
      | StF \<Rightarrow> stateLiteral CHR ''a'' Fa ''false'' s c
      | Fa \<Rightarrow> stateLiteral CHR ''l'' Fal ''false'' s c
      | Fal \<Rightarrow> stateLiteral CHR ''s'' Fals ''false'' s c
      | Fals \<Rightarrow> stateLiteral CHR ''e'' EndValue ''false'' s c
      | StN \<Rightarrow> stateLiteral CHR ''u'' Nu ''null'' s c
      | Nu \<Rightarrow> stateLiteral CHR ''l'' Nul ''null'' s c
      | Nul \<Rightarrow> stateLiteral CHR ''l'' EndValue ''null'' s c
      | StError \<Rightarrow> (scanError, s))"

subsection \<open>Package encoding/json: values\<close>

text \<open>
  The decoder scans a value and then walks its bytes again, storing into the target as
  it goes. The model keeps the walk's two halves apart: the bytes of the value become a
  tree (literals as written, object members in order, duplicates kept), built from the
  scanner's own opcodes, and the tree is then stored into a target of a given Go type.
\<close>

datatype json =
    JNull
  | JBool bool
  | JNumber string
  | JString string
  | JArray "json list"
  | JObject "(string \<times> json) list"

datatype frame = ObjFrame "(string \<times> json) list" "string option" | ArrFrame "json list"

record builder =
  lit :: string
  pend :: "json option"
  frames :: "frame list"

definition new_builder :: builder where
  "new_builder = \<lparr>lit = [], pend = None, frames = []\<rparr>"

definition literal_value :: "string \<Rightarrow> json" where
  "literal_value item =
     (if hd item = dquote then JString item
      else if hd item = CHR ''t'' then JBool True
      else if hd item = CHR ''f'' then JBool False
      else if hd item = CHR ''n'' then JNull
      else JNumber item)"

definition flush :: "builder \<Rightarrow> builder" where
  "flush b = (if lit b = [] then b else b\<lparr>lit := [], pend := Some (literal_value (lit b))\<rparr>)"

definition build :: "builder \<Rightarrow> scan_op \<Rightarrow> char \<Rightarrow> builder" where
  "build b0 opc c =
     (if opc = scanBeginLiteral then b0\<lparr>lit := [c]\<rparr>
      else if opc = scanContinue then b0\<lparr>lit := lit b0 @ [c]\<rparr>
      else
        let b = flush b0 in
        (case opc of
           scanBeginObject \<Rightarrow> b\<lparr>frames := ObjFrame [] None # frames b\<rparr>
         | scanBeginArray \<Rightarrow> b\<lparr>frames := ArrFrame [] # frames b\<rparr>
         | scanObjectKey \<Rightarrow>
             (case (frames b, pend b) of
                (ObjFrame ms k # fs, Some (JString key)) \<Rightarrow>
                  b\<lparr>frames := ObjFrame ms (Some key) # fs, pend := None\<rparr>
              | _ \<Rightarrow> b)
         | scanObjectValue \<Rightarrow>
             (case (frames b, pend b) of
                (ObjFrame ms (Some key) # fs, Some v) \<Rightarrow>
                  b\<lparr>frames := ObjFrame (ms @ [(key, v)]) None # fs, pend := None\<rparr>
              | _ \<Rightarrow> b)
         | scanEndObject \<Rightarrow>
             (case frames b of
                ObjFrame ms k # fs \<Rightarrow>
                  b\<lparr>frames := fs,
                    pend := Some (JObject
                      (case (k, pend b) of (Some key, Some v) \<Rightarrow> ms @ [(key, v)] | _ \<Rightarrow> ms))\<rparr>
              | _ \<Rightarrow> b)
         | scanArrayValue \<Rightarrow>
             (case (frames b, pend b) of
                (ArrFrame vs # fs, Some v) \<Rightarrow> b\<lparr>frames := ArrFrame (vs @ [v]) # fs, pend := None\<rparr>
              | _ \<Rightarrow> b)
         | scanEndArray \<Rightarrow>
             (case frames b of
                ArrFrame vs # fs \<Rightarrow>
                  b\<lparr>frames := fs,
                    pend := Some (JArray (case pend b of Some v \<Rightarrow> vs @ [v] | None \<Rightarrow> vs))\<rparr>
              | _ \<Rightarrow> b)
         | _ \<Rightarrow> b))"

definition built_value :: "builder \<Rightarrow> json_error + json" where
  "built_value b = (case pend (flush b) of Some v \<Rightarrow> Inr v | None \<Rightarrow> Inl errPhase)"

subsection \<open>Package encoding/json: \<^verbatim>\<open>Decoder.readValue\<close>\<close>

datatype scanned = Done "json_error + json" | More scanner builder

text \<open>
  The inner loop of \<^verbatim>\<open>readValue\<close> over the bytes in the buffer. It stops before the
  byte at which the scanner reports \<^verbatim>\<open>scanEnd\<close>, and just after the bracket that closes
  the top-level object or array (found by asking \<^verbatim>\<open>stateEndValue\<close> about an invented
  space); a byte the scanner rejects ends it with the syntax error.
\<close>

fun scanBytes :: "scanner \<Rightarrow> builder \<Rightarrow> string \<Rightarrow> scanned" where
  "scanBytes s b [] = More s b"
| "scanBytes s b (c # cs) =
     (case scan_step s c of
        (opc, s') \<Rightarrow>
          if opc = scanEnd then Done (built_value b)
          else if opc = scanError
            then Done (Inl (SyntaxError (case scanErr s' of Some msg \<Rightarrow> msg | None \<Rightarrow> [])))
          else if opc = scanEndObject \<or> opc = scanEndArray then
            (case stateEndValue s' CHR '' '' of
               (opc', s'') \<Rightarrow>
                 if opc' = scanEnd then Done (built_value (build b opc c))
                 else scanBytes s'' (build b opc c) cs)
          else scanBytes s' (build b opc c) cs)"

definition nonSpace :: "string \<Rightarrow> bool" where
  "nonSpace b = list_ex (\<lambda>c. \<not> isSpace c) b"

text \<open>
  The outer loop: scan what is buffered, then refill with one more \<^verbatim>\<open>Read\<close>. \<open>buf\<close> is
  everything read so far. When the stream has ended, a read error is returned as it is;
  at end of file the value is complete if the scanner accepts a space as its end, and
  otherwise the error is \<^verbatim>\<open>io.ErrUnexpectedEOF\<close>, or \<^verbatim>\<open>io.EOF\<close> when nothing but
  space was read. The result comes with the bytes read and the chunks not yet read.
\<close>

fun readValue ::
  "scanner \<Rightarrow> builder \<Rightarrow> string \<Rightarrow> string list \<Rightarrow> string option
     \<Rightarrow> string \<times> string list \<times> (json_error + json)" where
  "readValue s b buf [] rd =
     (buf, [],
      (case rd of
         Some msg \<Rightarrow> Inl (ReadError msg)
       | None \<Rightarrow>
           if fst (scan_step s CHR '' '') = scanEnd then built_value b
           else if nonSpace buf then Inl io_ErrUnexpectedEOF
           else Inl io_EOF))"
| "readValue s b buf (c # cs) rd =
     (case scanBytes s b c of
        Done r \<Rightarrow> (buf @ c, cs, r)
      | More s' b' \<Rightarrow> readValue s' b' (buf @ c) cs rd)"

subsection \<open>Package encoding/json: storing a value\<close>

text \<open>UTF-8 as \<^verbatim>\<open>utf8.DecodeRune\<close> and \<^verbatim>\<open>utf8.EncodeRune\<close> have it.\<close>

definition cont_in :: "nat \<Rightarrow> nat \<Rightarrow> string \<Rightarrow> nat \<Rightarrow> bool" where
  "cont_in lo hi s i = (i < length s \<and> lo \<le> of_char (s ! i) \<and> of_char (s ! i) \<le> hi)"

text \<open>The width of the encoded rune at the head of \<open>s\<close>; 0 when the bytes are not one.\<close>

definition utf8_width :: "string \<Rightarrow> nat" where
  "utf8_width s =
     (case s of
        [] \<Rightarrow> 0
      | c # cs \<Rightarrow>
          let x = (of_char c :: nat) in
          if x < 128 then 1
          else if 194 \<le> x \<and> x \<le> 223 then (if cont_in 128 191 s 1 then 2 else 0)
          else if 224 \<le> x \<and> x \<le> 239 then
            (if cont_in (if x = 224 then 160 else 128) (if x = 237 then 159 else 191) s 1 \<and>
                cont_in 128 191 s 2 then 3 else 0)
          else if 240 \<le> x \<and> x \<le> 244 then
            (if cont_in (if x = 240 then 144 else 128) (if x = 244 then 143 else 191) s 1 \<and>
                cont_in 128 191 s 2 \<and> cont_in 128 191 s 3 then 4 else 0)
          else 0)"

definition EncodeRune :: "nat \<Rightarrow> string" where
  "EncodeRune r =
     (if r \<le> 127 then [byte r]
      else if r \<le> 2047 then [byte (192 + r div 64), byte (128 + r mod 64)]
      else if r > 1114111 \<or> (55296 \<le> r \<and> r \<le> 57343) then [CHR 0xEF, CHR 0xBF, CHR 0xBD]
      else if r \<le> 65535 then
        [byte (224 + r div 4096), byte (128 + (r div 64) mod 64), byte (128 + r mod 64)]
      else
        [byte (240 + r div 262144), byte (128 + (r div 4096) mod 64),
         byte (128 + (r div 64) mod 64), byte (128 + r mod 64)])"

text \<open>\<^verbatim>\<open>getu4\<close>: the rune of a \<^verbatim>\<open>\uXXXX\<close> escape at the head of \<open>s\<close>, \<open>None\<close> for -1.\<close>

definition getu4 :: "string \<Rightarrow> nat option" where
  "getu4 s =
     (case s of
        a # b # h1 # h2 # h3 # h4 # rest \<Rightarrow>
          if a = backslash \<and> b = CHR ''u'' \<and> ishex h1 \<and> ishex h2 \<and> ishex h3 \<and> ishex h4
          then Some (((unhex h1 * 16 + unhex h2) * 16 + unhex h3) * 16 + unhex h4)
          else None
      | _ \<Rightarrow> None)"

definition isSurrogate :: "nat \<Rightarrow> bool" where
  "isSurrogate r = (55296 \<le> r \<and> r < 57344)"

text \<open>
  \<^verbatim>\<open>utf16.DecodeRune\<close>, with \<open>None\<close> for a missing second escape: the rune of a
  surrogate pair, U+FFFD when the two are not a pair.
\<close>

definition utf16_DecodeRune :: "nat \<Rightarrow> nat option \<Rightarrow> nat" where
  "utf16_DecodeRune r1 r2 =
     (case r2 of
        Some r2' \<Rightarrow>
          if 55296 \<le> r1 \<and> r1 < 56320 \<and> 56320 \<le> r2' \<and> r2' < 57344
          then (r1 - 55296) * 1024 + (r2' - 56320) + 65536
          else 65533
      | None \<Rightarrow> 65533)"

text \<open>
  \<^verbatim>\<open>unquoteBytes\<close> on the bytes between the quotes of a literal: escapes are replaced,
  and every byte that is not part of well-formed UTF-8 becomes U+FFFD.
\<close>

function unquote_loop :: "string \<Rightarrow> string option" where
  "unquote_loop [] = Some []"
| "unquote_loop (c # s) =
     (if c = backslash then
        (case s of
           [] \<Rightarrow> None
         | e # r \<Rightarrow>
             if e = dquote \<or> e = backslash \<or> e = CHR ''/'' \<or> e = quote
               then map_option ((#) e) (unquote_loop r)
             else if e = CHR ''b'' then map_option ((#) (CHR 0x08)) (unquote_loop r)
             else if e = CHR ''f'' then map_option ((#) (CHR 0x0C)) (unquote_loop r)
             else if e = CHR ''n'' then map_option ((#) (CHR 0x0A)) (unquote_loop r)
             else if e = CHR ''r'' then map_option ((#) (CHR 0x0D)) (unquote_loop r)
             else if e = CHR ''t'' then map_option ((#) (CHR 0x09)) (unquote_loop r)
             else if e = CHR ''u'' then
               (case getu4 (c # s) of
                  None \<Rightarrow> None
                | Some rr \<Rightarrow>
                    if isSurrogate rr then
                      (if utf16_DecodeRune rr (getu4 (drop 5 s)) \<noteq> 65533
                       then map_option ((@) (EncodeRune (utf16_DecodeRune rr (getu4 (drop 5 s)))))
                              (unquote_loop (drop 11 s))
                       else map_option ((@) (EncodeRune 65533)) (unquote_loop (drop 5 s)))
                    else map_option ((@) (EncodeRune rr)) (unquote_loop (drop 5 s)))
             else None)
      else if c = dquote \<or> (of_char c :: nat) < 32 then None
      else if (of_char c :: nat) < 128 then map_option ((#) c) (unquote_loop s)
      else if utf8_width (c # s) = 0 then map_option ((@) (EncodeRune 65533)) (unquote_loop s)
      else map_option ((@) (take (utf8_width (c # s)) (c # s)))
             (unquote_loop (drop (utf8_width (c # s)) (c # s))))"
  by pat_completeness auto
termination
  by (relation "measure length") (auto simp: utf8_width_def Let_def split: if_splits)

definition unquote :: "string \<Rightarrow> string option" where
  "unquote s =
     (if length s < 2 \<or> hd s \<noteq> dquote \<or> last s \<noteq> dquote then None
      else unquote_loop (butlast (tl s)))"

text \<open>
  The case folds that match an object key against a field name. \<^verbatim>\<open>foldFunc\<close> picks one
  from the name; a name with a byte outside ASCII (no field of this package has one)
  would get \<^verbatim>\<open>bytes.EqualFold\<close>.
\<close>

definition caseMask :: "char \<Rightarrow> nat" where
  "caseMask c = (if odd (of_char c div (32::nat)) then of_char c - 32 else of_char c)"

definition isLetter :: "char \<Rightarrow> bool" where
  "isLetter c = (65 \<le> caseMask c \<and> caseMask c \<le> 90)"

fun equalFoldRight :: "string \<Rightarrow> string \<Rightarrow> bool" where
  "equalFoldRight [] t = (t = [])"
| "equalFoldRight (sb # s) [] = False"
| "equalFoldRight (sb # s) (tb # t) =
     (if (of_char tb :: nat) < 128 then
        (if sb = tb then equalFoldRight s t
         else if isLetter sb \<and> caseMask sb = caseMask tb then equalFoldRight s t
         else False)
      else if sb = CHR ''s'' \<or> sb = CHR ''S'' then
        (case t of
           t1 # t' \<Rightarrow> tb = CHR 0xC5 \<and> t1 = CHR 0xBF \<and> equalFoldRight s t'
         | [] \<Rightarrow> False)
      else if sb = CHR ''k'' \<or> sb = CHR ''K'' then
        (case t of
           t1 # t2 # t' \<Rightarrow> tb = CHR 0xE2 \<and> t1 = CHR 0x84 \<and> t2 = CHR 0xAA \<and> equalFoldRight s t'
         | _ \<Rightarrow> False)
      else False)"

definition asciiEqualFold :: "string \<Rightarrow> string \<Rightarrow> bool" where
  "asciiEqualFold s t =
     (length s = length t \<and>
      list_all (\<lambda>(sb, tb). sb = tb \<or> (isLetter sb \<and> caseMask sb = caseMask tb)) (zip s t))"

definition simpleLetterEqualFold :: "string \<Rightarrow> string \<Rightarrow> bool" where
  "simpleLetterEqualFold s t =
     (length s = length t \<and> list_all (\<lambda>(sb, tb). caseMask sb = caseMask tb) (zip s t))"

definition foldFunc :: "string \<Rightarrow> string \<Rightarrow> string \<Rightarrow> bool" where
  "foldFunc s =
     (if list_ex (\<lambda>b. caseMask b = 75 \<or> caseMask b = 83) s then equalFoldRight
      else if list_ex (\<lambda>b. \<not> isLetter b) s then asciiEqualFold
      else simpleLetterEqualFold)"

text \<open>
  The field of a struct that a key selects: the first whose name equals the key, else
  the first whose name matches it under its fold.
\<close>

definition find_field :: "string list \<Rightarrow> string \<Rightarrow> nat option" where
  "find_field names key =
     (case find (\<lambda>i. names ! i = key) [0..<length names] of
        Some i \<Rightarrow> Some i
      | None \<Rightarrow> find (\<lambda>i. foldFunc (names ! i) (names ! i) key) [0..<length names])"

text \<open>
  A Go type, as far as storing JSON into it goes: a function from the JSON value and the
  old Go value to the new Go value and the type error met, if any.
\<close>

type_synonym 'a unmarshaler = "json \<Rightarrow> 'a \<Rightarrow> 'a \<times> json_error option"

definition saveError :: "json_error option \<Rightarrow> json_error option \<Rightarrow> json_error option" where
  "saveError saved e = (case saved of None \<Rightarrow> e | Some x \<Rightarrow> saved)"

definition json_kind :: "json \<Rightarrow> string" where
  "json_kind j =
     (case j of
        JNull \<Rightarrow> ''null''
      | JBool b \<Rightarrow> ''bool''
      | JNumber n \<Rightarrow> ''number''
      | JString s \<Rightarrow> ''string''
      | JArray a \<Rightarrow> ''array''
      | JObject ms \<Rightarrow> ''object'')"

text \<open>\<^verbatim>\<open>strconv.ParseInt(s, 10, 64)\<close>.\<close>

definition digit_value :: "string \<Rightarrow> int" where
  "digit_value ds = foldl (\<lambda>n c. 10 * n + (int (of_char c) - 48)) 0 ds"

definition ParseInt :: "string \<Rightarrow> int option" where
  "ParseInt s =
     (let neg = (s \<noteq> [] \<and> hd s = CHR ''-'');
          ds = (if s \<noteq> [] \<and> (hd s = CHR ''-'' \<or> hd s = CHR ''+'') then tl s else s);
          n = (if neg then - digit_value ds else digit_value ds)
      in if ds = [] \<or> \<not> list_all isdigit ds then None
         else if n < - (2 ^ 63) \<or> 2 ^ 63 - 1 < n then None
         else Some n)"

definition store_int :: "int unmarshaler" where
  "store_int j v =
     (case j of
        JNull \<Rightarrow> (v, None)
      | JNumber s \<Rightarrow>
          (case ParseInt s of
             Some n \<Rightarrow> (n, None)
           | None \<Rightarrow> (v, Some (UnmarshalTypeError (''number '' @ s) ''int'')))
      | _ \<Rightarrow> (v, Some (UnmarshalTypeError (json_kind j) ''int'')))"

definition store_string :: "string unmarshaler" where
  "store_string j v =
     (case j of
        JNull \<Rightarrow> (v, None)
      | JString item \<Rightarrow>
          (case unquote item of
             Some s \<Rightarrow> (s, None)
           | None \<Rightarrow> (v, Some errPhase))
      | _ \<Rightarrow> (v, Some (UnmarshalTypeError (json_kind j) ''string'')))"

text \<open>
  A slice is nil, or a backing array (its length the capacity) and a length. Storing a
  JSON array walks the elements: at index \<open>i\<close> (\<open>store_elem\<close>) the array is regrown
  when \<open>i\<close> reaches the capacity, so that \<open>i\<close> is below the new capacity, the length is
  raised to take \<open>i\<close> in, and the element is stored into what the array holds there.
  Afterwards the length is cut back to the number of elements, and an empty JSON array
  leaves a fresh empty slice, which is not nil.
\<close>

datatype 'a slice = nil_slice | Slice "'a list" nat

fun elems :: "'a slice \<Rightarrow> 'a list" where
  "elems nil_slice = []"
| "elems (Slice arr n) = take n arr"

definition store_elem ::
  "'a unmarshaler \<Rightarrow> 'a \<Rightarrow> 'a list \<times> nat \<times> json_error option \<Rightarrow> nat \<times> json
     \<Rightarrow> 'a list \<times> nat \<times> json_error option" where
  "store_elem um zero st ij =
     (case (st, ij) of
        ((arr, n, saved), (i, j)) \<Rightarrow>
          let newcap = (if length arr + length arr div 2 < 4 then 4
                        else length arr + length arr div 2);
              arr1 = (if length arr \<le> i then take n arr @ replicate (newcap - n) zero else arr);
              n1 = (if n \<le> i then i + 1 else n)
          in case um j (arr1 ! i) of
               (x, e) \<Rightarrow> (arr1[i := x], n1, saveError saved e))"

definition array_loop ::
  "'a unmarshaler \<Rightarrow> 'a \<Rightarrow> 'a list \<Rightarrow> nat \<Rightarrow> json list \<Rightarrow> 'a list \<times> nat \<times> json_error option" where
  "array_loop um zero arr n js =
     foldl (store_elem um zero) (arr, n, None) (zip [0..<length js] js)"

definition store_slice :: "'a unmarshaler \<Rightarrow> 'a \<Rightarrow> string \<Rightarrow> 'a slice unmarshaler" where
  "store_slice um zero ty j v =
     (case j of
        JNull \<Rightarrow> (nil_slice, None)
      | JArray js \<Rightarrow>
          (case array_loop um zero (case v of nil_slice \<Rightarrow> [] | Slice arr n \<Rightarrow> arr)
                  (case v of nil_slice \<Rightarrow> 0 | Slice arr n \<Rightarrow> n) js of
             (arr, n, e) \<Rightarrow>
               (if js = [] then Slice [] 0
                else Slice arr (if length js < n then length js else n), e))
      | _ \<Rightarrow> (v, Some (UnmarshalTypeError (json_kind j) ty)))"

text \<open>
  Storing into a struct: each member of a JSON object whose key selects a field is stored
  into that field, members with other keys are skipped, \<^verbatim>\<open>null\<close> leaves the struct as it
  is, and any other JSON value is a type error. \<open>store_field i\<close> stores into field \<open>i\<close>.
\<close>

fun object_loop ::
  "string list \<Rightarrow> (nat \<Rightarrow> 'a unmarshaler) \<Rightarrow> (string \<times> json) list \<Rightarrow> 'a \<Rightarrow> json_error option
     \<Rightarrow> 'a \<times> json_error option" where
  "object_loop names store_field [] v saved = (v, saved)"
| "object_loop names store_field ((item, j) # ms) v saved =
     (case unquote item of
        None \<Rightarrow> (v, saveError saved (Some errPhase))
      | Some key \<Rightarrow>
          (case find_field names key of
             None \<Rightarrow> object_loop names store_field ms v saved
           | Some i \<Rightarrow>
               (case store_field i j v of
                  (v', e) \<Rightarrow> object_loop names store_field ms v' (saveError saved e))))"

definition store_struct :: "string \<Rightarrow> string list \<Rightarrow> (nat \<Rightarrow> 'a unmarshaler) \<Rightarrow> 'a unmarshaler" where
  "store_struct ty names store_field j v =
     (case j of
        JNull \<Rightarrow> (v, None)
      | JObject ms \<Rightarrow> object_loop names store_field ms v None
      | _ \<Rightarrow> (v, Some (UnmarshalTypeError (json_kind j) ty)))"

text \<open>
  The second argument of \<^verbatim>\<open>Decode\<close> is an \<^verbatim>\<open>interface{}\<close>: nil, a value that is not a
  pointer or a nil pointer (both with the name of their type), or a pointer to a value of
  a Go type, given by how JSON is stored into that type.
\<close>

datatype 'a target =
    nil_interface
  | non_pointer string
  | nil_pointer string
  | Pointer "'a unmarshaler" 'a

text \<open>
  \<^verbatim>\<open>json.NewDecoder(r).Decode(v)\<close> on a fresh decoder: read one value, then store it.
  The result is the stream after the reads, the bytes read, and the error or the new
  value behind the pointer. What a failed decode leaves behind the pointer is not part
  of the model.
\<close>

definition Decode :: "body \<Rightarrow> 'a target \<Rightarrow> body \<times> string \<times> (json_error + 'a)" where
  "Decode r v =
     (case readValue new_scanner new_builder [] (chunks r) (rderr r) of
        (buf, rest, res) \<Rightarrow>
          (r\<lparr>chunks := rest\<rparr>, buf,
           (case res of
              Inl e \<Rightarrow> Inl e
            | Inr j \<Rightarrow>
                (case v of
                   nil_interface \<Rightarrow> Inl (InvalidUnmarshalError ''nil'')
                 | non_pointer ty \<Rightarrow> Inl (InvalidUnmarshalError (''non-pointer '' @ ty))
                 | nil_pointer ty \<Rightarrow> Inl (InvalidUnmarshalError (''nil '' @ ty))
                 | Pointer um x \<Rightarrow>
                     (case um j x of
                        (x', None) \<Rightarrow> Inr x'
                      | (x', Some e) \<Rightarrow> Inl e)))))"

section \<open>The package: client\<close>

definition defaultBaseURL :: string where
  "defaultBaseURL = ''http://applications.opap.gr/''"

definition defaultDrawsEndpoint :: string where
  "defaultDrawsEndpoint = ''DrawsRestServices''"

text \<open>
  \<^verbatim>\<open>Client\<close> holds the HTTP client (what it answers to a request), the base URL and the
  draws service; the service's pointer back to its client is the record it sits in.
  Both pointers of \<^verbatim>\<open>Client\<close> are set by \<^verbatim>\<open>NewClient\<close> and taken to be non-nil.
\<close>

record drawsService =
  Endpoint :: string

record Client =
  client :: "Request \<Rightarrow> roundtrip"
  BaseURL :: URL
  Draws :: drawsService

text \<open>
  The methods have pointer receivers and reach the network. They are state transformers
  on a \<open>world\<close>: the client object, and the requests handed to the HTTP client so far.
\<close>

record world =
  theClient :: Client
  sent :: "Request list"

text \<open>\<^verbatim>\<open>NewClient\<close>; \<open>http_DefaultClient\<close> stands for the library's \<^verbatim>\<open>http.DefaultClient\<close>.\<close>

definition NewClient :: "(Request \<Rightarrow> roundtrip) \<Rightarrow> (Request \<Rightarrow> roundtrip) option \<Rightarrow> Client" where
  "NewClient http_DefaultClient httpClient =
     \<lparr>client = (case httpClient of None \<Rightarrow> http_DefaultClient | Some h \<Rightarrow> h),
      BaseURL = (case url_Parse defaultBaseURL of Inr baseURL \<Rightarrow> baseURL | Inl e \<Rightarrow> new_URL),
      Draws = \<lparr>Endpoint = defaultDrawsEndpoint\<rparr>\<rparr>"

definition NewRequest ::
  "string \<Rightarrow> string \<Rightarrow> string option \<Rightarrow> world \<Rightarrow> (error + Request) \<times> world" where
  "NewRequest method urlStr body w =
     (case url_Parse urlStr of
        Inl err \<Rightarrow> (Inl err, w)
      | Inr rel \<Rightarrow>
          (case http_NewRequest method
                  (URL_String (ResolveReference (BaseURL (theClient w)) rel)) body of
             Inl err \<Rightarrow> (Inl err, w)
           | Inr req \<Rightarrow> (Inr req, w)))"

text \<open>
  \<^verbatim>\<open>checkResponse\<close> reads the body of a response it rejects, so the response comes back
  with its body drained.
\<close>

definition checkResponse :: "Response \<Rightarrow> Response \<times> error option" where
  "checkResponse r =
     (if 200 \<le> StatusCode r \<and> StatusCode r \<le> 299 then (r, None)
      else
        (case ReadAll (Body r) of
           (b, data, Some e) \<Rightarrow>
             (r\<lparr>Body := b\<rparr>, Some (errorString (''reading response body: '' @ e)))
         | (b, data, None) \<Rightarrow>
             (r\<lparr>Body := b\<rparr>,
              Some (errorString
                (Method (Request r) @ '' '' @ URL_String (URL (Request r)) @ '': '' @
                 fmt_d (StatusCode r) @ '' '' @ data)))))"

definition pointee :: "'a target \<Rightarrow> 'a option" where
  "pointee v = (case v of Pointer um x \<Rightarrow> Some x | _ \<Rightarrow> None)"

text \<open>
  \<^verbatim>\<open>Do\<close> returns the response and the error; the first component of the model's result is
  the value behind \<open>v\<close> after the call, when \<open>v\<close> is a pointer and no decode failed. The
  deferred \<^verbatim>\<open>resp.Body.Close()\<close> runs on every path that has a response.
\<close>

definition Do ::
  "Request \<Rightarrow> 'a target \<Rightarrow> world \<Rightarrow> ('a option \<times> Response option \<times> error option) \<times> world" where
  "Do req v w =
     (let w' = w\<lparr>sent := sent w @ [req]\<rparr> in
      case client (theClient w) req of
        Failed err r \<Rightarrow> ((pointee v, None, Some err), w')
      | Received resp \<Rightarrow>
          (case checkResponse resp of
             (resp1, Some err) \<Rightarrow> ((pointee v, Some (Close resp1), Some err), w')
           | (resp1, None) \<Rightarrow>
               (case v of
                  nil_interface \<Rightarrow> ((None, Some (Close resp1), None), w')
                | _ \<Rightarrow>
                    (case Decode (Body resp1) v of
                       (b, buf, Inl e) \<Rightarrow>
                         ((None, Some (Close (resp1\<lparr>Body := b\<rparr>)),
                           Some (errorString
                             (''JSON decoding: '' @ json_Error e @ '' ('' @ buf @ '')''))), w')
                     | (b, buf, Inr x) \<Rightarrow>
                         ((Some x, Some (Close (resp1\<lparr>Body := b\<rparr>)), None), w')))))"

definition get ::
  "string \<Rightarrow> 'a target \<Rightarrow> world \<Rightarrow> ('a option \<times> Response option \<times> error option) \<times> world" where
  "get url result w =
     (case NewRequest ''GET'' url None w of
        (Inl err, w1) \<Rightarrow> ((pointee result, None, Some err), w1)
      | (Inr req, w1) \<Rightarrow> Do req result w1)"

section \<open>The package: draws\<close>

text \<open>
  \<^verbatim>\<open>Game\<close> and \<^verbatim>\<open>PropoGame\<close> are string types. The tenth game constant is written in the
  source with a Greek small omicron (U+03BF, the bytes CE BF) as its second letter, in
  the identifier and in the value; the identifier is spelt in ASCII here.
\<close>

type_synonym Game = string

definition Kino :: Game where "Kino = ''kino''"
definition Lotto :: Game where "Lotto = ''lotto''"
definition Joker :: Game where "Joker = ''joker''"
definition Proto :: Game where "Proto = ''proto''"
definition Super3 :: Game where "Super3 = ''super3''"
definition Extra5 :: Game where "Extra5 = ''extra5''"
definition Propogoal :: Game where "Propogoal = ''propogoal''"
definition Penalties :: Game where "Penalties = ''penalties''"
definition Bowling :: Game where "Bowling = ''bowling''"
definition Powerspin :: Game where "Powerspin = ''p'' @ [CHR 0xCE, CHR 0xBF] @ ''werspin''"

type_synonym PropoGame = string

definition PropoSun :: PropoGame where "PropoSun = ''proposun''"
definition PropoSat :: PropoGame where "PropoSat = ''proposat''"
definition PropoWed :: PropoGame where "PropoWed = ''propowed''"

record Draw =
  DrawTime :: string
  DrawNo :: int
  Results :: "int slice"

record draws =
  Draw :: Draw

record drawsByDate_Draws =
  Draw :: "Draw slice"

record drawsByDate =
  Draws :: drawsByDate_Draws

record PropoDraw =
  DrawTime :: string
  DrawNo :: int
  Results :: "string slice"

record propoDraws =
  Draw :: PropoDraw

record propoDrawsByDate_Draws =
  Draw :: "PropoDraw slice"

record propoDrawsByDate =
  Draws :: propoDrawsByDate_Draws

text \<open>The zero values that \<^verbatim>\<open>new\<close> allocates.\<close>

definition zero_Draw :: Draw where
  "zero_Draw = \<lparr>Draw.DrawTime = [], Draw.DrawNo = 0, Draw.Results = nil_slice\<rparr>"

definition new_draws :: draws where
  "new_draws = \<lparr>draws.Draw = zero_Draw\<rparr>"

definition new_drawsByDate :: drawsByDate where
  "new_drawsByDate = \<lparr>drawsByDate.Draws = \<lparr>drawsByDate_Draws.Draw = nil_slice\<rparr>\<rparr>"

definition zero_PropoDraw :: PropoDraw where
  "zero_PropoDraw =
     \<lparr>PropoDraw.DrawTime = [], PropoDraw.DrawNo = 0, PropoDraw.Results = nil_slice\<rparr>"

definition new_propoDraws :: propoDraws where
  "new_propoDraws = \<lparr>propoDraws.Draw = zero_PropoDraw\<rparr>"

definition new_propoDrawsByDate :: propoDrawsByDate where
  "new_propoDrawsByDate =
     \<lparr>propoDrawsByDate.Draws = \<lparr>propoDrawsByDate_Draws.Draw = nil_slice\<rparr>\<rparr>"

text \<open>
  How JSON is stored into each of the package's types, read off the field types and the
  \<^verbatim>\<open>json:"..."\<close> tags.
\<close>

definition store_Draw :: "Draw unmarshaler" where
  "store_Draw =
     store_struct ''opap.Draw'' [''drawTime'', ''drawNo'', ''results'']
       (\<lambda>i j d.
          if i = 0 then
            (case store_string j (Draw.DrawTime d) of (x, e) \<Rightarrow> (d\<lparr>Draw.DrawTime := x\<rparr>, e))
          else if i = 1 then
            (case store_int j (Draw.DrawNo d) of (x, e) \<Rightarrow> (d\<lparr>Draw.DrawNo := x\<rparr>, e))
          else
            (case store_slice store_int 0 ''[]int'' j (Draw.Results d) of
               (x, e) \<Rightarrow> (d\<lparr>Draw.Results := x\<rparr>, e)))"

definition store_draws :: "draws unmarshaler" where
  "store_draws =
     store_struct ''opap.draws'' [''draw'']
       (\<lambda>i j d. case store_Draw j (draws.Draw d) of (x, e) \<Rightarrow> (d\<lparr>draws.Draw := x\<rparr>, e))"

definition store_drawsByDate_Draws :: "drawsByDate_Draws unmarshaler" where
  "store_drawsByDate_Draws =
     store_struct
       (''struct { Draw []opap.Draw '' @ [dquote] @ ''json:'' @ [backslash, dquote] @ ''draw'' @
        [backslash, dquote, dquote] @ '' }'')
       [''draw'']
       (\<lambda>i j d.
          case store_slice store_Draw zero_Draw ''[]opap.Draw'' j (drawsByDate_Draws.Draw d) of
            (x, e) \<Rightarrow> (d\<lparr>drawsByDate_Draws.Draw := x\<rparr>, e))"

definition store_drawsByDate :: "drawsByDate unmarshaler" where
  "store_drawsByDate =
     store_struct ''opap.drawsByDate'' [''draws'']
       (\<lambda>i j d.
          case store_drawsByDate_Draws j (drawsByDate.Draws d) of
            (x, e) \<Rightarrow> (d\<lparr>drawsByDate.Draws := x\<rparr>, e))"

definition store_PropoDraw :: "PropoDraw unmarshaler" where
  "store_PropoDraw =
     store_struct ''opap.PropoDraw'' [''drawTime'', ''drawNo'', ''results'']
       (\<lambda>i j d.
          if i = 0 then
            (case store_string j (PropoDraw.DrawTime d) of
               (x, e) \<Rightarrow> (d\<lparr>PropoDraw.DrawTime := x\<rparr>, e))
          else if i = 1 then
            (case store_int j (PropoDraw.DrawNo d) of (x, e) \<Rightarrow> (d\<lparr>PropoDraw.DrawNo := x\<rparr>, e))
          else
            (case store_slice store_string [] ''[]string'' j (PropoDraw.Results d) of
               (x, e) \<Rightarrow> (d\<lparr>PropoDraw.Results := x\<rparr>, e)))"

definition store_propoDraws :: "propoDraws unmarshaler" where
  "store_propoDraws =
     store_struct ''opap.propoDraws'' [''draw'']
       (\<lambda>i j d.
          case store_PropoDraw j (propoDraws.Draw d) of (x, e) \<Rightarrow> (d\<lparr>propoDraws.Draw := x\<rparr>, e))"

definition store_propoDrawsByDate_Draws :: "propoDrawsByDate_Draws unmarshaler" where
  "store_propoDrawsByDate_Draws =
     store_struct
       (''struct { Draw []opap.PropoDraw '' @ [dquote] @ ''json:'' @ [backslash, dquote] @
        ''draw'' @ [backslash, dquote, dquote] @ '' }'')
       [''draw'']
       (\<lambda>i j d.
          case store_slice store_PropoDraw zero_PropoDraw ''[]opap.PropoDraw'' j
                 (propoDrawsByDate_Draws.Draw d) of
            (x, e) \<Rightarrow> (d\<lparr>propoDrawsByDate_Draws.Draw := x\<rparr>, e))"

definition store_propoDrawsByDate :: "propoDrawsByDate unmarshaler" where
  "store_propoDrawsByDate =
     store_struct ''opap.propoDrawsByDate'' [''draws'']
       (\<lambda>i j d.
          case store_propoDrawsByDate_Draws j (propoDrawsByDate.Draws d) of
            (x, e) \<Rightarrow> (d\<lparr>propoDrawsByDate.Draws := x\<rparr>, e))"

text \<open>
  The six operations. Each returns the draw (a pointer, \<open>None\<close> for nil) or the draws (a
  slice), the response and the error.
\<close>

definition Latest ::
  "Game \<Rightarrow> world \<Rightarrow> (Draw option \<times> Response option \<times> error option) \<times> world" where
  "Latest g w =
     (let d = new_draws;
          u = Endpoint (Client.Draws (theClient w)) @ ''/'' @ g @ ''/last.json''
      in case get u (Pointer store_draws d) w of
           ((d', resp, Some err), w') \<Rightarrow> ((None, resp, Some err), w')
         | ((d', resp, None), w') \<Rightarrow> ((map_option draws.Draw d', resp, None), w'))"

definition PropoLatest ::
  "PropoGame \<Rightarrow> world \<Rightarrow> (PropoDraw option \<times> Response option \<times> error option) \<times> world" where
  "PropoLatest g w =
     (let d = new_propoDraws;
          u = Endpoint (Client.Draws (theClient w)) @ ''/'' @ g @ ''/last.json''
      in case get u (Pointer store_propoDraws d) w of
           ((d', resp, Some err), w') \<Rightarrow> ((None, resp, Some err), w')
         | ((d', resp, None), w') \<Rightarrow> ((map_option propoDraws.Draw d', resp, None), w'))"

definition ByNumber ::
  "Game \<Rightarrow> int \<Rightarrow> world \<Rightarrow> (Draw option \<times> Response option \<times> error option) \<times> world" where
  "ByNumber g number w =
     (let d = new_draws;
          u = Endpoint (Client.Draws (theClient w)) @ ''/'' @ g @ ''/'' @ fmt_d number @ ''.json''
      in case get u (Pointer store_draws d) w of
           ((d', resp, Some err), w') \<Rightarrow> ((None, resp, Some err), w')
         | ((d', resp, None), w') \<Rightarrow> ((map_option draws.Draw d', resp, None), w'))"

definition PropoByNumber ::
  "PropoGame \<Rightarrow> int \<Rightarrow> world
     \<Rightarrow> (PropoDraw option \<times> Response option \<times> error option) \<times> world" where
  "PropoByNumber g number w =
     (let d = new_propoDraws;
          u = Endpoint (Client.Draws (theClient w)) @ ''/'' @ g @ ''/'' @ fmt_d number @ ''.json''
      in case get u (Pointer store_propoDraws d) w of
           ((d', resp, Some err), w') \<Rightarrow> ((None, resp, Some err), w')
         | ((d', resp, None), w') \<Rightarrow> ((map_option propoDraws.Draw d', resp, None), w'))"

definition ByDate ::
  "Game \<Rightarrow> int \<Rightarrow> int \<Rightarrow> int \<Rightarrow> world
     \<Rightarrow> (Draw slice \<times> Response option \<times> error option) \<times> world" where
  "ByDate g day month year w =
     (let d = new_drawsByDate;
          date = fmt_d day @ ''-'' @ fmt_d month @ ''-'' @ fmt_d year;
          u = Endpoint (Client.Draws (theClient w)) @ ''/'' @ g @ ''/drawDate/'' @ date @ ''.json''
      in case get u (Pointer store_drawsByDate d) w of
           ((d', resp, Some err), w') \<Rightarrow> ((nil_slice, resp, Some err), w')
         | ((d', resp, None), w') \<Rightarrow>
             (((case d' of
                 Some x \<Rightarrow> drawsByDate_Draws.Draw (drawsByDate.Draws x)
               | None \<Rightarrow> nil_slice), resp, None), w'))"

definition PropoByDate ::
  "PropoGame \<Rightarrow> int \<Rightarrow> int \<Rightarrow> int \<Rightarrow> world
     \<Rightarrow> (PropoDraw slice \<times> Response option \<times> error option) \<times> world" where
  "PropoByDate g day month year w =
     (let d = new_propoDrawsByDate;
          date = fmt_d day @ ''-'' @ fmt_d month @ ''-'' @ fmt_d year;
          u = Endpoint (Client.Draws (theClient w)) @ ''/'' @ g @ ''/drawDate/'' @ date @ ''.json''
      in case get u (Pointer store_propoDrawsByDate d) w of
           ((d', resp, Some err), w') \<Rightarrow> ((nil_slice, resp, Some err), w')
         | ((d', resp, None), w') \<Rightarrow>
             (((case d' of
                 Some x \<Rightarrow> propoDrawsByDate_Draws.Draw (propoDrawsByDate.Draws x)
               | None \<Rightarrow> nil_slice), resp, None), w'))"

section \<open>The tests' servers\<close>

text \<open>
  The package's tests run against an \<^verbatim>\<open>httptest\<close> server whose multiplexer has one
  handler: \<open>serve pattern code content\<close> answers a request for the path \<open>pattern\<close> with
  the status and the body the handler writes, and any other request with the
  multiplexer's 404. \<open>refuse\<close> is a port nobody listens on. \<open>broken_body\<close> is a server
  whose connection drops while the body of its answer is read.
\<close>

definition serve :: "string \<Rightarrow> int \<Rightarrow> string \<Rightarrow> Request \<Rightarrow> roundtrip" where
  "serve pattern code content req =
     (if Path (URL req) = pattern
      then Received \<lparr>StatusCode = code,
                     Body = \<lparr>chunks = [content], rderr = None, closed = False\<rparr>,
                     Request = req\<rparr>
      else Received \<lparr>StatusCode = 404,
                     Body = \<lparr>chunks = [''404 page not found'' @ [CHR 0x0A]], rderr = None,
                             closed = False\<rparr>,
                     Request = req\<rparr>)"

definition refuse :: "Request \<Rightarrow> roundtrip" where
  "refuse req = Failed (TransportError ''dial tcp 127.0.0.1:1: connect: connection refused'') None"

definition broken_body :: "int \<Rightarrow> Request \<Rightarrow> roundtrip" where
  "broken_body code req =
     Received \<lparr>StatusCode = code,
               Body = \<lparr>chunks = [''some''], rderr = Some ''unexpected EOF'', closed = False\<rparr>,
               Request = req\<rparr>"

definition test_world :: "(Request \<Rightarrow> roundtrip) \<Rightarrow> world" where
  "test_world h = \<lparr>theClient = NewClient h (Some h), sent = []\<rparr>"

definition root_request :: Request where
  "root_request =
     \<lparr>Method = ''GET'',
      URL = \<lparr>Scheme = ''http'', Opaque = [], User = None, Host = ''applications.opap.gr'',
             Path = ''/'', RawPath = [], ForceQuery = False, RawQuery = [], Fragment = []\<rparr>,
      ReqBody = None\<rparr>"

definition request_for :: "string \<Rightarrow> Request" where
  "request_for path =
     \<lparr>Method = ''GET'',
      URL = \<lparr>Scheme = ''http'', Opaque = [], User = None, Host = ''applications.opap.gr'',
             Path = path, RawPath = [], ForceQuery = False, RawQuery = [], Fragment = []\<rparr>,
      ReqBody = None\<rparr>"

definition something_broke :: "Request \<Rightarrow> roundtrip" where
  "something_broke =
     serve ''/DrawsRestServices/joker/last.json'' 500 (''something broke'' @ [CHR 0x0A])"

definition unexpected_html :: "Request \<Rightarrow> roundtrip" where
  "unexpected_html = serve ''/'' 200 ''<html>something broke</html>''"

section \<open>Plain paths\<close>

text \<open>
  A plain path is a relative path that \<^verbatim>\<open>net/url\<close> neither escapes nor rewrites: it is
  made of letters, digits and the punctuation that \<^verbatim>\<open>shouldEscape\<close> leaves alone in a
  path, it does not begin with a slash, and none of its segments is \<^verbatim>\<open>.\<close> or \<^verbatim>\<open>..\<close>. Every
  path the draws service builds from a game constant and numbers is of this kind.
\<close>

definition pathChar :: "char \<Rightarrow> bool" where
  "pathChar c = (isalnum c \<or> c \<in> set ''-_.~$&+,/;=@'')"

definition plain_path :: "string \<Rightarrow> bool" where
  "plain_path p =
     (list_all pathChar p \<and> \<not> HasPrefix p ''/'' \<and>
      ''.'' \<notin> set (Split p CHR ''/'') \<and> ''..'' \<notin> set (Split p CHR ''/''))"

text \<open>
  \<open>plain_segments\<close> is \<open>plain_path\<close> without the condition on the first byte: what a piece
  of a plain path must satisfy.
\<close>

definition plain_segments :: "string \<Rightarrow> bool" where
  "plain_segments p =
     (list_all pathChar p \<and>
      ''.'' \<notin> set (Split p CHR ''/'') \<and> ''..'' \<notin> set (Split p CHR ''/''))"

section \<open>The tests' bodies\<close>

text \<open>
  \<open>quoted s\<close> is \<open>s\<close> between double quotes. \<open>joker_1873\<close> is the body the tests' handlers
  write for the latest Joker draw and for Joker draw 1873.
\<close>

definition quoted :: "string \<Rightarrow> string" where
  "quoted s = [dquote] @ s @ [dquote]"

definition joker_1873 :: string where
  "joker_1873 =
     ''{'' @ quoted ''draw'' @ '':{'' @
       quoted ''drawTime'' @ '':'' @ quoted ''24-12-2017T22:00:00'' @ '','' @
       quoted ''drawNo'' @ '':1873,'' @
       quoted ''results'' @ '':[40,13,1,24,15,8]}}''"

definition joker_1873_json :: json where
  "joker_1873_json =
     JObject [(quoted ''draw'',
       JObject [(quoted ''drawTime'', JString (quoted ''24-12-2017T22:00:00'')),
                (quoted ''drawNo'', JNumber ''1873''),
                (quoted ''results'',
                 JArray [JNumber ''40'', JNumber ''13'', JNumber ''1'', JNumber ''24'',
                         JNumber ''15'', JNumber ''8''])])]"

definition joker_1873_draw :: Draw where
  "joker_1873_draw =
     \<lparr>Draw.DrawTime = ''24-12-2017T22:00:00'', DrawNo = 1873,
      Results = Slice [40, 13, 1, 24, 15, 8] 6\<rparr>"

definition latest_joker :: "Request \<Rightarrow> roundtrip" where
  "latest_joker = serve ''/DrawsRestServices/joker/last.json'' 200 joker_1873"

text \<open>
  \<open>joker_24_12_2017\<close> is the body the tests' handler writes for the Joker draws of
  24-12-2017.
\<close>

definition joker_24_12_2017 :: string where
  "joker_24_12_2017 =
     ''{'' @ quoted ''draws'' @ '':{'' @ quoted ''draw'' @ '':[{'' @
       quoted ''drawTime'' @ '':'' @ quoted ''24-12-2017T22:00:00'' @ '','' @
       quoted ''drawNo'' @ '':1873,'' @
       quoted ''results'' @ '':[40,13,1,24,15,8]}]}}''"

definition joker_24_12_2017_json :: json where
  "joker_24_12_2017_json =
     JObject [(quoted ''draws'', JObject [(quoted ''draw'', JArray [
       JObject [(quoted ''drawTime'', JString (quoted ''24-12-2017T22:00:00'')),
                (quoted ''drawNo'', JNumber ''1873''),
                (quoted ''results'',
                 JArray [JNumber ''40'', JNumber ''13'', JNumber ''1'', JNumber ''24'',
                         JNumber ''15'', JNumber ''8''])]])])]"

definition by_date_joker :: "Request \<Rightarrow> roundtrip" where
  "by_date_joker =
     serve ''/DrawsRestServices/joker/drawDate/24-12-2017.json'' 200 joker_24_12_2017"

text \<open>
  \<open>answer code content\<close> is a server whose handler, registered for \<^verbatim>\<open>/\<close>, answers every
  request with the same status and body. \<open>no_draws\<close> is a multi-draw envelope whose array
  of draws is empty. \<open>answered code req\<close> is the response of such a server as an operation
  returns it: its body read to the end and closed.
\<close>

definition answer :: "int \<Rightarrow> string \<Rightarrow> Request \<Rightarrow> roundtrip" where
  "answer code content req =
     Received \<lparr>StatusCode = code,
               Body = \<lparr>chunks = [content], rderr = None, closed = False\<rparr>,
               Request = req\<rparr>"


definition answered :: "int \<Rightarrow> Request \<Rightarrow> Response" where
  "answered code req =
     \<lparr>StatusCode = code, Body = \<lparr>chunks = [], rderr = None, closed = True\<rparr>, Request = req\<rparr>"

section \<open>Bytes after a document\<close>

text \<open>
  \<open>pending_number d\<close>: after the bytes \<open>d\<close> the scanner is inside a top-level number that
  could end here (states \<^verbatim>\<open>state0\<close>, \<^verbatim>\<open>state1\<close>, \<^verbatim>\<open>stateDot0\<close>, \<^verbatim>\<open>stateE0\<close>).
  \<open>continues_number c\<close>: \<open>c\<close> is a byte those states may take as part of the number.
\<close>

definition pending_number :: "string \<Rightarrow> bool" where
  "pending_number d =
     (case scanBytes new_scanner new_builder d of
        More s b \<Rightarrow> step s \<in> set [St0, St1, Dot0, E0]
      | Done r \<Rightarrow> False)"

definition continues_number :: "char \<Rightarrow> bool" where
  "continues_number c = (isdigit c \<or> c \<in> set ''.eE'')"

text \<open>
  \<open>in_number s\<close>: the scanner is inside a number. \<open>number_literal s b\<close>: if it is, the
  literal the builder is collecting does not begin like a string, \<^verbatim>\<open>true\<close>, \<^verbatim>\<open>false\<close>
  or \<^verbatim>\<open>null\<close>.
\<close>

definition in_number :: "scanner \<Rightarrow> bool" where
  "in_number s = (step s \<in> set [Neg, St1, St0, Dot, Dot0, StE, ESign, E0])"

definition number_literal :: "scanner \<Rightarrow> builder \<Rightarrow> bool" where
  "number_literal s b =
     (if in_number s
      then lit b \<noteq> [] \<and> hd (lit b) \<notin> set [dquote, CHR ''t'', CHR ''f'', CHR ''n'']
      else True)"

section \<open>The world a call leaves behind\<close>

lemma NewRequest_world: "snd (NewRequest method urlStr body w) = w"
  by (simp add: NewRequest_def split: sum.splits)

lemma Do_world: "snd (Do req v w) = w\<lparr>sent := sent w @ [req]\<rparr>"
  by (simp add: Do_def Let_def
      split: roundtrip.splits prod.splits option.splits target.splits sum.splits)

lemma get_world:
  "snd (get url v w) = w \<or> (\<exists>req. snd (get url v w) = w\<lparr>sent := sent w @ [req]\<rparr>)"
  using NewRequest_world [of "''GET''" url None w] Do_world [of _ v w]
  by (auto simp: get_def split: prod.splits sum.splits)

lemma get_theClient: "theClient (snd (get url v w)) = theClient w"
  using get_world [of url v w] by auto

lemma get_theClientD: "get url v w = (r, w') \<Longrightarrow> theClient w' = theClient w"
  using get_theClient [of url v w] by simp

lemma Latest_theClient: "theClient (snd (Latest g w)) = theClient w"
  by (auto simp: Latest_def Let_def dest: get_theClientD split: prod.splits option.splits)

lemma PropoLatest_theClient: "theClient (snd (PropoLatest g w)) = theClient w"
  by (auto simp: PropoLatest_def Let_def dest: get_theClientD split: prod.splits option.splits)

lemma ByNumber_theClient: "theClient (snd (ByNumber g n w)) = theClient w"
  by (auto simp: ByNumber_def Let_def dest: get_theClientD split: prod.splits option.splits)

lemma PropoByNumber_theClient: "theClient (snd (PropoByNumber g n w)) = theClient w"
  by (auto simp: PropoByNumber_def Let_def dest: get_theClientD split: prod.splits option.splits)

lemma ByDate_theClient: "theClient (snd (ByDate g d m y w)) = theClient w"
  by (auto simp: ByDate_def Let_def dest: get_theClientD split: prod.splits option.splits)

lemma PropoByDate_theClient: "theClient (snd (PropoByDate g d m y w)) = theClient w"
  by (auto simp: PropoByDate_def Let_def dest: get_theClientD split: prod.splits option.splits)

text \<open>
  C9. No operation changes the client: after \<^verbatim>\<open>Latest\<close>, \<^verbatim>\<open>ByNumber\<close>, \<^verbatim>\<open>ByDate\<close>,
  \<^verbatim>\<open>PropoLatest\<close>, \<^verbatim>\<open>PropoByNumber\<close>, \<^verbatim>\<open>PropoByDate\<close>, \<^verbatim>\<open>NewRequest\<close> or \<^verbatim>\<open>Do\<close>, whatever
  the arguments and whatever the HTTP client answers, the client object is the one the
  call started from: its base URL, its HTTP client and the endpoint of its draws service
  are unchanged.
\<close>

theorem client_unchanged:
  "theClient (snd (Latest g w)) = theClient w \<and>
   theClient (snd (ByNumber g number w)) = theClient w \<and>
   theClient (snd (ByDate g day month year w)) = theClient w \<and>
   theClient (snd (PropoLatest pg w)) = theClient w \<and>
   theClient (snd (PropoByNumber pg number w)) = theClient w \<and>
   theClient (snd (PropoByDate pg day month year w)) = theClient w \<and>
   theClient (snd (NewRequest method urlStr body w)) = theClient w \<and>
   theClient (snd (Do req v w)) = theClient w"
  by (simp add: Latest_theClient ByNumber_theClient ByDate_theClient PropoLatest_theClient
      PropoByNumber_theClient PropoByDate_theClient NewRequest_world Do_world)

text \<open>
  C5. When the HTTP client fails without a usable response (a refused connection, a
  timeout, a DNS or TLS failure), \<^verbatim>\<open>Do\<close> returns the HTTP client's own error, unchanged,
  and a nil response; it drops the response even if the HTTP client handed one back
  with its error.
\<close>

theorem Do_transport_error:
  "client (theClient w) req = Failed err r \<Longrightarrow>
   Do req v w = ((pointee v, None, Some err), w\<lparr>sent := sent w @ [req]\<rparr>)"
  by (simp add: Do_def Let_def)

theorem Do_transport_error_witness:
  "client (theClient (test_world refuse)) root_request =
     Failed (TransportError ''dial tcp 127.0.0.1:1: connect: connection refused'') None \<and>
   fst (Do root_request (nil_interface :: unit target) (test_world refuse)) =
     (None, None, Some (TransportError ''dial tcp 127.0.0.1:1: connect: connection refused''))"
  using Do_transport_error [of "test_world refuse" root_request
      "TransportError ''dial tcp 127.0.0.1:1: connect: connection refused''" None
      "nil_interface :: unit target"]
  by (simp add: test_world_def NewClient_def refuse_def pointee_def)

section \<open>Status classification\<close>

lemma checkResponse_ok:
  "200 \<le> StatusCode resp \<Longrightarrow> StatusCode resp \<le> 299 \<Longrightarrow> checkResponse resp = (resp, None)"
  by (simp add: checkResponse_def)

lemma checkResponse_bad:
  "StatusCode resp < 200 \<or> 299 < StatusCode resp \<Longrightarrow>
   checkResponse resp =
     (resp\<lparr>Body := (Body resp)\<lparr>chunks := []\<rparr>\<rparr>,
      Some (errorString
        (case rderr (Body resp) of
           None \<Rightarrow>
             Method (Request resp) @ '' '' @ URL_String (URL (Request resp)) @ '': '' @
             fmt_d (StatusCode resp) @ '' '' @ concat (chunks (Body resp))
         | Some e \<Rightarrow> ''reading response body: '' @ e)))"
  by (auto simp: checkResponse_def ReadAll_def split: option.splits)

lemma get_Do:
  "NewRequest ''GET'' url None w = (Inr req, w) \<Longrightarrow> get url v w = Do req v w"
  by (simp add: get_def)

lemma Do_bad_status:
  "client (theClient w) req = Received resp \<Longrightarrow>
   StatusCode resp < 200 \<or> 299 < StatusCode resp \<Longrightarrow>
   Do req v w =
     ((pointee v, Some (Close (fst (checkResponse resp))), snd (checkResponse resp)),
      w\<lparr>sent := sent w @ [req]\<rparr>)"
  using checkResponse_bad [of resp] by (simp add: Do_def Let_def)

lemma get_bad_status:
  "NewRequest ''GET'' url None w = (Inr req, w) \<Longrightarrow>
   client (theClient w) req = Received resp \<Longrightarrow>
   StatusCode resp < 200 \<or> 299 < StatusCode resp \<Longrightarrow>
   \<exists>e. snd (checkResponse resp) = Some e \<and>
       get url v w =
         ((pointee v, Some (Close (fst (checkResponse resp))), Some e),
          w\<lparr>sent := sent w @ [req]\<rparr>)"
  using checkResponse_bad [of resp] Do_bad_status [of w req resp v]
  by (simp add: get_Do)

text \<open>
  C4, as amended. A status from 200 to 299 is a success. For any other status
  \<^verbatim>\<open>checkResponse\<close> drains the body and returns a non-nil error: when the body was read
  to its end, the error's text is the method and the URL of the response's request, the
  status code and the whole body; when reading the body failed, the error reports the
  read failure instead. Either way \<^verbatim>\<open>Do\<close> and each of the six operations return that
  error together with the response, whose status code is the one received; the
  operations return a nil result with it.
\<close>

theorem status_classified:
  "(200 \<le> StatusCode resp \<and> StatusCode resp \<le> 299 \<longrightarrow> checkResponse resp = (resp, None)) \<and>
   (StatusCode resp < 200 \<or> 299 < StatusCode resp \<longrightarrow>
      checkResponse resp =
        (resp\<lparr>Body := (Body resp)\<lparr>chunks := []\<rparr>\<rparr>,
         Some (errorString
           (case rderr (Body resp) of
              None \<Rightarrow>
                Method (Request resp) @ '' '' @ URL_String (URL (Request resp)) @ '': '' @
                fmt_d (StatusCode resp) @ '' '' @ concat (chunks (Body resp))
            | Some e \<Rightarrow> ''reading response body: '' @ e))) \<and>
      StatusCode (Close (fst (checkResponse resp))) = StatusCode resp \<and>
      (client (theClient w) req = Received resp \<longrightarrow>
         Do req v w =
           ((pointee v, Some (Close (fst (checkResponse resp))), snd (checkResponse resp)),
            w\<lparr>sent := sent w @ [req]\<rparr>)) \<and>
      (NewRequest ''GET'' (Endpoint (Client.Draws (theClient w)) @ ''/'' @ g @ ''/last.json'')
           None w = (Inr req, w) \<and>
       client (theClient w) req = Received resp \<longrightarrow>
         Latest g w =
           ((None, Some (Close (fst (checkResponse resp))), snd (checkResponse resp)),
            w\<lparr>sent := sent w @ [req]\<rparr>) \<and>
         PropoLatest g w =
           ((None, Some (Close (fst (checkResponse resp))), snd (checkResponse resp)),
            w\<lparr>sent := sent w @ [req]\<rparr>)) \<and>
      (NewRequest ''GET''
           (Endpoint (Client.Draws (theClient w)) @ ''/'' @ g @ ''/'' @ fmt_d number @ ''.json'')
           None w = (Inr req, w) \<and>
       client (theClient w) req = Received resp \<longrightarrow>
         ByNumber g number w =
           ((None, Some (Close (fst (checkResponse resp))), snd (checkResponse resp)),
            w\<lparr>sent := sent w @ [req]\<rparr>) \<and>
         PropoByNumber g number w =
           ((None, Some (Close (fst (checkResponse resp))), snd (checkResponse resp)),
            w\<lparr>sent := sent w @ [req]\<rparr>)) \<and>
      (NewRequest ''GET''
           (Endpoint (Client.Draws (theClient w)) @ ''/'' @ g @ ''/drawDate/'' @
            (fmt_d day @ ''-'' @ fmt_d month @ ''-'' @ fmt_d year) @ ''.json'')
           None w = (Inr req, w) \<and>
       client (theClient w) req = Received resp \<longrightarrow>
         ByDate g day month year w =
           ((nil_slice, Some (Close (fst (checkResponse resp))), snd (checkResponse resp)),
            w\<lparr>sent := sent w @ [req]\<rparr>) \<and>
         PropoByDate g day month year w =
           ((nil_slice, Some (Close (fst (checkResponse resp))), snd (checkResponse resp)),
            w\<lparr>sent := sent w @ [req]\<rparr>)))"
proof (intro conjI impI)
  assume "200 \<le> StatusCode resp \<and> StatusCode resp \<le> 299"
  then show "checkResponse resp = (resp, None)"
    by (simp add: checkResponse_ok)
next
  assume bad: "StatusCode resp < 200 \<or> 299 < StatusCode resp"
  show "checkResponse resp =
        (resp\<lparr>Body := (Body resp)\<lparr>chunks := []\<rparr>\<rparr>,
         Some (errorString
           (case rderr (Body resp) of
              None \<Rightarrow>
                Method (Request resp) @ '' '' @ URL_String (URL (Request resp)) @ '': '' @
                fmt_d (StatusCode resp) @ '' '' @ concat (chunks (Body resp))
            | Some e \<Rightarrow> ''reading response body: '' @ e)))"
    using bad by (rule checkResponse_bad)
  show "StatusCode (Close (fst (checkResponse resp))) = StatusCode resp"
    using checkResponse_bad [OF bad] by (simp add: Close_def)
  {
    assume "client (theClient w) req = Received resp"
    then show "Do req v w =
           ((pointee v, Some (Close (fst (checkResponse resp))), snd (checkResponse resp)),
            w\<lparr>sent := sent w @ [req]\<rparr>)"
      using bad by (rule Do_bad_status)
  }
  {
    assume a: "NewRequest ''GET''
        (Endpoint (Client.Draws (theClient w)) @ ''/'' @ g @ ''/last.json'') None w = (Inr req, w) \<and>
       client (theClient w) req = Received resp"
    show "Latest g w =
           ((None, Some (Close (fst (checkResponse resp))), snd (checkResponse resp)),
            w\<lparr>sent := sent w @ [req]\<rparr>)"
      using get_bad_status [OF conjunct1 [OF a] conjunct2 [OF a] bad, of "Pointer store_draws new_draws"]
      by (auto simp: Latest_def Let_def)
    show "PropoLatest g w =
           ((None, Some (Close (fst (checkResponse resp))), snd (checkResponse resp)),
            w\<lparr>sent := sent w @ [req]\<rparr>)"
      using get_bad_status [OF conjunct1 [OF a] conjunct2 [OF a] bad, of "Pointer store_propoDraws new_propoDraws"]
      by (auto simp: PropoLatest_def Let_def)
  }
  {
    assume a: "NewRequest ''GET''
        (Endpoint (Client.Draws (theClient w)) @ ''/'' @ g @ ''/'' @ fmt_d number @ ''.json'')
        None w = (Inr req, w) \<and>
       client (theClient w) req = Received resp"
    show "ByNumber g number w =
           ((None, Some (Close (fst (checkResponse resp))), snd (checkResponse resp)),
            w\<lparr>sent := sent w @ [req]\<rparr>)"
      using get_bad_status [OF conjunct1 [OF a] conjunct2 [OF a] bad, of "Pointer store_draws new_draws"]
      by (auto simp: ByNumber_def Let_def)
    show "PropoByNumber g number w =
           ((None, Some (Close (fst (checkResponse resp))), snd (checkResponse resp)),
            w\<lparr>sent := sent w @ [req]\<rparr>)"
      using get_bad_status [OF conjunct1 [OF a] conjunct2 [OF a] bad, of "Pointer store_propoDraws new_propoDraws"]
      by (auto simp: PropoByNumber_def Let_def)
  }
  {
    assume a: "NewRequest ''GET''
        (Endpoint (Client.Draws (theClient w)) @ ''/'' @ g @ ''/drawDate/'' @
         (fmt_d day @ ''-'' @ fmt_d month @ ''-'' @ fmt_d year) @ ''.json'')
        None w = (Inr req, w) \<and>
       client (theClient w) req = Received resp"
    show "ByDate g day month year w =
           ((nil_slice, Some (Close (fst (checkResponse resp))), snd (checkResponse resp)),
            w\<lparr>sent := sent w @ [req]\<rparr>)"
      using get_bad_status [OF conjunct1 [OF a] conjunct2 [OF a] bad, of "Pointer store_drawsByDate new_drawsByDate"]
      by (auto simp: ByDate_def Let_def)
    show "PropoByDate g day month year w =
           ((nil_slice, Some (Close (fst (checkResponse resp))), snd (checkResponse resp)),
            w\<lparr>sent := sent w @ [req]\<rparr>)"
      using get_bad_status [OF conjunct1 [OF a] conjunct2 [OF a] bad, of "Pointer store_propoDrawsByDate new_propoDrawsByDate"]
      by (auto simp: PropoByDate_def Let_def)
  }
qed

lemma NewRequest_eqI: "fst (NewRequest method urlStr body w) = r \<Longrightarrow> NewRequest method urlStr body w = (r, w)"
  using NewRequest_world [of "method" "urlStr" "body" "w"] by (cases "NewRequest method urlStr body w") simp

lemma fst_NewRequest_joker_last:
  "fst (NewRequest ''GET''
          (Endpoint (Client.Draws (theClient (test_world h))) @ ''/'' @ Joker @ ''/last.json'')
          None (test_world h)) =
   Inr (request_for ''/DrawsRestServices/joker/last.json'')"
  by code_simp

lemmas NewRequest_joker_last = NewRequest_eqI [OF fst_NewRequest_joker_last]

lemma URL_String_joker_last:
  "URL_String (URL (request_for ''/DrawsRestServices/joker/last.json'')) =
     ''http://applications.opap.gr/DrawsRestServices/joker/last.json''"
  by code_simp

lemma fmt_d_500: "fmt_d 500 = ''500''"
  by code_simp

theorem status_classified_witness:
  "Latest Joker (test_world something_broke) =
     ((None,
       Some \<lparr>StatusCode = 500, Body = \<lparr>chunks = [], rderr = None, closed = True\<rparr>,
             Request = request_for ''/DrawsRestServices/joker/last.json''\<rparr>,
       Some (errorString
         (''GET http://applications.opap.gr/DrawsRestServices/joker/last.json: 500 something broke''
          @ [CHR 0x0A]))),
      (test_world something_broke)
        \<lparr>sent := [request_for ''/DrawsRestServices/joker/last.json'']\<rparr>)"
proof -
  let ?req = "request_for ''/DrawsRestServices/joker/last.json''"
  let ?resp = "\<lparr>StatusCode = 500,
                Body = \<lparr>chunks = [''something broke'' @ [CHR 0x0A]], rderr = None, closed = False\<rparr>,
                Request = ?req\<rparr>"
  have rc: "client (theClient (test_world something_broke)) ?req = Received ?resp"
    by (simp add: test_world_def NewClient_def something_broke_def serve_def request_for_def)
  have bad: "StatusCode ?resp < 200 \<or> 299 < StatusCode ?resp"
    by simp
  have "Latest Joker (test_world something_broke) =
          ((None, Some (Close (fst (checkResponse ?resp))), snd (checkResponse ?resp)),
           (test_world something_broke)\<lparr>sent := sent (test_world something_broke) @ [?req]\<rparr>)"
    using status_classified [of ?resp "test_world something_broke" ?req _ Joker]
      NewRequest_joker_last [of something_broke] rc bad
    by blast
  moreover have "checkResponse ?resp =
      (?resp\<lparr>Body := \<lparr>chunks = [], rderr = None, closed = False\<rparr>\<rparr>,
       Some (errorString
         (''GET http://applications.opap.gr/DrawsRestServices/joker/last.json: 500 something broke''
          @ [CHR 0x0A])))"
    using checkResponse_bad [OF bad] URL_String_joker_last fmt_d_500
    by (simp add: request_for_def)
  ultimately show ?thesis
    by (simp add: Close_def test_world_def)
qed

lemma URL_String_root: "URL_String (URL root_request) = ''http://applications.opap.gr/''"
  by code_simp

text \<open>
  The claim C4 as it stands fails when reading the body of a rejected response fails:
  the error then names neither the status code nor the method, the URL or the body.
  Here the server answers 500 and the connection drops after four bytes of the body.
\<close>

theorem status_error_counterexample:
  "fst (Do root_request (nil_interface :: unit target) (test_world (broken_body 500))) =
     (None,
      Some \<lparr>StatusCode = 500,
            Body = \<lparr>chunks = [], rderr = Some ''unexpected EOF'', closed = True\<rparr>,
            Request = root_request\<rparr>,
      Some (errorString ''reading response body: unexpected EOF'')) \<and>
   snd (snd (fst (Do root_request (nil_interface :: unit target) (test_world (broken_body 500))))) \<noteq>
     Some (errorString
       (Method root_request @ '' '' @ URL_String (URL root_request) @ '': '' @ fmt_d 500 @ '' '' @
        ''some''))"
proof -
  let ?resp = "\<lparr>StatusCode = 500,
                Body = \<lparr>chunks = [''some''], rderr = Some ''unexpected EOF'', closed = False\<rparr>,
                Request = root_request\<rparr>"
  have rc: "client (theClient (test_world (broken_body 500))) root_request = Received ?resp"
    by (simp add: test_world_def NewClient_def broken_body_def)
  have bad: "StatusCode ?resp < 200 \<or> 299 < StatusCode ?resp"
    by simp
  have "Do root_request (nil_interface :: unit target) (test_world (broken_body 500)) =
          ((None, Some (Close (fst (checkResponse ?resp))), snd (checkResponse ?resp)),
           (test_world (broken_body 500))
             \<lparr>sent := sent (test_world (broken_body 500)) @ [root_request]\<rparr>)"
    using Do_bad_status [OF rc bad, of "nil_interface :: unit target"] by (simp add: pointee_def)
  then show ?thesis
    using checkResponse_bad [OF bad] by (simp add: Close_def)
qed

section \<open>Decoding\<close>

lemma readValue_buf:
  "readValue s b buf cs rd = (buf', rest, r) \<Longrightarrow> buf' @ concat rest = buf @ concat cs"
  by (induction cs arbitrary: s b buf) (auto split: scanned.splits)

lemma Decode_buf:
  "Decode r v = (r', buf, res) \<Longrightarrow> buf @ concat (chunks r') = concat (chunks r)"
  using readValue_buf [of new_scanner new_builder "[]" "chunks r" "rderr r"]
  by (auto simp: Decode_def split: prod.splits)

text \<open>
  C7. Let the status be a success. If a decode target is supplied and decoding the body
  into it fails with error \<open>e\<close>, having read the bytes \<open>buf\<close> of the body, then \<^verbatim>\<open>Do\<close>
  returns the response together with the error whose text is
  \<^verbatim>\<open>JSON decoding: \<close>\<open>e\<close>\<^verbatim>\<open> (\<close>\<open>buf\<close>\<^verbatim>\<open>)\<close>; \<open>buf\<close> is the part of the body read so far, the
  rest of it is still unread. If the target is nil, \<^verbatim>\<open>Do\<close> decodes nothing: it returns
  the response with its body unread and a nil error.
\<close>

theorem Do_decode_error:
  "client (theClient w) req = Received resp \<Longrightarrow>
   200 \<le> StatusCode resp \<Longrightarrow> StatusCode resp \<le> 299 \<Longrightarrow>
   (v \<noteq> nil_interface \<longrightarrow>
      (\<forall>b buf e. Decode (Body resp) v = (b, buf, Inl e) \<longrightarrow>
         Do req v w =
           ((None, Some (Close (resp\<lparr>Body := b\<rparr>)),
             Some (errorString (''JSON decoding: '' @ json_Error e @ '' ('' @ buf @ '')''))),
            w\<lparr>sent := sent w @ [req]\<rparr>) \<and>
         buf @ concat (chunks b) = concat (chunks (Body resp)))) \<and>
   Do req (nil_interface :: 'a target) w =
     ((None, Some (Close resp), None), w\<lparr>sent := sent w @ [req]\<rparr>)"
  by (cases v) (auto simp: Do_def Let_def checkResponse_ok dest: Decode_buf)

lemma Decode_html:
  "Decode \<lparr>chunks = [''<html>something broke</html>''], rderr = None, closed = False\<rparr>
     (Pointer store_draws new_draws) =
   (\<lparr>chunks = [], rderr = None, closed = False\<rparr>, ''<html>something broke</html>'',
    Inl (SyntaxError (''invalid character '' @ [quote] @ ''<'' @ [quote] @
                      '' looking for beginning of value'')))"
  by code_simp

theorem Do_decode_error_witness:
  "fst (Do root_request (Pointer store_draws new_draws) (test_world unexpected_html)) =
     (None,
      Some \<lparr>StatusCode = 200, Body = \<lparr>chunks = [], rderr = None, closed = True\<rparr>,
            Request = root_request\<rparr>,
      Some (errorString
        (''JSON decoding: invalid character '' @ [quote] @ ''<'' @ [quote] @
         '' looking for beginning of value (<html>something broke</html>)''))) \<and>
   fst (Do root_request (nil_interface :: draws target) (test_world unexpected_html)) =
     (None,
      Some \<lparr>StatusCode = 200,
            Body = \<lparr>chunks = [''<html>something broke</html>''], rderr = None, closed = True\<rparr>,
            Request = root_request\<rparr>,
      None)"
proof -
  let ?resp = "\<lparr>StatusCode = 200,
                Body = \<lparr>chunks = [''<html>something broke</html>''], rderr = None,
                        closed = False\<rparr>,
                Request = root_request\<rparr>"
  have rc: "client (theClient (test_world unexpected_html)) root_request = Received ?resp"
    by (simp add: test_world_def NewClient_def unexpected_html_def serve_def root_request_def)
  have st: "200 \<le> StatusCode ?resp" "StatusCode ?resp \<le> 299"
    by simp_all
  note th = Do_decode_error [OF rc st, of "Pointer store_draws new_draws"]
  have a: "Do root_request (Pointer store_draws new_draws) (test_world unexpected_html) =
      ((None, Some (Close (?resp\<lparr>Body := \<lparr>chunks = [], rderr = None, closed = False\<rparr>\<rparr>)),
        Some (errorString (''JSON decoding: '' @
          json_Error (SyntaxError (''invalid character '' @ [quote] @ ''<'' @ [quote] @
                      '' looking for beginning of value'')) @ '' ('' @
          ''<html>something broke</html>'' @ '')''))),
       (test_world unexpected_html)\<lparr>sent := sent (test_world unexpected_html) @ [root_request]\<rparr>)"
    using th Decode_html by auto
  have b: "Do root_request (nil_interface :: draws target) (test_world unexpected_html) =
      ((None, Some (Close ?resp), None),
       (test_world unexpected_html)\<lparr>sent := sent (test_world unexpected_html) @ [root_request]\<rparr>)"
    using th by blast
  show ?thesis
    unfolding a b by (simp add: Close_def)
qed

section \<open>Strings\<close>

lemma Index_byte_Cons:
  "Index (c # s) [x] = (if c = x then Some 0 else map_option Suc (Index s [x]))"
  by (simp add: HasPrefix_def)

lemma Index_byte_None: "x \<notin> set s \<Longrightarrow> Index s [x] = None"
  by (induction s) (auto simp: HasPrefix_def)

lemma split_absent: "x \<notin> set s \<Longrightarrow> split s x cutc = (s, [])"
  by (simp add: split_def Index_byte_None)

lemma HasSuffix_byte: "HasSuffix s [x] \<Longrightarrow> x \<in> set s"
proof -
  assume "HasSuffix s [x]"
  then have "drop (length s - 1) s = [x]"
    by (simp add: HasSuffix_def)
  then have "x \<in> set (drop (length s - 1) s)"
    by simp
  then show ?thesis
    by (rule in_set_dropD)
qed

lemma Split_nonempty: "Split s c \<noteq> []"
  by (induction s) (auto split: list.splits)

lemma Join_Split: "Join (Split s c) c = s"
proof (induction s)
  case Nil
  show ?case by simp
next
  case (Cons a s)
  obtain x xs where sp: "Split s c = x # xs"
    using Split_nonempty [of s c] by (cases "Split s c") auto
  show ?case
  proof (cases "a = c")
    case True
    with Cons sp show ?thesis by simp
  next
    case False
    with Cons sp show ?thesis by (cases xs) auto
  qed
qed

lemma removeDots_plain:
  "''.'' \<notin> set src \<Longrightarrow> ''..'' \<notin> set src \<Longrightarrow> removeDots dst src = dst @ src"
  by (induction src arbitrary: dst) auto

section \<open>Characters of a plain path\<close>

lemma pathChar_not_special:
  "pathChar c \<Longrightarrow> c \<noteq> CHR ''#'' \<and> c \<noteq> CHR ''?'' \<and> c \<noteq> CHR ''%'' \<and> c \<noteq> CHR '':'' \<and> c \<noteq> CHR ''*''"
  by (auto simp: pathChar_def isalnum_def isupper_def islower_def isdigit_def)

lemma pathChar_not_escaped: "pathChar c \<Longrightarrow> \<not> shouldEscape c encodePath"
  by (auto simp: pathChar_def shouldEscape_def)

lemma plain_absent:
  "list_all pathChar p \<Longrightarrow>
   CHR ''#'' \<notin> set p \<and> CHR ''?'' \<notin> set p \<and> CHR ''%'' \<notin> set p \<and> CHR '':'' \<notin> set p \<and> CHR ''*'' \<notin> set p"
  using pathChar_not_special by (auto simp: list_all_iff)

section \<open>Parsing a plain path\<close>

lemma getscheme_loop_no_colon:
  "CHR '':'' \<notin> set cs \<Longrightarrow> getscheme_loop i rawurl cs = Inr ([], rawurl)"
  by (induction cs arbitrary: i) auto

lemma getscheme_no_colon: "CHR '':'' \<notin> set s \<Longrightarrow> getscheme s = Inr ([], s)"
  by (simp add: getscheme_def getscheme_loop_no_colon)

lemma unescape_check_path: "CHR ''%'' \<notin> set s \<Longrightarrow> unescape_check encodePath s = None"
  by (induction s) auto

lemma unescape_bytes_path: "CHR ''%'' \<notin> set s \<Longrightarrow> unescape_bytes encodePath s = s"
  by (induction s) auto

lemma unescape_path: "CHR ''%'' \<notin> set s \<Longrightarrow> unescape s encodePath = Inr s"
  by (simp add: unescape_def unescape_check_path unescape_bytes_path)

lemma escape_path: "list_all pathChar s \<Longrightarrow> escape s encodePath = s"
  by (induction s) (auto simp: escape_def escape_byte_def pathChar_not_escaped)

lemma setPath_plain:
  "list_all pathChar p \<Longrightarrow> setPath u p = Inr (u\<lparr>Path := p, RawPath := []\<rparr>)"
  using plain_absent [of p] by (simp add: setPath_def unescape_path escape_path)

lemma HasPrefix_slash2: "HasPrefix s ''//'' \<Longrightarrow> HasPrefix s ''/''"
  by (cases s) (auto simp: HasPrefix_def)

lemma url_Parse_plain:
  assumes "plain_path p"
  shows "url_Parse p = Inr (new_URL\<lparr>Path := p\<rparr>)"
proof -
  from assms have chars: "list_all pathChar p" and slash: "\<not> HasPrefix p ''/''"
    by (simp_all add: plain_path_def)
  note absent = plain_absent [OF chars]
  have star: "p \<noteq> ''*''"
    using absent by auto
  have q: "\<not> HasSuffix p ''?''"
    using absent HasSuffix_byte [of p "CHR ''?''"] by auto
  have "parse p False = Inr (new_URL\<lparr>Path := p\<rparr>)"
    using star q slash absent HasPrefix_slash2 [of p]
    by (auto simp: parse_def getscheme_no_colon split_absent Index_byte_None ToLower_def
        setPath_plain [OF chars] new_URL_def Let_def)
  then show ?thesis
    using absent by (simp add: url_Parse_def split_absent)
qed

section \<open>Resolving a plain path against the default base URL\<close>

lemma url_Parse_defaultBaseURL: "url_Parse defaultBaseURL = Inr (URL (request_for ''/''))"
  by code_simp

lemma BaseURL_NewClient: "BaseURL (NewClient d h) = URL (request_for ''/'')"
  by (simp add: NewClient_def url_Parse_defaultBaseURL)

lemma EscapedPath_plain:
  "list_all pathChar p \<Longrightarrow> RawPath u = [] \<Longrightarrow> Path u = p \<Longrightarrow> EscapedPath u = p"
  using plain_absent [of p] by (auto simp: EscapedPath_def escape_path)

lemma TrimLeft_no_slash: "\<not> HasPrefix p ''/'' \<Longrightarrow> TrimLeft p CHR ''/'' = p"
  by (cases p) (auto simp: TrimLeft_def HasPrefix_def)

lemma resolvePath_plain:
  assumes "plain_path p"
  shows "resolvePath ''/'' p = CHR ''/'' # p"
proof -
  from assms have slash: "\<not> HasPrefix p ''/''"
    and dots: "''.'' \<notin> set (Split p CHR ''/'')" "''..'' \<notin> set (Split p CHR ''/'')"
    by (simp_all add: plain_path_def)
  have li: "LastIndex ''/'' ''/'' = Some 0"
    by code_simp
  have full: "(if p = [] then ''/''
               else if hd p \<noteq> CHR ''/'' then
                 (case LastIndex ''/'' ''/'' of None \<Rightarrow> p | Some i \<Rightarrow> take (i + 1) ''/'' @ p)
               else p) = CHR ''/'' # p"
    using slash by (cases p) (auto simp: li HasPrefix_def)
  have src: "Split (CHR ''/'' # p) CHR ''/'' = [] # Split p CHR ''/''"
    by simp
  have lst: "last ([] # Split p CHR ''/'') = last (Split p CHR ''/'')"
    using Split_nonempty [of p "CHR ''/''"] by simp
  have lst_in: "last (Split p CHR ''/'') \<in> set (Split p CHR ''/'')"
    using Split_nonempty [of p "CHR ''/''"] by simp
  have nodot: "last (Split p CHR ''/'') \<noteq> ''.''" "last (Split p CHR ''/'') \<noteq> ''..''"
    using lst_in dots by auto
  have rd: "removeDots [] ([] # Split p CHR ''/'') = [] # Split p CHR ''/''"
    using removeDots_plain [of "[] # Split p CHR ''/''" "[]"] dots by simp
  have jn: "Join ([] # Split p CHR ''/'') CHR ''/'' = CHR ''/'' # p"
    using Split_nonempty [of p "CHR ''/''"] Join_Split [of p "CHR ''/''"]
    by (cases "Split p CHR ''/''") auto
  have tl: "TrimLeft (CHR ''/'' # p) CHR ''/'' = p"
    using TrimLeft_no_slash [OF slash] by (simp add: TrimLeft_def)
  show ?thesis
    unfolding resolvePath_def full Let_def src lst rd
    using nodot by (simp add: jn tl)
qed

lemma ResolveReference_plain:
  assumes "plain_path p"
  shows "ResolveReference (URL (request_for ''/'')) (new_URL\<lparr>Path := p\<rparr>) =
         URL (request_for (CHR ''/'' # p))"
proof -
  from assms have chars: "list_all pathChar p"
    by (simp add: plain_path_def)
  have chars': "list_all pathChar (CHR ''/'' # p)"
    using chars by (simp add: pathChar_def)
  have e1: "EscapedPath (URL (request_for ''/'')) = ''/''"
    by code_simp
  have e2: "EscapedPath (new_URL\<lparr>Path := p\<rparr>) = p"
    using EscapedPath_plain [OF chars, of "new_URL\<lparr>Path := p\<rparr>"] by (simp add: new_URL_def)
  show ?thesis
    unfolding ResolveReference_def Let_def e1 e2 resolvePath_plain [OF assms]
      setPath_ignore_def setPath_plain [OF chars']
    by (simp add: new_URL_def request_for_def)
qed

lemma URL_String_plain:
  assumes "list_all pathChar p"
  shows "URL_String (URL (request_for (CHR ''/'' # p))) = defaultBaseURL @ p"
proof -
  have chars': "list_all pathChar (CHR ''/'' # p)"
    using assms by (simp add: pathChar_def)
  have e: "EscapedPath (URL (request_for (CHR ''/'' # p))) = CHR ''/'' # p"
    using EscapedPath_plain [OF chars', of "URL (request_for (CHR ''/'' # p))"]
    by (simp add: request_for_def)
  have h: "escape ''applications.opap.gr'' encodeHost = ''applications.opap.gr''"
    by code_simp
  show ?thesis
    unfolding URL_String_def Let_def e
    by (simp add: request_for_def h defaultBaseURL_def)
qed

lemma parseAuthority_default:
  "parseAuthority ''applications.opap.gr'' = Inr (None, ''applications.opap.gr'')"
  by code_simp

text \<open>\<^verbatim>\<open>parse\<close> on a URL with a scheme, an authority and a path.\<close>

lemma parse_hierarchical:
  assumes "getscheme rawurl = Inr (scheme, rest)"
    and "scheme \<noteq> []" and "rawurl \<noteq> ''*''"
    and "CHR ''?'' \<notin> set rest"
    and "HasPrefix rest ''//''"
    and "split (drop 2 rest) CHR ''/'' False = (authority, path)"
    and "parseAuthority authority = Inr (user, host)"
  shows "parse rawurl False =
         setPath (new_URL\<lparr>Scheme := ToLower scheme, RawQuery := [], User := user, Host := host\<rparr>) path"
proof -
  have q: "\<not> HasSuffix rest ''?''"
    using assms(4) HasSuffix_byte [of rest "CHR ''?''"] by blast
  have sq: "split rest CHR ''?'' True = (rest, [])"
    using assms(4) by (rule split_absent)
  have pre: "HasPrefix rest ''/''"
    using assms(5) by (rule HasPrefix_slash2)
  have low: "ToLower scheme \<noteq> []"
    using assms(2) by (simp add: ToLower_def)
  show ?thesis
    using assms(3) q pre low assms(5)
    by (simp add: parse_def assms(1) Let_def sq assms(6) assms(7) del: Index.simps)
qed

lemma url_Parse_absolute:
  assumes chars: "list_all pathChar p"
  shows "url_Parse (defaultBaseURL @ p) = Inr (URL (request_for (CHR ''/'' # p)))"
proof -
  note absent = plain_absent [OF chars]
  let ?raw = "''http://applications.opap.gr/'' @ p"
  let ?rest = "''//applications.opap.gr/'' @ p"
  have chars': "list_all pathChar (CHR ''/'' # p)"
    using chars by (simp add: pathChar_def)
  have gs: "getscheme ?raw = Inr (''http'', ?rest)"
    by (simp add: getscheme_def isalpha_def islower_def isupper_def isdigit_def)
  have lower: "ToLower ''http'' = ''http''"
    by code_simp
  have noq: "CHR ''?'' \<notin> set ?rest"
    using absent by simp
  have pre: "HasPrefix ?rest ''//''"
    by (simp add: HasPrefix_def)
  have auth: "split (drop 2 ?rest) CHR ''/'' False = (''applications.opap.gr'', CHR ''/'' # p)"
    by (simp add: split_def Index_byte_Cons del: Index.simps)
  have ne: "''http'' \<noteq> []" "?raw \<noteq> ''*''"
    by simp_all
  have "parse ?raw False = Inr (URL (request_for (CHR ''/'' # p)))"
    unfolding parse_hierarchical [OF gs ne noq pre auth parseAuthority_default]
      lower setPath_plain [OF chars']
    by (simp add: new_URL_def request_for_def)
  moreover have "split ?raw CHR ''#'' True = (?raw, [])"
    using absent by (intro split_absent) simp
  ultimately show ?thesis
    by (simp add: url_Parse_def defaultBaseURL_def del: Index.simps)
qed

lemma removeEmptyPort_default:
  "removeEmptyPort ''applications.opap.gr'' = ''applications.opap.gr''"
  by code_simp

lemma http_NewRequest_plain:
  "list_all pathChar p \<Longrightarrow> validMethod method \<Longrightarrow>
   http_NewRequest method (defaultBaseURL @ p) body =
     Inr ((request_for (CHR ''/'' # p))\<lparr>Method := method, ReqBody := body\<rparr>)"
  using removeEmptyPort_default
  by (auto simp: http_NewRequest_def Let_def url_Parse_absolute validMethod_def request_for_def)

lemma NewRequest_plain:
  assumes "plain_path p" and "validMethod method"
    and "BaseURL (theClient w) = URL (request_for ''/'')"
  shows "NewRequest method p body w =
         (Inr ((request_for (CHR ''/'' # p))\<lparr>Method := method, ReqBody := body\<rparr>), w)"
proof -
  from assms(1) have chars: "list_all pathChar p"
    by (simp add: plain_path_def)
  show ?thesis
    by (simp add: NewRequest_def url_Parse_plain [OF assms(1)] assms(3)
      ResolveReference_plain [OF assms(1)] URL_String_plain [OF chars]
      http_NewRequest_plain [OF chars assms(2)])
qed

lemma validMethod_GET: "validMethod ''GET''"
  by code_simp

section \<open>Building a request\<close>

lemma unescape_check_star: "unescape_check mode ''*'' \<noteq> Some e"
  by (cases mode) (simp_all add: shouldEscape_def isalnum_def isalpha_def isupper_def islower_def isdigit_def)












section \<open>Decimal numbers\<close>

lemma digit_table:
  "list_all (\<lambda>u. isdigit (''0123456789'' ! u) \<and>
                 int (of_char (''0123456789'' ! u)) - 48 = int u \<and>
                 pathChar (''0123456789'' ! u) \<and>
                 ''0123456789'' ! u \<noteq> CHR ''/'' \<and>
                 (''0123456789'' ! u = CHR ''0'' \<longleftrightarrow> u = 0))
     [0..<10]"
  by code_simp

lemma digit_nth:
  assumes "u < 10"
  shows "isdigit (''0123456789'' ! u)" and "int (of_char (''0123456789'' ! u)) - 48 = int u"
    and "pathChar (''0123456789'' ! u)" and "''0123456789'' ! u \<noteq> CHR ''/''"
    and "''0123456789'' ! u = CHR ''0'' \<longleftrightarrow> u = 0"
proof -
  from assms have "u \<in> set [0..<10]"
    by simp
  with digit_table
  have "isdigit (''0123456789'' ! u) \<and>
        int (of_char (''0123456789'' ! u)) - 48 = int u \<and>
        pathChar (''0123456789'' ! u) \<and>
        ''0123456789'' ! u \<noteq> CHR ''/'' \<and>
        (''0123456789'' ! u = CHR ''0'' \<longleftrightarrow> u = 0)"
    unfolding list_all_iff by blast
  then show "isdigit (''0123456789'' ! u)" and "int (of_char (''0123456789'' ! u)) - 48 = int u"
    and "pathChar (''0123456789'' ! u)" and "''0123456789'' ! u \<noteq> CHR ''/''"
    and "''0123456789'' ! u = CHR ''0'' \<longleftrightarrow> u = 0"
    by blast+
qed

lemma fmtDigits_digits: "list_all isdigit (fmtDigits u)"
proof (induction u rule: fmtDigits.induct)
  case (1 u)
  show ?case
  proof (cases "u < 10")
    case True
    then show ?thesis
      by (subst fmtDigits.simps) (simp add: digit_nth)
  next
    case False
    with 1 show ?thesis
      by (subst fmtDigits.simps) (simp add: digit_nth)
  qed
qed

lemma fmtDigits_pathChar: "list_all pathChar (fmtDigits u)"
proof (induction u rule: fmtDigits.induct)
  case (1 u)
  show ?case
  proof (cases "u < 10")
    case True
    then show ?thesis
      by (subst fmtDigits.simps) (simp add: digit_nth)
  next
    case False
    with 1 show ?thesis
      by (subst fmtDigits.simps) (simp add: digit_nth)
  qed
qed

lemma fmtDigits_no_slash: "CHR ''/'' \<notin> set (fmtDigits u)"
proof (induction u rule: fmtDigits.induct)
  case (1 u)
  have last: "CHR ''/'' \<noteq> ''0123456789'' ! (u mod 10)"
    using digit_nth(4) [of "u mod 10"] by simp
  show ?case
  proof (cases "u < 10")
    case True
    with last show ?thesis
      by (subst fmtDigits.simps) simp
  next
    case False
    with 1 last show ?thesis
      by (subst fmtDigits.simps) simp
  qed
qed

lemma fmtDigits_nonempty: "fmtDigits u \<noteq> []"
  by (subst fmtDigits.simps) simp

lemma digit_value_snoc:
  "digit_value (ds @ [c]) = 10 * digit_value ds + (int (of_char c) - 48)"
  by (simp add: digit_value_def)

lemma fmtDigits_value: "digit_value (fmtDigits u) = int u"
proof (induction u rule: fmtDigits.induct)
  case (1 u)
  show ?case
  proof (cases "u < 10")
    case True
    then show ?thesis
      by (subst fmtDigits.simps) (simp add: digit_nth digit_value_def)
  next
    case False
    with 1 have "digit_value (fmtDigits (u div 10)) = int (u div 10)"
      by simp
    moreover have "10 * int (u div 10) + int (u mod 10) = int u"
      by (simp add: zdiv_int zmod_int)
    ultimately show ?thesis
      using False by (subst fmtDigits.simps) (simp add: digit_value_snoc digit_nth)
  qed
qed

lemma fmtDigits_no_leading_zero: "0 < u \<Longrightarrow> hd (fmtDigits u) \<noteq> CHR ''0''"
proof (induction u rule: fmtDigits.induct)
  case (1 u)
  show ?case
  proof (cases "u < 10")
    case True
    with 1(2) have "''0123456789'' ! u \<noteq> CHR ''0''"
      using digit_nth(5) [of u] by simp
    with True show ?thesis
      by (subst fmtDigits.simps) (simp del: nth_Cons_numeral nth_Cons')
  next
    case False
    then have "0 < u div 10"
      by simp
    with 1(1) False have "hd (fmtDigits (u div 10)) \<noteq> CHR ''0''"
      by simp
    with False show ?thesis
      by (subst fmtDigits.simps) (simp add: fmtDigits_nonempty)
  qed
qed

lemma fmt_d_pathChar: "list_all pathChar (fmt_d n)"
  by (simp add: fmt_d_def fmtDigits_pathChar pathChar_def)

lemma fmt_d_no_slash: "CHR ''/'' \<notin> set (fmt_d n)"
  by (simp add: fmt_d_def fmtDigits_no_slash)

lemma fmt_d_5: "fmt_d 5 = ''5''"
  by code_simp

section \<open>Segments\<close>

lemma Split_no_sep: "c \<notin> set s \<Longrightarrow> Split s c = [s]"
  by (induction s) auto

lemma Split_append:
  "Split (a @ c # b) c = Split a c @ Split b c"
proof (induction a)
  case Nil
  show ?case by simp
next
  case (Cons x a)
  obtain y ys where "Split a c = y # ys"
    using Split_nonempty [of a c] by (cases "Split a c") auto
  with Cons show ?case
    by auto
qed

lemma plain_segments_append:
  "plain_segments a \<Longrightarrow> plain_segments b \<Longrightarrow> plain_segments (a @ CHR ''/'' # b)"
  by (auto simp: plain_segments_def Split_append pathChar_def)

lemma plain_path_segments:
  "plain_path p \<longleftrightarrow> plain_segments p \<and> \<not> HasPrefix p ''/''"
  by (auto simp: plain_path_def plain_segments_def)

lemma plain_segments_file:
  "list_all pathChar s \<Longrightarrow> CHR ''/'' \<notin> set s \<Longrightarrow> plain_segments (s @ ''.json'')"
  by (auto simp: plain_segments_def Split_no_sep pathChar_def isalnum_def isalpha_def
      islower_def isupper_def isdigit_def)

lemma plain_segments_date:
  "plain_segments (fmt_d day @ ''-'' @ fmt_d month @ ''-'' @ fmt_d year @ ''.json'')"
proof -
  have "plain_segments ((fmt_d day @ ''-'' @ fmt_d month @ ''-'' @ fmt_d year) @ ''.json'')"
    by (rule plain_segments_file) (simp_all add: fmt_d_pathChar fmt_d_no_slash pathChar_def)
  then show ?thesis
    by simp
qed

section \<open>The latest draw\<close>

lemma Do_decoded:
  "client (theClient w) req = Received resp \<Longrightarrow>
   200 \<le> StatusCode resp \<Longrightarrow> StatusCode resp \<le> 299 \<Longrightarrow>
   Decode (Body resp) (Pointer um x) = (b, buf, Inr y) \<Longrightarrow>
   Do req (Pointer um x) w =
     ((Some y, Some (Close (resp\<lparr>Body := b\<rparr>)), None), w\<lparr>sent := sent w @ [req]\<rparr>)"
  by (simp add: Do_def Let_def checkResponse_ok)

lemma NewRequest_Method:
  "NewRequest m u b w = (Inr req, w') \<Longrightarrow> m \<noteq> [] \<Longrightarrow> Method req = m \<and> ReqBody req = b"
  by (auto simp: NewRequest_def http_NewRequest_def Let_def split: sum.splits if_splits)

lemma get_sent:
  "NewRequest ''GET'' url None w = (Inr req, w) \<Longrightarrow>
   snd (get url v w) = w\<lparr>sent := sent w @ [req]\<rparr>"
  by (simp add: get_Do Do_world)

lemma readValue_joker_1873:
  "readValue new_scanner new_builder [] [joker_1873] None = (joker_1873, [], Inr joker_1873_json)"
  by code_simp

lemma store_draws_joker_1873:
  "store_draws joker_1873_json new_draws = (\<lparr>draws.Draw = joker_1873_draw\<rparr>, None)"
  by code_simp

lemma Decode_joker_1873:
  "Decode \<lparr>chunks = [joker_1873], rderr = None, closed = False\<rparr> (Pointer store_draws new_draws) =
     (\<lparr>chunks = [], rderr = None, closed = False\<rparr>, joker_1873,
      Inr \<lparr>draws.Draw = joker_1873_draw\<rparr>)"
  unfolding Decode_def body.simps readValue_joker_1873
  by (simp add: store_draws_joker_1873)

lemma Latest_decoded:
  assumes "NewRequest ''GET'' (Endpoint (Client.Draws (theClient w)) @ ''/'' @ g @ ''/last.json'')
             None w = (Inr req, w)"
    and "client (theClient w) req = Received resp"
    and "200 \<le> StatusCode resp" and "StatusCode resp \<le> 299"
    and "Decode (Body resp) (Pointer store_draws new_draws) = (b, buf, Inr env)"
  shows "Latest g w =
     ((Some (draws.Draw env), Some (Close (resp\<lparr>Body := b\<rparr>)), None),
      w\<lparr>sent := sent w @ [req]\<rparr>)"
  unfolding Latest_def Let_def get_Do [OF assms(1)] Do_decoded [OF assms(2-5)]
  by simp

lemma Latest_sent:
  assumes "NewRequest ''GET'' (Endpoint (Client.Draws (theClient w)) @ ''/'' @ g @ ''/last.json'')
             None w = (Inr req, w)"
  shows "sent (snd (Latest g w)) = sent w @ [req]"
proof -
  have "snd (Latest g w) =
        snd (get (Endpoint (Client.Draws (theClient w)) @ ''/'' @ g @ ''/last.json'')
               (Pointer store_draws new_draws) w)"
    by (simp add: Latest_def Let_def split: prod.splits option.splits)
  then show ?thesis
    unfolding get_sent [OF assms] by simp
qed

lemma ascii_games_plain:
  "list_all plain_segments
     [Kino, Lotto, Joker, Proto, Super3, Extra5, Propogoal, Penalties, Bowling]"
  by code_simp

lemma plain_segments_endpoint: "plain_segments defaultDrawsEndpoint"
  by code_simp

lemma HasPrefix_endpoint: "\<not> HasPrefix (defaultDrawsEndpoint @ s) ''/''"
  by (simp add: defaultDrawsEndpoint_def HasPrefix_def)

lemma plain_segments_last: "plain_segments ''last.json''"
  by code_simp

lemma plain_latest:
  assumes "plain_segments g"
  shows "plain_path (defaultDrawsEndpoint @ ''/'' @ g @ ''/last.json'')"
proof -
  have "plain_segments (g @ CHR ''/'' # ''last.json'')"
    using assms plain_segments_last by (rule plain_segments_append)
  with plain_segments_endpoint
  have "plain_segments (defaultDrawsEndpoint @ CHR ''/'' # g @ CHR ''/'' # ''last.json'')"
    by (rule plain_segments_append)
  then show ?thesis
    using HasPrefix_endpoint [of "''/'' @ g @ ''/last.json''"]
    by (simp add: plain_path_segments)
qed

lemma Endpoint_NewClient: "Endpoint (Client.Draws (NewClient d h)) = defaultDrawsEndpoint"
  by (simp add: NewClient_def)

lemma request_for_GET: "(request_for p)\<lparr>Method := ''GET'', ReqBody := None\<rparr> = request_for p"
  by (simp add: request_for_def)

lemma NewRequest_default:
  assumes "theClient w = NewClient d h" and "plain_path p"
  shows "NewRequest ''GET'' p None w = (Inr (request_for (CHR ''/'' # p)), w)"
    and "URL_String (URL (request_for (CHR ''/'' # p))) = defaultBaseURL @ p"
proof -
  have "BaseURL (theClient w) = URL (request_for ''/'')"
    by (simp add: assms(1) BaseURL_NewClient)
  with assms(2) show "NewRequest ''GET'' p None w = (Inr (request_for (CHR ''/'' # p)), w)"
    using NewRequest_plain [of p "''GET''" w None] validMethod_GET
    by (simp add: request_for_GET)
  from assms(2) show "URL_String (URL (request_for (CHR ''/'' # p))) = defaultBaseURL @ p"
    by (intro URL_String_plain) (simp add: plain_path_def)
qed

lemma latest_joker_answer:
  "client (theClient (test_world latest_joker)) (request_for ''/DrawsRestServices/joker/last.json'') =
     Received \<lparr>StatusCode = 200,
               Body = \<lparr>chunks = [joker_1873], rderr = None, closed = False\<rparr>,
               Request = request_for ''/DrawsRestServices/joker/last.json''\<rparr>"
  by (simp add: test_world_def NewClient_def latest_joker_def serve_def request_for_def)

lemma Latest_joker_1873:
  "Latest Joker (test_world latest_joker) =
     ((Some joker_1873_draw,
       Some \<lparr>StatusCode = 200, Body = \<lparr>chunks = [], rderr = None, closed = True\<rparr>,
             Request = request_for ''/DrawsRestServices/joker/last.json''\<rparr>,
       None),
      (test_world latest_joker)\<lparr>sent := [request_for ''/DrawsRestServices/joker/last.json'']\<rparr>)"
proof -
  let ?resp = "\<lparr>StatusCode = 200,
                Body = \<lparr>chunks = [joker_1873], rderr = None, closed = False\<rparr>,
                Request = request_for ''/DrawsRestServices/joker/last.json''\<rparr>"
  have st: "200 \<le> StatusCode ?resp" "StatusCode ?resp \<le> 299"
    by simp_all
  have dec: "Decode (Body ?resp) (Pointer store_draws new_draws) =
     (\<lparr>chunks = [], rderr = None, closed = False\<rparr>, joker_1873,
      Inr \<lparr>draws.Draw = joker_1873_draw\<rparr>)"
    by (simp add: Decode_joker_1873)
  have "sent (test_world latest_joker) = []"
    by (simp add: test_world_def)
  then show ?thesis
    unfolding Latest_decoded [OF NewRequest_joker_last latest_joker_answer st dec]
    by (simp add: Close_def)
qed


text \<open>
  C1. \<^verbatim>\<open>Latest\<close> builds a GET request for the path \<open>endpoint/g/last.json\<close> and sends it;
  when the answer has a status from 200 to 299 and its body decodes into the single-draw
  envelope, \<^verbatim>\<open>Latest\<close> returns the envelope's \<^verbatim>\<open>draw\<close> field, the response and a nil
  error. On a client made by \<^verbatim>\<open>NewClient\<close> and for every game name of plain segments,
  which the nine game constants spelt in ASCII are, building the request succeeds, and
  the URL requested is the base URL followed by that path. Against the tests' body for
  the latest Joker draw, \<^verbatim>\<open>Latest\<close> returns the draw 1873 with its six results and its
  draw time, and a nil error.
\<close>

theorem Latest_returns_draw:
  "(NewRequest ''GET'' (Endpoint (Client.Draws (theClient w)) @ ''/'' @ g @ ''/last.json'')
      None w = (Inr req, w) \<longrightarrow>
      Method req = ''GET'' \<and> sent (snd (Latest g w)) = sent w @ [req] \<and>
      (client (theClient w) req = Received resp \<and>
       200 \<le> StatusCode resp \<and> StatusCode resp \<le> 299 \<and>
       Decode (Body resp) (Pointer store_draws new_draws) = (b, buf, Inr env) \<longrightarrow>
         Latest g w =
           ((Some (draws.Draw env), Some (Close (resp\<lparr>Body := b\<rparr>)), None),
            w\<lparr>sent := sent w @ [req]\<rparr>))) \<and>
   (theClient w = NewClient d h \<and> plain_segments g \<longrightarrow>
      NewRequest ''GET'' (Endpoint (Client.Draws (theClient w)) @ ''/'' @ g @ ''/last.json'')
        None w = (Inr (request_for (''/DrawsRestServices/'' @ g @ ''/last.json'')), w) \<and>
      URL_String (URL (request_for (''/DrawsRestServices/'' @ g @ ''/last.json''))) =
        ''http://applications.opap.gr/DrawsRestServices/'' @ g @ ''/last.json'') \<and>
   list_all plain_segments
     [Kino, Lotto, Joker, Proto, Super3, Extra5, Propogoal, Penalties, Bowling] \<and>
   Latest Joker (test_world latest_joker) =
     ((Some \<lparr>Draw.DrawTime = ''24-12-2017T22:00:00'', DrawNo = 1873,
             Results = Slice [40, 13, 1, 24, 15, 8] 6\<rparr>,
       Some \<lparr>StatusCode = 200, Body = \<lparr>chunks = [], rderr = None, closed = True\<rparr>,
             Request = request_for ''/DrawsRestServices/joker/last.json''\<rparr>,
       None),
      (test_world latest_joker)\<lparr>sent := [request_for ''/DrawsRestServices/joker/last.json'']\<rparr>)"
proof (intro conjI impI)
  assume a: "NewRequest ''GET''
      (Endpoint (Client.Draws (theClient w)) @ ''/'' @ g @ ''/last.json'') None w = (Inr req, w)"
  from a show "Method req = ''GET''"
    using NewRequest_Method [of "''GET''" _ None w req w] by simp
  from a show "sent (snd (Latest g w)) = sent w @ [req]"
    by (rule Latest_sent)
  assume "client (theClient w) req = Received resp \<and>
       200 \<le> StatusCode resp \<and> StatusCode resp \<le> 299 \<and>
       Decode (Body resp) (Pointer store_draws new_draws) = (b, buf, Inr env)"
  with a show "Latest g w =
           ((Some (draws.Draw env), Some (Close (resp\<lparr>Body := b\<rparr>)), None),
            w\<lparr>sent := sent w @ [req]\<rparr>)"
    by (intro Latest_decoded) simp_all
next
  assume a: "theClient w = NewClient d h \<and> plain_segments g"
  then have p: "plain_path (defaultDrawsEndpoint @ ''/'' @ g @ ''/last.json'')"
    by (intro plain_latest) simp
  from a have c: "theClient w = NewClient d h"
    by simp
  show "NewRequest ''GET'' (Endpoint (Client.Draws (theClient w)) @ ''/'' @ g @ ''/last.json'')
        None w = (Inr (request_for (''/DrawsRestServices/'' @ g @ ''/last.json'')), w)"
    using NewRequest_default(1) [OF c p]
    by (simp add: c Endpoint_NewClient defaultDrawsEndpoint_def)
  show "URL_String (URL (request_for (''/DrawsRestServices/'' @ g @ ''/last.json''))) =
        ''http://applications.opap.gr/DrawsRestServices/'' @ g @ ''/last.json''"
    using NewRequest_default(2) [OF c p]
    by (simp add: defaultDrawsEndpoint_def defaultBaseURL_def)
next
  show "list_all plain_segments
     [Kino, Lotto, Joker, Proto, Super3, Extra5, Propogoal, Penalties, Bowling]"
    by (rule ascii_games_plain)
next
  show "Latest Joker (test_world latest_joker) =
     ((Some \<lparr>Draw.DrawTime = ''24-12-2017T22:00:00'', DrawNo = 1873,
             Results = Slice [40, 13, 1, 24, 15, 8] 6\<rparr>,
       Some \<lparr>StatusCode = 200, Body = \<lparr>chunks = [], rderr = None, closed = True\<rparr>,
             Request = request_for ''/DrawsRestServices/joker/last.json''\<rparr>,
       None),
      (test_world latest_joker)\<lparr>sent := [request_for ''/DrawsRestServices/joker/last.json'']\<rparr>)"
    using Latest_joker_1873 by (simp add: joker_1873_draw_def)
qed

lemma plain_segments_Joker: "plain_segments Joker"
  by code_simp

theorem Latest_returns_draw_witness:
  "NewRequest ''GET''
     (Endpoint (Client.Draws (theClient (test_world latest_joker))) @ ''/'' @ Joker @ ''/last.json'')
     None (test_world latest_joker) =
     (Inr (request_for ''/DrawsRestServices/joker/last.json''), test_world latest_joker) \<and>
   URL_String (URL (request_for ''/DrawsRestServices/joker/last.json'')) =
     ''http://applications.opap.gr/DrawsRestServices/joker/last.json'' \<and>
   Method (request_for ''/DrawsRestServices/joker/last.json'') = ''GET'' \<and>
   sent (snd (Latest Joker (test_world latest_joker))) =
     [request_for ''/DrawsRestServices/joker/last.json''] \<and>
   fst (Latest Joker (test_world latest_joker)) =
     (Some \<lparr>Draw.DrawTime = ''24-12-2017T22:00:00'', DrawNo = 1873,
            Results = Slice [40, 13, 1, 24, 15, 8] 6\<rparr>,
      Some \<lparr>StatusCode = 200, Body = \<lparr>chunks = [], rderr = None, closed = True\<rparr>,
            Request = request_for ''/DrawsRestServices/joker/last.json''\<rparr>,
      None)"
proof -
  let ?w = "test_world latest_joker"
  let ?req = "request_for ''/DrawsRestServices/joker/last.json''"
  let ?resp = "\<lparr>StatusCode = 200,
                Body = \<lparr>chunks = [joker_1873], rderr = None, closed = False\<rparr>,
                Request = ?req\<rparr>"
  note th = Latest_returns_draw [of ?w Joker ?req ?resp
      "\<lparr>chunks = [], rderr = None, closed = False\<rparr>" joker_1873
      "\<lparr>draws.Draw = joker_1873_draw\<rparr>" latest_joker "Some latest_joker"]
  have c: "theClient ?w = NewClient latest_joker (Some latest_joker)"
    by (simp add: test_world_def)
  have nr: "NewRequest ''GET''
     (Endpoint (Client.Draws (theClient ?w)) @ ''/'' @ Joker @ ''/last.json'') None ?w = (Inr ?req, ?w)"
    and us: "URL_String (URL ?req) = ''http://applications.opap.gr/DrawsRestServices/joker/last.json''"
    using th c plain_segments_Joker by (simp_all add: Joker_def)
  have dec: "Decode (Body ?resp) (Pointer store_draws new_draws) =
     (\<lparr>chunks = [], rderr = None, closed = False\<rparr>, joker_1873,
      Inr \<lparr>draws.Draw = joker_1873_draw\<rparr>)"
    by (simp add: Decode_joker_1873)
  have m: "Method ?req = ''GET''" and s: "sent (snd (Latest Joker ?w)) = sent ?w @ [?req]"
    and l: "Latest Joker ?w =
      ((Some (draws.Draw \<lparr>draws.Draw = joker_1873_draw\<rparr>),
        Some (Close (?resp\<lparr>Body := \<lparr>chunks = [], rderr = None, closed = False\<rparr>\<rparr>)), None),
       ?w\<lparr>sent := sent ?w @ [?req]\<rparr>)"
    using th nr latest_joker_answer dec by simp_all
  have e: "sent ?w = []"
    by (simp add: test_world_def)
  show ?thesis
    unfolding l s e using nr us m
    by (simp add: Close_def joker_1873_draw_def)
qed

section \<open>The draws of a date\<close>

lemma ByDate_decoded:
  assumes "NewRequest ''GET''
             (Endpoint (Client.Draws (theClient w)) @ ''/'' @ g @ ''/drawDate/'' @
              fmt_d day @ ''-'' @ fmt_d month @ ''-'' @ fmt_d year @ ''.json'')
             None w = (Inr req, w)"
    and "client (theClient w) req = Received resp"
    and "200 \<le> StatusCode resp" and "StatusCode resp \<le> 299"
    and "Decode (Body resp) (Pointer store_drawsByDate new_drawsByDate) = (b, buf, Inr env)"
  shows "ByDate g day month year w =
     ((drawsByDate_Draws.Draw (drawsByDate.Draws env), Some (Close (resp\<lparr>Body := b\<rparr>)), None),
      w\<lparr>sent := sent w @ [req]\<rparr>)"
  unfolding ByDate_def Let_def append_assoc get_Do [OF assms(1)] Do_decoded [OF assms(2-5)]
  by simp

lemma ByDate_sent:
  assumes "NewRequest ''GET''
             (Endpoint (Client.Draws (theClient w)) @ ''/'' @ g @ ''/drawDate/'' @
              fmt_d day @ ''-'' @ fmt_d month @ ''-'' @ fmt_d year @ ''.json'')
             None w = (Inr req, w)"
  shows "sent (snd (ByDate g day month year w)) = sent w @ [req]"
proof -
  have "snd (ByDate g day month year w) =
        snd (get (Endpoint (Client.Draws (theClient w)) @ ''/'' @ g @ ''/drawDate/'' @
                  fmt_d day @ ''-'' @ fmt_d month @ ''-'' @ fmt_d year @ ''.json'')
               (Pointer store_drawsByDate new_drawsByDate) w)"
    by (simp add: ByDate_def Let_def split: prod.splits option.splits)
  then show ?thesis
    unfolding get_sent [OF assms] by simp
qed

lemma PropoByDate_decoded:
  assumes "NewRequest ''GET''
             (Endpoint (Client.Draws (theClient w)) @ ''/'' @ g @ ''/drawDate/'' @
              fmt_d day @ ''-'' @ fmt_d month @ ''-'' @ fmt_d year @ ''.json'')
             None w = (Inr req, w)"
    and "client (theClient w) req = Received resp"
    and "200 \<le> StatusCode resp" and "StatusCode resp \<le> 299"
    and "Decode (Body resp) (Pointer store_propoDrawsByDate new_propoDrawsByDate) =
           (b, buf, Inr env)"
  shows "PropoByDate g day month year w =
     ((propoDrawsByDate_Draws.Draw (propoDrawsByDate.Draws env),
       Some (Close (resp\<lparr>Body := b\<rparr>)), None),
      w\<lparr>sent := sent w @ [req]\<rparr>)"
  unfolding PropoByDate_def Let_def append_assoc get_Do [OF assms(1)] Do_decoded [OF assms(2-5)]
  by simp

lemma PropoByDate_sent:
  assumes "NewRequest ''GET''
             (Endpoint (Client.Draws (theClient w)) @ ''/'' @ g @ ''/drawDate/'' @
              fmt_d day @ ''-'' @ fmt_d month @ ''-'' @ fmt_d year @ ''.json'')
             None w = (Inr req, w)"
  shows "sent (snd (PropoByDate g day month year w)) = sent w @ [req]"
proof -
  have "snd (PropoByDate g day month year w) =
        snd (get (Endpoint (Client.Draws (theClient w)) @ ''/'' @ g @ ''/drawDate/'' @
                  fmt_d day @ ''-'' @ fmt_d month @ ''-'' @ fmt_d year @ ''.json'')
               (Pointer store_propoDrawsByDate new_propoDrawsByDate) w)"
    by (simp add: PropoByDate_def Let_def split: prod.splits option.splits)
  then show ?thesis
    unfolding get_sent [OF assms] by simp
qed

lemma plain_segments_drawDate: "plain_segments ''drawDate''"
  by code_simp

lemma plain_by_date:
  assumes "plain_segments g"
  shows "plain_path (defaultDrawsEndpoint @ ''/'' @ g @ ''/drawDate/'' @
                     fmt_d day @ ''-'' @ fmt_d month @ ''-'' @ fmt_d year @ ''.json'')"
proof -
  let ?file = "fmt_d day @ ''-'' @ fmt_d month @ ''-'' @ fmt_d year @ ''.json''"
  have "plain_segments (''drawDate'' @ CHR ''/'' # ?file)"
    using plain_segments_drawDate plain_segments_date by (rule plain_segments_append)
  with assms have "plain_segments (g @ CHR ''/'' # ''drawDate'' @ CHR ''/'' # ?file)"
    by (rule plain_segments_append)
  with plain_segments_endpoint
  have "plain_segments (defaultDrawsEndpoint @ CHR ''/'' # g @ CHR ''/'' # ''drawDate'' @ CHR ''/'' # ?file)"
    by (rule plain_segments_append)
  then show ?thesis
    using HasPrefix_endpoint [of "''/'' @ g @ ''/drawDate/'' @ ?file"]
    by (simp add: plain_path_segments)
qed

lemma readValue_joker_24_12_2017:
  "readValue new_scanner new_builder [] [joker_24_12_2017] None =
     (joker_24_12_2017, [], Inr joker_24_12_2017_json)"
  by code_simp

lemma store_drawsByDate_joker_24_12_2017:
  "store_drawsByDate joker_24_12_2017_json new_drawsByDate =
     (\<lparr>drawsByDate.Draws = \<lparr>drawsByDate_Draws.Draw = Slice [joker_1873_draw, zero_Draw, zero_Draw, zero_Draw] 1\<rparr>\<rparr>, None)"
  by code_simp

lemma Decode_joker_24_12_2017:
  "Decode \<lparr>chunks = [joker_24_12_2017], rderr = None, closed = False\<rparr>
     (Pointer store_drawsByDate new_drawsByDate) =
     (\<lparr>chunks = [], rderr = None, closed = False\<rparr>, joker_24_12_2017,
      Inr \<lparr>drawsByDate.Draws = \<lparr>drawsByDate_Draws.Draw = Slice [joker_1873_draw, zero_Draw, zero_Draw, zero_Draw] 1\<rparr>\<rparr>)"
  unfolding Decode_def body.simps readValue_joker_24_12_2017
  by (simp add: store_drawsByDate_joker_24_12_2017)

lemma by_date_joker_answer:
  "client (theClient (test_world by_date_joker))
     (request_for ''/DrawsRestServices/joker/drawDate/24-12-2017.json'') =
     Received \<lparr>StatusCode = 200,
               Body = \<lparr>chunks = [joker_24_12_2017], rderr = None, closed = False\<rparr>,
               Request = request_for ''/DrawsRestServices/joker/drawDate/24-12-2017.json''\<rparr>"
  by (simp add: test_world_def NewClient_def by_date_joker_def serve_def request_for_def)

lemma fmt_d_date: "fmt_d 24 = ''24''" "fmt_d 12 = ''12''" "fmt_d 2017 = ''2017''"
  by code_simp+

lemma fmtDigits_0: "fmtDigits 0 = ''0''"
  by code_simp

lemma fmt_d_nat: "fmt_d (int u) = fmtDigits u"
  by (simp add: fmt_d_def)

lemma fmt_d_neg: "0 < u \<Longrightarrow> fmt_d (- int u) = CHR ''-'' # fmtDigits u"
  by (simp add: fmt_d_def)


text \<open>
  C2. \<^verbatim>\<open>ByDate\<close> and \<^verbatim>\<open>PropoByDate\<close> build a GET request for the path
  \<open>endpoint/g/drawDate/day-month-year.json\<close>, the three numbers written by \<^verbatim>\<open>%d\<close>, and send
  it; when the answer has a status from 200 to 299 and its body decodes into the
  multi-draw envelope, they return the envelope's \<^verbatim>\<open>draws.draw\<close> field, the response and
  a nil error. On a client made by \<^verbatim>\<open>NewClient\<close> and for every game name of plain
  segments, building the request succeeds for all integers, and the URL requested is the
  base URL followed by that path. \<^verbatim>\<open>%d\<close> writes a natural number as its decimal digits,
  whose value is the number, with no leading zero (5 as \<^verbatim>\<open>5\<close>), and a negative number
  as a minus sign and the digits of its magnitude.
\<close>

theorem ByDate_returns_draws:
  "(NewRequest ''GET''
      (Endpoint (Client.Draws (theClient w)) @ ''/'' @ g @ ''/drawDate/'' @
       fmt_d day @ ''-'' @ fmt_d month @ ''-'' @ fmt_d year @ ''.json'')
      None w = (Inr req, w) \<longrightarrow>
      Method req = ''GET'' \<and>
      sent (snd (ByDate g day month year w)) = sent w @ [req] \<and>
      sent (snd (PropoByDate g day month year w)) = sent w @ [req] \<and>
      (client (theClient w) req = Received resp \<and>
       200 \<le> StatusCode resp \<and> StatusCode resp \<le> 299 \<longrightarrow>
         (Decode (Body resp) (Pointer store_drawsByDate new_drawsByDate) = (b, buf, Inr env) \<longrightarrow>
            ByDate g day month year w =
              ((drawsByDate_Draws.Draw (drawsByDate.Draws env),
                Some (Close (resp\<lparr>Body := b\<rparr>)), None),
               w\<lparr>sent := sent w @ [req]\<rparr>)) \<and>
         (Decode (Body resp) (Pointer store_propoDrawsByDate new_propoDrawsByDate) =
            (pb, pbuf, Inr penv) \<longrightarrow>
            PropoByDate g day month year w =
              ((propoDrawsByDate_Draws.Draw (propoDrawsByDate.Draws penv),
                Some (Close (resp\<lparr>Body := pb\<rparr>)), None),
               w\<lparr>sent := sent w @ [req]\<rparr>)))) \<and>
   (theClient w = NewClient d h \<and> plain_segments g \<longrightarrow>
      NewRequest ''GET''
        (Endpoint (Client.Draws (theClient w)) @ ''/'' @ g @ ''/drawDate/'' @
         fmt_d day @ ''-'' @ fmt_d month @ ''-'' @ fmt_d year @ ''.json'')
        None w =
        (Inr (request_for (''/DrawsRestServices/'' @ g @ ''/drawDate/'' @
                fmt_d day @ ''-'' @ fmt_d month @ ''-'' @ fmt_d year @ ''.json'')), w) \<and>
      URL_String (URL (request_for (''/DrawsRestServices/'' @ g @ ''/drawDate/'' @
                fmt_d day @ ''-'' @ fmt_d month @ ''-'' @ fmt_d year @ ''.json''))) =
        ''http://applications.opap.gr/DrawsRestServices/'' @ g @ ''/drawDate/'' @
          fmt_d day @ ''-'' @ fmt_d month @ ''-'' @ fmt_d year @ ''.json'') \<and>
   fmt_d (int u) = fmtDigits u \<and>
   (0 < u \<longrightarrow> fmt_d (- int u) = CHR ''-'' # fmtDigits u \<and> hd (fmtDigits u) \<noteq> CHR ''0'') \<and>
   fmtDigits u \<noteq> [] \<and> list_all isdigit (fmtDigits u) \<and> digit_value (fmtDigits u) = int u \<and>
   fmt_d 0 = ''0'' \<and> fmt_d 5 = ''5''"
proof (intro conjI impI)
  assume a: "NewRequest ''GET''
      (Endpoint (Client.Draws (theClient w)) @ ''/'' @ g @ ''/drawDate/'' @
       fmt_d day @ ''-'' @ fmt_d month @ ''-'' @ fmt_d year @ ''.json'')
      None w = (Inr req, w)"
  from a show "Method req = ''GET''"
    using NewRequest_Method [of "''GET''" _ None w req w] by simp
  from a show "sent (snd (ByDate g day month year w)) = sent w @ [req]"
    by (rule ByDate_sent)
  from a show "sent (snd (PropoByDate g day month year w)) = sent w @ [req]"
    by (rule PropoByDate_sent)
  assume r: "client (theClient w) req = Received resp \<and>
       200 \<le> StatusCode resp \<and> StatusCode resp \<le> 299"
  {
    assume "Decode (Body resp) (Pointer store_drawsByDate new_drawsByDate) = (b, buf, Inr env)"
    with a r show "ByDate g day month year w =
              ((drawsByDate_Draws.Draw (drawsByDate.Draws env),
                Some (Close (resp\<lparr>Body := b\<rparr>)), None),
               w\<lparr>sent := sent w @ [req]\<rparr>)"
      by (intro ByDate_decoded) simp_all
  }
  {
    assume "Decode (Body resp) (Pointer store_propoDrawsByDate new_propoDrawsByDate) =
            (pb, pbuf, Inr penv)"
    with a r show "PropoByDate g day month year w =
              ((propoDrawsByDate_Draws.Draw (propoDrawsByDate.Draws penv),
                Some (Close (resp\<lparr>Body := pb\<rparr>)), None),
               w\<lparr>sent := sent w @ [req]\<rparr>)"
      by (intro PropoByDate_decoded) simp_all
  }
next
  assume a: "theClient w = NewClient d h \<and> plain_segments g"
  then have p: "plain_path (defaultDrawsEndpoint @ ''/'' @ g @ ''/drawDate/'' @
                     fmt_d day @ ''-'' @ fmt_d month @ ''-'' @ fmt_d year @ ''.json'')"
    by (intro plain_by_date) simp
  from a have c: "theClient w = NewClient d h"
    by simp
  show "NewRequest ''GET''
        (Endpoint (Client.Draws (theClient w)) @ ''/'' @ g @ ''/drawDate/'' @
         fmt_d day @ ''-'' @ fmt_d month @ ''-'' @ fmt_d year @ ''.json'')
        None w =
        (Inr (request_for (''/DrawsRestServices/'' @ g @ ''/drawDate/'' @
                fmt_d day @ ''-'' @ fmt_d month @ ''-'' @ fmt_d year @ ''.json'')), w)"
    using NewRequest_default(1) [OF c p]
    by (simp add: c Endpoint_NewClient defaultDrawsEndpoint_def)
  show "URL_String (URL (request_for (''/DrawsRestServices/'' @ g @ ''/drawDate/'' @
                fmt_d day @ ''-'' @ fmt_d month @ ''-'' @ fmt_d year @ ''.json''))) =
        ''http://applications.opap.gr/DrawsRestServices/'' @ g @ ''/drawDate/'' @
          fmt_d day @ ''-'' @ fmt_d month @ ''-'' @ fmt_d year @ ''.json''"
    using NewRequest_default(2) [OF c p]
    by (simp add: defaultDrawsEndpoint_def defaultBaseURL_def)
next
  show "fmt_d (int u) = fmtDigits u"
    by (rule fmt_d_nat)
next
  assume "0 < u"
  then show "fmt_d (- int u) = CHR ''-'' # fmtDigits u"
    by (rule fmt_d_neg)
next
  assume "0 < u"
  then show "hd (fmtDigits u) \<noteq> CHR ''0''"
    by (rule fmtDigits_no_leading_zero)
next
  show "fmtDigits u \<noteq> []"
    by (rule fmtDigits_nonempty)
next
  show "list_all isdigit (fmtDigits u)"
    by (rule fmtDigits_digits)
next
  show "digit_value (fmtDigits u) = int u"
    by (rule fmtDigits_value)
next
  show "fmt_d 0 = ''0''"
    using fmt_d_nat [of 0] fmtDigits_0 by simp
next
  show "fmt_d 5 = ''5''"
    by (rule fmt_d_5)
qed

theorem ByDate_returns_draws_witness:
  "NewRequest ''GET''
     (Endpoint (Client.Draws (theClient (test_world by_date_joker))) @ ''/'' @ Joker @
      ''/drawDate/'' @ fmt_d 24 @ ''-'' @ fmt_d 12 @ ''-'' @ fmt_d 2017 @ ''.json'')
     None (test_world by_date_joker) =
     (Inr (request_for ''/DrawsRestServices/joker/drawDate/24-12-2017.json''),
      test_world by_date_joker) \<and>
   URL_String (URL (request_for ''/DrawsRestServices/joker/drawDate/24-12-2017.json'')) =
     ''http://applications.opap.gr/DrawsRestServices/joker/drawDate/24-12-2017.json'' \<and>
   Method (request_for ''/DrawsRestServices/joker/drawDate/24-12-2017.json'') = ''GET'' \<and>
   sent (snd (ByDate Joker 24 12 2017 (test_world by_date_joker))) =
     [request_for ''/DrawsRestServices/joker/drawDate/24-12-2017.json''] \<and>
   fst (ByDate Joker 24 12 2017 (test_world by_date_joker)) =
     (Slice [joker_1873_draw, zero_Draw, zero_Draw, zero_Draw] 1,
      Some \<lparr>StatusCode = 200, Body = \<lparr>chunks = [], rderr = None, closed = True\<rparr>,
            Request = request_for ''/DrawsRestServices/joker/drawDate/24-12-2017.json''\<rparr>,
      None) \<and>
   elems (fst (fst (ByDate Joker 24 12 2017 (test_world by_date_joker)))) = [joker_1873_draw] \<and>
   fmt_d (- 5) = ''-5'' \<and> hd (fmtDigits 5) \<noteq> CHR ''0''"
proof -
  let ?w = "test_world by_date_joker"
  let ?req = "request_for ''/DrawsRestServices/joker/drawDate/24-12-2017.json''"
  let ?resp = "\<lparr>StatusCode = 200,
                Body = \<lparr>chunks = [joker_24_12_2017], rderr = None, closed = False\<rparr>,
                Request = ?req\<rparr>"
  let ?env = "\<lparr>drawsByDate.Draws =
      \<lparr>drawsByDate_Draws.Draw = Slice [joker_1873_draw, zero_Draw, zero_Draw, zero_Draw] 1\<rparr>\<rparr>"
  note th = ByDate_returns_draws [of ?w Joker 24 12 2017 ?req ?resp
      "\<lparr>chunks = [], rderr = None, closed = False\<rparr>" joker_24_12_2017 ?env
      _ _ _ by_date_joker "Some by_date_joker" 5]
  have c: "theClient ?w = NewClient by_date_joker (Some by_date_joker)"
    by (simp add: test_world_def)
  have nr: "NewRequest ''GET''
     (Endpoint (Client.Draws (theClient ?w)) @ ''/'' @ Joker @
      ''/drawDate/'' @ fmt_d 24 @ ''-'' @ fmt_d 12 @ ''-'' @ fmt_d 2017 @ ''.json'') None ?w =
     (Inr ?req, ?w)"
    and us: "URL_String (URL ?req) =
      ''http://applications.opap.gr/DrawsRestServices/joker/drawDate/24-12-2017.json''"
    using th c plain_segments_Joker by (simp_all add: Joker_def fmt_d_date)
  have dec: "Decode (Body ?resp) (Pointer store_drawsByDate new_drawsByDate) =
     (\<lparr>chunks = [], rderr = None, closed = False\<rparr>, joker_24_12_2017, Inr ?env)"
    by (simp add: Decode_joker_24_12_2017)
  have m: "Method ?req = ''GET''"
    and s: "sent (snd (ByDate Joker 24 12 2017 ?w)) = sent ?w @ [?req]"
    and l: "ByDate Joker 24 12 2017 ?w =
      ((drawsByDate_Draws.Draw (drawsByDate.Draws ?env),
        Some (Close (?resp\<lparr>Body := \<lparr>chunks = [], rderr = None, closed = False\<rparr>\<rparr>)), None),
       ?w\<lparr>sent := sent ?w @ [?req]\<rparr>)"
    using th nr by_date_joker_answer dec by simp_all
  have e: "sent ?w = []"
    by (simp add: test_world_def)
  have n: "fmt_d (- 5) = ''-5''" "hd (fmtDigits 5) \<noteq> CHR ''0''"
    using th fmt_d_5 by simp_all
  show ?thesis
    unfolding l s e using nr us m n
    by (simp add: Close_def)
qed

section \<open>Empty envelopes\<close>










lemma readValue_empty_object:
  "readValue new_scanner new_builder [] [''{}''] None = (''{}'', [], Inr (JObject []))"
  by code_simp

lemma store_empty_object:
  "store_draws (JObject []) new_draws = (new_draws, None)"
  "store_propoDraws (JObject []) new_propoDraws = (new_propoDraws, None)"
  "store_drawsByDate (JObject []) new_drawsByDate = (new_drawsByDate, None)"
  "store_propoDrawsByDate (JObject []) new_propoDrawsByDate = (new_propoDrawsByDate, None)"
  by code_simp+

lemma Decode_empty_object:
  "Decode \<lparr>chunks = [''{}''], rderr = None, closed = False\<rparr> (Pointer store_draws new_draws) =
     (\<lparr>chunks = [], rderr = None, closed = False\<rparr>, ''{}'', Inr new_draws)"
  "Decode \<lparr>chunks = [''{}''], rderr = None, closed = False\<rparr>
     (Pointer store_propoDraws new_propoDraws) =
     (\<lparr>chunks = [], rderr = None, closed = False\<rparr>, ''{}'', Inr new_propoDraws)"
  "Decode \<lparr>chunks = [''{}''], rderr = None, closed = False\<rparr>
     (Pointer store_drawsByDate new_drawsByDate) =
     (\<lparr>chunks = [], rderr = None, closed = False\<rparr>, ''{}'', Inr new_drawsByDate)"
  "Decode \<lparr>chunks = [''{}''], rderr = None, closed = False\<rparr>
     (Pointer store_propoDrawsByDate new_propoDrawsByDate) =
     (\<lparr>chunks = [], rderr = None, closed = False\<rparr>, ''{}'', Inr new_propoDrawsByDate)"
  unfolding Decode_def body.simps readValue_empty_object
  by (simp_all add: store_empty_object)




lemma Close_answered:
  "Close \<lparr>StatusCode = code, Body = \<lparr>chunks = [], rderr = None, closed = False\<rparr>, Request = req\<rparr> =
   answered code req"
  by (simp add: Close_def answered_def)







section \<open>The game constants\<close>

lemma ascii_game_values:
  "Kino = ''kino''" "Lotto = ''lotto''" "Joker = ''joker''" "Proto = ''proto''"
  "Super3 = ''super3''" "Extra5 = ''extra5''" "Propogoal = ''propogoal''"
  "Penalties = ''penalties''" "Bowling = ''bowling''"
  "PropoSun = ''proposun''" "PropoSat = ''proposat''" "PropoWed = ''propowed''"
  by (simp_all add: Kino_def Lotto_def Joker_def Proto_def Super3_def Extra5_def Propogoal_def
      Penalties_def Bowling_def PropoSun_def PropoSat_def PropoWed_def)

lemma ascii_games_requests:
  "list_all
     (\<lambda>g. fst (NewRequest ''GET''
                 (Endpoint (Client.Draws (theClient (test_world refuse))) @ ''/'' @ g @ ''/last.json'')
                 None (test_world refuse)) =
            Inr (request_for (''/DrawsRestServices/'' @ g @ ''/last.json'')) \<and>
          URL_String (URL (request_for (''/DrawsRestServices/'' @ g @ ''/last.json''))) =
            ''http://applications.opap.gr/DrawsRestServices/'' @ g @ ''/last.json'')
     [Kino, Lotto, Joker, Proto, Super3, Extra5, Propogoal, Penalties, Bowling]"
  by code_simp

lemma Powerspin_bytes:
  "Powerspin = [CHR ''p'', CHR 0xCE, CHR 0xBF, CHR ''w'', CHR ''e'', CHR ''r'', CHR ''s'',
                CHR ''p'', CHR ''i'', CHR ''n'']"
  by (simp add: Powerspin_def)

lemma Powerspin_not_ascii:
  "Powerspin \<noteq> ''powerspin''" "length Powerspin = 10"
  "\<not> list_all (\<lambda>c. of_char c < (128 :: nat)) Powerspin"
  by code_simp+

lemma fst_NewRequest_Powerspin:
  "fst (NewRequest ''GET''
          (Endpoint (Client.Draws (theClient (test_world refuse))) @ ''/'' @ Powerspin @ ''/last.json'')
          None (test_world refuse)) =
   Inr (request_for (''/DrawsRestServices/'' @ Powerspin @ ''/last.json''))"
  by code_simp

lemma URL_String_Powerspin:
  "URL_String (URL (request_for (''/DrawsRestServices/'' @ Powerspin @ ''/last.json''))) =
     ''http://applications.opap.gr/DrawsRestServices/p%CE%BFwerspin/last.json''"
  by code_simp

lemma sent_Latest_Powerspin:
  "sent (snd (Latest Powerspin (test_world refuse))) =
     [request_for (''/DrawsRestServices/'' @ Powerspin @ ''/last.json'')]"
  using Latest_sent [OF NewRequest_eqI [OF fst_NewRequest_Powerspin]]
  by (simp add: test_world_def)

text \<open>
  C8. The nine constants from \<^verbatim>\<open>Kino\<close> to \<^verbatim>\<open>Bowling\<close> and the three Propo constants have
  the values the claim lists, in ASCII, and \<^verbatim>\<open>Latest\<close> on each of the nine requests the
  URL that has the value as a path segment. The tenth constant does not: its value is
  not \<^verbatim>\<open>powerspin\<close> but ten bytes, the second letter being the two bytes CE BF of a Greek
  omicron, and the URL that \<^verbatim>\<open>Latest\<close> requests for it has the segment
  \<^verbatim>\<open>p%CE%BFwerspin\<close>.
\<close>

theorem game_tags:
  "Kino = ''kino'' \<and> Lotto = ''lotto'' \<and> Joker = ''joker'' \<and> Proto = ''proto'' \<and>
   Super3 = ''super3'' \<and> Extra5 = ''extra5'' \<and> Propogoal = ''propogoal'' \<and>
   Penalties = ''penalties'' \<and> Bowling = ''bowling'' \<and>
   PropoSun = ''proposun'' \<and> PropoSat = ''proposat'' \<and> PropoWed = ''propowed'' \<and>
   list_all
     (\<lambda>g. fst (NewRequest ''GET''
                 (Endpoint (Client.Draws (theClient (test_world refuse))) @ ''/'' @ g @ ''/last.json'')
                 None (test_world refuse)) =
            Inr (request_for (''/DrawsRestServices/'' @ g @ ''/last.json'')) \<and>
          URL_String (URL (request_for (''/DrawsRestServices/'' @ g @ ''/last.json''))) =
            ''http://applications.opap.gr/DrawsRestServices/'' @ g @ ''/last.json'')
     [Kino, Lotto, Joker, Proto, Super3, Extra5, Propogoal, Penalties, Bowling] \<and>
   Powerspin \<noteq> ''powerspin'' \<and>
   Powerspin = [CHR ''p'', CHR 0xCE, CHR 0xBF, CHR ''w'', CHR ''e'', CHR ''r'', CHR ''s'',
                CHR ''p'', CHR ''i'', CHR ''n''] \<and>
   \<not> list_all (\<lambda>c. of_char c < (128 :: nat)) Powerspin \<and>
   sent (snd (Latest Powerspin (test_world refuse))) =
     [request_for (''/DrawsRestServices/'' @ Powerspin @ ''/last.json'')] \<and>
   URL_String (URL (request_for (''/DrawsRestServices/'' @ Powerspin @ ''/last.json''))) =
     ''http://applications.opap.gr/DrawsRestServices/p%CE%BFwerspin/last.json''"
  using ascii_game_values ascii_games_requests Powerspin_bytes Powerspin_not_ascii
    sent_Latest_Powerspin URL_String_Powerspin
  by blast

theorem game_tags_witness:
  "Joker = ''joker'' \<and>
   Powerspin \<noteq> ''powerspin'' \<and>
   sent (snd (Latest Powerspin (test_world refuse))) =
     [request_for (''/DrawsRestServices/'' @ Powerspin @ ''/last.json'')] \<and>
   URL_String (URL (request_for (''/DrawsRestServices/'' @ Powerspin @ ''/last.json''))) =
     ''http://applications.opap.gr/DrawsRestServices/p%CE%BFwerspin/last.json''"
  using game_tags by blast

section \<open>Reading one value\<close>

lemma stateEndTop_end: "fst (stateEndTop s c) = scanEnd"
  by (simp add: stateEndTop_def)

lemma stateEndValue_top: "parseState s = [] \<Longrightarrow> fst (stateEndValue s c) = scanEnd"
  by (simp add: stateEndValue_def stateEndTop_end)

lemma stateEndValue_space:
  "fst (stateEndValue s CHR '' '') = scanEnd \<Longrightarrow> parseState s = []"
  by (cases "parseState s") (simp_all add: stateEndValue_def isSpace_def)

lemma space_not_digit: "\<not> isdigit CHR '' ''"
  by code_simp

lemma scan_end_any:
  assumes "fst (scan_step s CHR '' '') = scanEnd"
    and "\<not> (step s \<in> set [St0, St1, Dot0, E0] \<and> continues_number c)"
  shows "fst (scan_step s c) = scanEnd"
proof (cases "step s \<in> set [St0, St1, Dot0, E0]")
  case True
  with assms(2) have c: "\<not> isdigit c" "c \<noteq> CHR ''.''" "c \<noteq> CHR ''e''" "c \<noteq> CHR ''E''"
    by (auto simp: continues_number_def)
  from True assms(1) have "fst (stateEndValue s CHR '' '') = scanEnd"
    by (auto simp: state0_def state1_def stateDot0_def stateE0_def space_not_digit)
  then have "fst (stateEndValue s c) = scanEnd"
    using stateEndValue_space stateEndValue_top by blast
  with True c show ?thesis
    by (auto simp: state0_def state1_def stateDot0_def stateE0_def)
next
  case False
  with assms(1) have "step s = EndValue \<or> step s = EndTop"
    by (cases "step s")
      (simp_all add: stateBeginValueOrEmpty_def stateBeginValue_def stateBeginStringOrEmpty_def
        stateBeginString_def stateInString_def stateInStringEsc_def stateInStringEscU_any_def
        stateNeg_def stateDot_def stateE_def stateESign_def stateLiteral_def scan_error_def
        isSpace_def space_not_digit ishex_def)
  then show ?thesis
  proof
    assume e: "step s = EndValue"
    with assms(1) have "parseState s = []"
      using stateEndValue_space by simp
    with e show ?thesis
      by (simp add: stateEndValue_top)
  next
    assume "step s = EndTop"
    then show ?thesis
      by (simp add: stateEndTop_end)
  qed
qed

lemma scanBytes_append:
  "scanBytes s b (xs @ ys) =
     (case scanBytes s b xs of Done r \<Rightarrow> Done r | More s' b' \<Rightarrow> scanBytes s' b' ys)"
  by (induction xs arbitrary: s b) (auto split: prod.splits)

text \<open>What \<^verbatim>\<open>readValue\<close> returns depends on the bytes of the stream, not on how the reads cut them.\<close>

lemma readValue_result:
  "snd (snd (readValue s b buf chs rd)) =
     (case scanBytes s b (concat chs) of
        Done r \<Rightarrow> r
      | More s' b' \<Rightarrow>
          (case rd of
             Some msg \<Rightarrow> Inl (ReadError msg)
           | None \<Rightarrow>
               if fst (scan_step s' CHR '' '') = scanEnd then built_value b'
               else if nonSpace (buf @ concat chs) then Inl io_ErrUnexpectedEOF
               else Inl io_EOF))"
proof (induction chs arbitrary: s b buf)
  case Nil
  show ?case
    by (simp del: scan_step.simps)
next
  case (Cons c chs)
  show ?case
  proof (cases "scanBytes s b c")
    case (Done r)
    then show ?thesis
      by (simp add: scanBytes_append del: scan_step.simps)
  next
    case (More s' b')
    then show ?thesis
      using Cons [of s' b' "buf @ c"]
      by (simp add: scanBytes_append del: scan_step.simps)
  qed
qed

lemma readValue_trailing:
  assumes doc: "snd (snd (readValue new_scanner new_builder [] [d] None)) = Inr j"
    and chs: "concat chs = d @ t"
    and t: "t \<noteq> [] \<or> rd = None"
    and num: "\<not> (pending_number d \<and> continues_number (hd t))"
  shows "snd (snd (readValue new_scanner new_builder [] chs rd)) = Inr j"
proof (cases "scanBytes new_scanner new_builder d")
  case (Done r)
  with doc have "r = Inr j"
    by (simp add: readValue_result del: scan_step.simps)
  with Done show ?thesis
    by (simp add: readValue_result chs scanBytes_append del: scan_step.simps)
next
  case (More s' b')
  with doc have e: "fst (scan_step s' CHR '' '') = scanEnd" and v: "built_value b' = Inr j"
    by (simp_all add: readValue_result del: scan_step.simps split: if_splits)
  show ?thesis
  proof (cases t)
    case Nil
    with t have "rd = None"
      by simp
    with Nil More e v show ?thesis
      by (simp add: readValue_result chs del: scan_step.simps)
  next
    case (Cons c t')
    from num More Cons have "\<not> (step s' \<in> set [St0, St1, Dot0, E0] \<and> continues_number c)"
      by (simp add: pending_number_def)
    with e have "fst (scan_step s' c) = scanEnd"
      by (rule scan_end_any)
    then have "scanBytes s' b' (c # t') = Done (built_value b')"
      by (cases "scan_step s' c") (simp del: scan_step.simps)
    with More Cons v show ?thesis
      by (simp add: readValue_result chs scanBytes_append del: scan_step.simps)
  qed
qed

lemma Decode_result:
  "snd (snd (Decode r (Pointer um x))) =
     (case snd (snd (readValue new_scanner new_builder [] (chunks r) (rderr r))) of
        Inl e \<Rightarrow> Inl e
      | Inr j \<Rightarrow> (case um j x of (x', None) \<Rightarrow> Inr x' | (x', Some e) \<Rightarrow> Inl e))"
  by (simp add: Decode_def split: prod.splits sum.splits)

lemma Decode_trailing:
  assumes doc: "snd (snd (Decode \<lparr>chunks = [d], rderr = None, closed = False\<rparr> (Pointer um x))) = Inr y"
    and chs: "concat (chunks r) = d @ t"
    and t: "t \<noteq> [] \<or> rderr r = None"
    and num: "\<not> (pending_number d \<and> continues_number (hd t))"
  shows "snd (snd (Decode r (Pointer um x))) = Inr y"
proof -
  from doc obtain j where j: "snd (snd (readValue new_scanner new_builder [] [d] None)) = Inr j"
    and st: "(case um j x of (x', None) \<Rightarrow> Inr x' | (x', Some e) \<Rightarrow> Inl e) = Inr y"
    by (auto simp: Decode_result split: sum.splits)
  from readValue_trailing [OF j chs t num] st show ?thesis
    by (simp add: Decode_result)
qed

lemma Do_decoded_result:
  assumes "client (theClient w) req = Received resp"
    and "200 \<le> StatusCode resp" and "StatusCode resp \<le> 299"
    and "snd (snd (Decode (Body resp) (Pointer um x))) = Inr y"
  shows "Do req (Pointer um x) w =
     ((Some y, Some (Close (resp\<lparr>Body := fst (Decode (Body resp) (Pointer um x))\<rparr>)), None),
      w\<lparr>sent := sent w @ [req]\<rparr>)"
proof -
  obtain b buf where "Decode (Body resp) (Pointer um x) = (b, buf, Inr y)"
    using assms(4) by (cases "Decode (Body resp) (Pointer um x)") auto
  then show ?thesis
    using Do_decoded [OF assms(1-3)] by simp
qed


section \<open>Numbers at top level\<close>

lemma in_number_step: "in_number (s\<lparr>step := x\<rparr>) = (x \<in> set [Neg, St1, St0, Dot, Dot0, StE, ESign, E0])"
  by (simp add: in_number_def)

lemma in_number_parseState: "in_number (s\<lparr>parseState := ps\<rparr>) = in_number s"
  by (simp add: in_number_def)

lemma not_in_number_error: "\<not> in_number (snd (scan_error s c msg))"
  by (simp add: scan_error_def in_number_def)

lemma not_in_number_stateEndTop: "\<not> in_number s \<Longrightarrow> \<not> in_number (snd (stateEndTop s c))"
  by (simp add: stateEndTop_def not_in_number_error)

lemma not_in_number_stateEndValue: "\<not> in_number (snd (stateEndValue s c))"
proof (cases "parseState s")
  case Nil
  then show ?thesis
    using not_in_number_stateEndTop [of "s\<lparr>step := EndTop\<rparr>" c]
    by (simp add: stateEndValue_def in_number_step)
next
  case (Cons ps rest)
  then show ?thesis
    by (cases ps)
      (simp_all add: stateEndValue_def in_number_step not_in_number_error popParseState_def Let_def)
qed

lemma number_literal_other: "\<not> in_number s \<Longrightarrow> number_literal s b"
  by (simp add: number_literal_def)

lemma number_literal_begin:
  assumes "\<not> in_number s"
  shows "number_literal (snd (stateBeginValue s c)) (build b (fst (stateBeginValue s c)) c)"
  using assms not_in_number_error [of s c "''looking for beginning of value''"]
  by (simp add: stateBeginValue_def number_literal_def in_number_step in_number_parseState
      build_def)

lemma number_literal_continue:
  assumes "number_literal s b" and "in_number s"
  shows "number_literal (s\<lparr>step := x\<rparr>) (build b scanContinue c)"
    and "number_literal s (build b scanContinue c)"
  using assms by (auto simp: number_literal_def build_def)

lemma number_literal_in_number:
  assumes inv: "number_literal s b" and num: "in_number s"
  shows "number_literal (snd (scan_step s c)) (build b (fst (scan_step s c)) c)"
proof -
  note nc = number_literal_continue [OF inv num]
  have ev: "number_literal (snd (stateEndValue s c)) (build b (fst (stateEndValue s c)) c)"
    using not_in_number_stateEndValue by (rule number_literal_other)
  have er: "\<And>msg. number_literal (snd (scan_error s c msg)) (build b (fst (scan_error s c msg)) c)"
    using not_in_number_error by (rule number_literal_other)
  have s0: "number_literal (snd (state0 s c)) (build b (fst (state0 s c)) c)"
    using nc ev by (simp add: state0_def)
  have s1: "number_literal (snd (state1 s c)) (build b (fst (state1 s c)) c)"
    using nc s0 by (simp add: state1_def)
  have sn: "number_literal (snd (stateNeg s c)) (build b (fst (stateNeg s c)) c)"
    using nc er by (simp add: stateNeg_def)
  have sd: "number_literal (snd (stateDot s c)) (build b (fst (stateDot s c)) c)"
    using nc er by (simp add: stateDot_def)
  have sd0: "number_literal (snd (stateDot0 s c)) (build b (fst (stateDot0 s c)) c)"
    using nc ev by (simp add: stateDot0_def)
  have ses: "number_literal (snd (stateESign s c)) (build b (fst (stateESign s c)) c)"
    using nc er by (simp add: stateESign_def)
  have se: "number_literal (snd (stateE s c)) (build b (fst (stateE s c)) c)"
    using nc ses by (simp add: stateE_def)
  have se0: "number_literal (snd (stateE0 s c)) (build b (fst (stateE0 s c)) c)"
    using nc ev by (simp add: stateE0_def)
  from num have "step s = Neg \<or> step s = St1 \<or> step s = St0 \<or> step s = Dot \<or> step s = Dot0 \<or>
      step s = StE \<or> step s = ESign \<or> step s = E0"
    by (simp add: in_number_def)
  then show ?thesis
    using s0 s1 sn sd sd0 ses se se0 by (elim disjE) simp_all
qed

lemma not_in_number_other:
  assumes "\<not> in_number s" and "step s \<noteq> BeginValue" and "step s \<noteq> BeginValueOrEmpty"
  shows "\<not> in_number (snd (scan_step s c))"
proof (cases "step s")
  case BeginStringOrEmpty
  then show ?thesis
    using assms(1) not_in_number_stateEndValue not_in_number_error
    by (simp add: stateBeginStringOrEmpty_def stateBeginString_def in_number_step)
next
  case BeginString
  then show ?thesis
    using assms(1) not_in_number_error by (simp add: stateBeginString_def in_number_step)
next
  case EndValue
  then show ?thesis
    using not_in_number_stateEndValue by simp
next
  case EndTop
  then show ?thesis
    using not_in_number_stateEndTop [OF assms(1)] by simp
next
  case InString
  then show ?thesis
    using assms(1) not_in_number_error by (simp add: stateInString_def in_number_step)
next
  case InStringEsc
  then show ?thesis
    using assms(1) not_in_number_error by (simp add: stateInStringEsc_def in_number_step)
next
  case StError
  then show ?thesis
    using assms(1) by simp
qed (use assms not_in_number_error in
    \<open>simp_all add: in_number_def [of s] stateInStringEscU_any_def stateLiteral_def in_number_step\<close>)

lemma number_literal_step:
  assumes "number_literal s b"
  shows "number_literal (snd (scan_step s c)) (build b (fst (scan_step s c)) c)"
proof (cases "in_number s")
  case True
  with assms show ?thesis
    by (rule number_literal_in_number)
next
  case False
  show ?thesis
  proof (cases "step s = BeginValue \<or> step s = BeginValueOrEmpty")
    case True
    then show ?thesis
      using number_literal_begin [OF False, of c b] number_literal_other [OF False]
        number_literal_other [OF not_in_number_stateEndValue]
      by (auto simp: stateBeginValueOrEmpty_def)
  next
    case False2: False
    with False have "\<not> in_number (snd (scan_step s c))"
      by (intro not_in_number_other) simp_all
    then show ?thesis
      by (rule number_literal_other)
  qed
qed

lemma scanBytes_number_literal:
  "number_literal s b \<Longrightarrow> scanBytes s b d = More s' b' \<Longrightarrow> number_literal s' b'"
proof (induction d arbitrary: s b)
  case Nil
  then show ?case by simp
next
  case (Cons c d)
  obtain opc s1 where st: "scan_step s c = (opc, s1)"
    by (cases "scan_step s c")
  have inv: "number_literal s1 (build b opc c)"
    using number_literal_step [OF Cons.prems(1), of c] st by simp
  show ?case
  proof (cases "opc = scanEndObject \<or> opc = scanEndArray")
    case True
    obtain opc' s2 where ev: "stateEndValue s1 CHR '' '' = (opc', s2)"
      by (cases "stateEndValue s1 CHR '' ''")
    have "number_literal s2 (build b opc c)"
      using number_literal_other [OF not_in_number_stateEndValue, of s1 "CHR '' ''" "build b opc c"] ev
      by simp
    moreover from Cons.prems(2) st True ev have "scanBytes s2 (build b opc c) d = More s' b'"
      by (auto simp del: scan_step.simps split: if_splits)
    ultimately show ?thesis
      by (rule Cons.IH)
  next
    case False
    with Cons.prems(2) st have "scanBytes s1 (build b opc c) d = More s' b'"
      by (auto simp del: scan_step.simps split: if_splits)
    with inv show ?thesis
      by (rule Cons.IH)
  qed
qed

lemma number_literal_new: "number_literal new_scanner new_builder"
  by (simp add: number_literal_def in_number_def new_scanner_def)

lemma built_number:
  assumes "number_literal s b" and "step s \<in> set [St0, St1, Dot0, E0]"
  shows "built_value b = Inr (JNumber (lit b))"
proof -
  from assms have "lit b \<noteq> []" and "hd (lit b) \<notin> set [dquote, CHR ''t'', CHR ''f'', CHR ''n'']"
    by (auto simp: number_literal_def in_number_def)
  then show ?thesis
    by (simp add: built_value_def flush_def literal_value_def)
qed

lemma pending_number_rejected:
  assumes p: "pending_number d" and rej: "\<forall>n. snd (um (JNumber n) x) \<noteq> None"
  shows "\<exists>e. snd (snd (Decode \<lparr>chunks = [d], rderr = None, closed = cl\<rparr> (Pointer um x))) = Inl e"
proof -
  from p obtain s' b' where m: "scanBytes new_scanner new_builder d = More s' b'"
    and n: "step s' \<in> set [St0, St1, Dot0, E0]"
    by (auto simp: pending_number_def split: scanned.splits)
  from scanBytes_number_literal [OF number_literal_new m] n
  have v: "built_value b' = Inr (JNumber (lit b'))"
    by (rule built_number)
  from rej obtain e where "snd (um (JNumber (lit b')) x) = Some e"
    by auto
  then have "(case um (JNumber (lit b')) x of (x', None) \<Rightarrow> Inr x' | (x', Some e) \<Rightarrow> Inl e) = Inl e"
    by (cases "um (JNumber (lit b')) x") simp
  with m v show ?thesis
    by (auto simp: Decode_result readValue_result simp del: scan_step.simps)
qed

lemma struct_rejects_number: "snd (store_struct ty names store_field (JNumber n) v) \<noteq> None"
  by (simp add: store_struct_def)

lemma envelopes_reject_number:
  "snd (store_draws (JNumber n) d1) \<noteq> None"
  "snd (store_propoDraws (JNumber n) d2) \<noteq> None"
  "snd (store_drawsByDate (JNumber n) d3) \<noteq> None"
  "snd (store_propoDrawsByDate (JNumber n) d4) \<noteq> None"
  by (simp_all add: store_draws_def store_propoDraws_def store_drawsByDate_def
      store_propoDrawsByDate_def struct_rejects_number)

lemma readValue_garbage:
  "readValue new_scanner new_builder [] [''{}garbage''] None = (''{}garbage'', [], Inr (JObject []))"
  by code_simp

lemma Decode_garbage:
  "Decode \<lparr>chunks = [''{}garbage''], rderr = None, closed = False\<rparr>
     (Pointer store_draws new_draws) =
     (\<lparr>chunks = [], rderr = None, closed = False\<rparr>, ''{}garbage'', Inr new_draws)"
  unfolding Decode_def body.simps readValue_garbage
  by (simp add: store_empty_object)

lemma not_pending_empty_object: "\<not> pending_number ''{}''"
  by code_simp

lemma readValue_1: "readValue new_scanner new_builder [] [''1''] None = (''1'', [], Inr (JNumber ''1''))"
  by code_simp

lemma store_int_1: "store_int (JNumber ''1'') 0 = (1, None)"
  by code_simp

lemma Decode_1:
  "Decode \<lparr>chunks = [''1''], rderr = None, closed = False\<rparr> (Pointer store_int 0) =
     (\<lparr>chunks = [], rderr = None, closed = False\<rparr>, ''1'', Inr 1)"
  unfolding Decode_def body.simps readValue_1
  by (simp add: store_int_1)

lemma readValue_1e:
  "readValue new_scanner new_builder [] [''1e''] None = (''1e'', [], Inl io_ErrUnexpectedEOF)"
  by code_simp

lemma Decode_1e:
  "Decode \<lparr>chunks = [''1e''], rderr = None, closed = False\<rparr> (Pointer store_int 0) =
     (\<lparr>chunks = [], rderr = None, closed = False\<rparr>, ''1e'', Inl io_ErrUnexpectedEOF)"
  unfolding Decode_def body.simps readValue_1e
  by simp

lemma pending_1e: "pending_number ''1''" "continues_number CHR ''e''"
  by code_simp+

text \<open>
  C10 (amended). Let the response have a status from 200 to 299, and let the bytes of
  its body, however the reads cut them, be a document \<open>d\<close> followed by trailing bytes
  \<open>t\<close>, where \<open>d\<close> alone decodes into the target without error. Unless \<open>d\<close> ends in a
  top-level number and the first byte of \<open>t\<close> is one that continues a number (a digit,
  \<^verbatim>\<open>.\<close>, \<^verbatim>\<open>e\<close> or \<^verbatim>\<open>E\<close>), decoding the body gives the same value as decoding \<open>d\<close>, and
  \<^verbatim>\<open>Do\<close> returns the response and a nil error. The exception does not arise for a
  target that rejects every JSON number, as the four envelopes of the draws service do.
\<close>

theorem trailing_bytes_ignored:
  "(client (theClient w) req = Received resp \<and>
   200 \<le> StatusCode resp \<and> StatusCode resp \<le> 299 \<and>
   concat (chunks (Body resp)) = d @ t \<and> (t \<noteq> [] \<or> rderr (Body resp) = None) \<and>
   snd (snd (Decode \<lparr>chunks = [d], rderr = None, closed = False\<rparr> (Pointer um x))) = Inr y \<and>
   (\<not> (pending_number d \<and> continues_number (hd t)) \<or>
    (\<forall>n. snd (um (JNumber n) x) \<noteq> None)) \<longrightarrow>
     snd (snd (Decode (Body resp) (Pointer um x))) = Inr y \<and>
     Do req (Pointer um x) w =
       ((Some y, Some (Close (resp\<lparr>Body := fst (Decode (Body resp) (Pointer um x))\<rparr>)), None),
        w\<lparr>sent := sent w @ [req]\<rparr>)) \<and>
   (\<forall>n d1 d2 d3 d4.
      snd (store_draws (JNumber n) d1) \<noteq> None \<and>
      snd (store_propoDraws (JNumber n) d2) \<noteq> None \<and>
      snd (store_drawsByDate (JNumber n) d3) \<noteq> None \<and>
      snd (store_propoDrawsByDate (JNumber n) d4) \<noteq> None)"
proof (rule conjI, rule impI)
  assume a: "client (theClient w) req = Received resp \<and>
   200 \<le> StatusCode resp \<and> StatusCode resp \<le> 299 \<and>
   concat (chunks (Body resp)) = d @ t \<and> (t \<noteq> [] \<or> rderr (Body resp) = None) \<and>
   snd (snd (Decode \<lparr>chunks = [d], rderr = None, closed = False\<rparr> (Pointer um x))) = Inr y \<and>
   (\<not> (pending_number d \<and> continues_number (hd t)) \<or>
    (\<forall>n. snd (um (JNumber n) x) \<noteq> None))"
  have num: "\<not> (pending_number d \<and> continues_number (hd t))"
  proof (cases "\<forall>n. snd (um (JNumber n) x) \<noteq> None")
    case True
    have "\<not> pending_number d"
    proof
      assume "pending_number d"
      then obtain e where
        "snd (snd (Decode \<lparr>chunks = [d], rderr = None, closed = False\<rparr> (Pointer um x))) = Inl e"
        using pending_number_rejected [of d um x False] True by blast
      with a show False
        by simp
    qed
    then show ?thesis
      by simp
  next
    case False
    with a show ?thesis
      by blast
  qed
  with a have dec: "snd (snd (Decode (Body resp) (Pointer um x))) = Inr y"
    by (intro Decode_trailing [of d um x y "Body resp" t]) simp_all
  moreover from a dec have "Do req (Pointer um x) w =
       ((Some y, Some (Close (resp\<lparr>Body := fst (Decode (Body resp) (Pointer um x))\<rparr>)), None),
        w\<lparr>sent := sent w @ [req]\<rparr>)"
    by (intro Do_decoded_result) simp_all
  ultimately show "snd (snd (Decode (Body resp) (Pointer um x))) = Inr y \<and>
     Do req (Pointer um x) w =
       ((Some y, Some (Close (resp\<lparr>Body := fst (Decode (Body resp) (Pointer um x))\<rparr>)), None),
        w\<lparr>sent := sent w @ [req]\<rparr>)"
    by simp
next
  show "\<forall>n d1 d2 d3 d4.
      snd (store_draws (JNumber n) d1) \<noteq> None \<and>
      snd (store_propoDraws (JNumber n) d2) \<noteq> None \<and>
      snd (store_drawsByDate (JNumber n) d3) \<noteq> None \<and>
      snd (store_propoDrawsByDate (JNumber n) d4) \<noteq> None"
    using envelopes_reject_number by blast
qed

theorem trailing_bytes_ignored_witness:
  "fst (Do root_request (Pointer store_draws new_draws) (test_world (answer 200 ''{}garbage''))) =
     (Some new_draws, Some (answered 200 root_request), None)"
proof -
  let ?w = "test_world (answer 200 ''{}garbage'')"
  let ?body = "\<lparr>chunks = [''{}garbage''], rderr = None, closed = False\<rparr>"
  let ?resp = "\<lparr>StatusCode = 200, Body = ?body, Request = root_request\<rparr>"
  have c: "client (theClient ?w) root_request = Received ?resp"
    by (simp add: test_world_def NewClient_def answer_def)
  have doc: "snd (snd (Decode \<lparr>chunks = [''{}''], rderr = None, closed = False\<rparr>
      (Pointer store_draws new_draws))) = Inr new_draws"
    by (simp add: Decode_empty_object(1))
  have "Do root_request (Pointer store_draws new_draws) ?w =
       ((Some new_draws,
         Some (Close (?resp\<lparr>Body := fst (Decode (Body ?resp) (Pointer store_draws new_draws))\<rparr>)),
         None),
        ?w\<lparr>sent := sent ?w @ [root_request]\<rparr>)"
    using trailing_bytes_ignored [of ?w root_request ?resp "''{}''" "''garbage''"
        store_draws new_draws new_draws] c doc not_pending_empty_object
      envelopes_reject_number(1)
    by simp
  then show ?thesis
    by (simp add: Decode_garbage Close_answered)
qed

text \<open>
  C10 as worded fails when the document is a number and the trailing bytes continue
  it: the body \<^verbatim>\<open>1\<close> decodes into an \<^verbatim>\<open>int\<close>, and for the body \<^verbatim>\<open>1e\<close>, the document
  \<^verbatim>\<open>1\<close> followed by the byte \<^verbatim>\<open>e\<close>, \<^verbatim>\<open>Do\<close> returns a decode error.
\<close>

theorem number_continued_counterexample:
  "Decode \<lparr>chunks = [''1''], rderr = None, closed = False\<rparr> (Pointer store_int 0) =
     (\<lparr>chunks = [], rderr = None, closed = False\<rparr>, ''1'', Inr 1) \<and>
   fst (Do root_request (Pointer store_int 0) (test_world (answer 200 ''1e''))) =
     (None, Some (answered 200 root_request),
      Some (errorString ''JSON decoding: unexpected EOF (1e)''))"
proof -
  have "fst (Do root_request (Pointer store_int 0) (test_world (answer 200 ''1e''))) =
     (None, Some (answered 200 root_request),
      Some (errorString ''JSON decoding: unexpected EOF (1e)''))"
    by (simp add: Do_def Let_def test_world_def NewClient_def answer_def checkResponse_def
        Decode_1e Close_def answered_def)
  with Decode_1 show ?thesis
    by simp
qed

end
